(* ===== verification/Prelude.thy ===== *)
theory Prelude
  imports Main "HOL-Library.List_Lexorder" "HOL-Library.Char_ord" "HOL-Library.Word"
    "HOL-Library.Multiset"
begin

text \<open>
  Shared vocabulary of the development: the error type that stands for the script's fatal
  \<open>error()\<close> and the Python exceptions it can raise, and the Python string and number
  builtins that \<open>implib-gen.py\<close> applies to the text output of the binutils tools
  (\<open>str.strip\<close>, \<open>str.split\<close>, \<open>re.split\<close> on runs of a character class,
  \<open>str.startswith\<close>, \<open>in\<close>, \<open>str.isupper\<close>, \<open>int(s, base)\<close>, \<open>str(n)\<close>,
  \<open>int.from_bytes(..., "little")\<close>). Strings are \<open>char list\<close>, one \<open>char\<close> per byte;
  the tools run under \<open>LC_ALL=c\<close>, so the text is ASCII and the ASCII definitions of
  whitespace, case and digits are the ones Python applies.
\<close>

named_theorems py_simps "evaluation rules for the Python builtins of the model"

section \<open>Errors\<close>

text \<open>
  \<open>Fatal msg\<close> is \<open>error(msg)\<close> of the script (message on stderr, exit status 1);
  the other constructors are the uncaught Python exceptions of the same name
  (\<open>OSError\<close>: a program that cannot be started or a file that cannot be opened).
  Every one of them ends the run unless the code catches it.
\<close>

datatype py_error =
    Fatal string
  | KeyError
  | ValueError
  | IndexError
  | AssertionError
  | TypeError
  | OSError

type_synonym 'a result = "py_error + 'a"

text \<open>A loop over a list whose body may raise: the first exception ends it.\<close>

fun fold_result :: "('s \<Rightarrow> 'a \<Rightarrow> 's result) \<Rightarrow> 'a list \<Rightarrow> 's \<Rightarrow> 's result" where
  "fold_result f [] s = Inr s"
| "fold_result f (x # xs) s = (case f s x of Inl e \<Rightarrow> Inl e | Inr s' \<Rightarrow> fold_result f xs s')"

type_synonym byte = "8 word"

abbreviation nl :: char where "nl \<equiv> CHR 0x0A"

abbreviation dq :: char where "dq \<equiv> CHR 0x22"

section \<open>Characters\<close>

definition py_isspace :: "char \<Rightarrow> bool" where
  "py_isspace c \<longleftrightarrow> c \<in> set [CHR 0x20, CHR 0x09, CHR 0x0A, CHR 0x0B, CHR 0x0C, CHR 0x0D,
                           CHR 0x1C, CHR 0x1D, CHR 0x1E, CHR 0x1F]"

definition is_ascii_upper :: "char \<Rightarrow> bool" where
  "is_ascii_upper c \<longleftrightarrow> CHR ''A'' \<le> c \<and> c \<le> CHR ''Z''"

definition is_ascii_lower :: "char \<Rightarrow> bool" where
  "is_ascii_lower c \<longleftrightarrow> CHR ''a'' \<le> c \<and> c \<le> CHR ''z''"

definition is_ascii_digit :: "char \<Rightarrow> bool" where
  "is_ascii_digit c \<longleftrightarrow> CHR ''0'' \<le> c \<and> c \<le> CHR ''9''"

text \<open>The class \<open>[A-Za-z0-9_]\<close> of the script's regular expressions.\<close>

definition is_word_char :: "char \<Rightarrow> bool" where
  "is_word_char c \<longleftrightarrow> is_ascii_upper c \<or> is_ascii_lower c \<or> is_ascii_digit c \<or> c = CHR ''_''"

definition char_upper :: "char \<Rightarrow> char" where
  "char_upper c = (if is_ascii_lower c then char_of (of_char c - (32::nat)) else c)"

text \<open>\<open>str.isupper()\<close>: some cased character and no lower-case one.\<close>

definition py_isupper :: "string \<Rightarrow> bool" where
  "py_isupper s \<longleftrightarrow> list_ex is_ascii_upper s \<and> \<not> list_ex is_ascii_lower s"

section \<open>Strings\<close>

definition py_strip :: "string \<Rightarrow> string" where
  "py_strip s = rev (dropWhile py_isspace (rev (dropWhile py_isspace s)))"

definition starts_with :: "string \<Rightarrow> string \<Rightarrow> bool" where
  "starts_with p s \<longleftrightarrow> take (length p) s = p"

definition ends_with :: "string \<Rightarrow> string \<Rightarrow> bool" where
  "ends_with p s \<longleftrightarrow> starts_with (rev p) (rev s)"

text \<open>\<open>p in s\<close> for strings: \<open>p\<close> occurs at some position of \<open>s\<close>.\<close>

fun str_contains :: "string \<Rightarrow> string \<Rightarrow> bool" where
  "str_contains p [] \<longleftrightarrow> p = []"
| "str_contains p (c # cs) \<longleftrightarrow> starts_with p (c # cs) \<or> str_contains p cs"

text \<open>\<open>s.split(d)\<close> for a one-character separator: empty fields are kept.\<close>

fun split_on :: "char \<Rightarrow> string \<Rightarrow> string list" where
  "split_on d [] = [[]]"
| "split_on d (c # cs) =
     (if c = d then [] # split_on d cs
      else (case split_on d cs of w # ws \<Rightarrow> (c # w) # ws | [] \<Rightarrow> [[c]]))"

text \<open>
  \<open>re.split(pat, s)\<close> where \<open>pat\<close> matches the maximal runs of at least \<open>k\<close>
  characters of a class \<open>P\<close> (\<open>k = 1\<close>: \<open>r" +"\<close>, \<open>r"\s+"\<close>;
  \<open>k = 2\<close>: \<open>r"\s\s+"\<close>). A shorter run stays inside its field.
\<close>

definition glue_first :: "string \<Rightarrow> string list \<Rightarrow> string list" where
  "glue_first r ws = (case ws of w # ws' \<Rightarrow> (r @ w) # ws' | [] \<Rightarrow> [r])"

function re_split_runs :: "nat \<Rightarrow> (char \<Rightarrow> bool) \<Rightarrow> string \<Rightarrow> string list" where
  "re_split_runs k P [] = [[]]"
| "re_split_runs k P (c # cs) =
     (if P c then
        (let run = c # takeWhile P cs; rest = dropWhile P cs in
         if k \<le> length run then [] # re_split_runs k P rest
         else glue_first run (re_split_runs k P rest))
      else glue_first [c] (re_split_runs k P cs))"
  by pat_completeness auto
termination
  by (relation "measure (\<lambda>(k, P, s). length s)") (auto simp: le_imp_less_Suc length_dropWhile_le)

text \<open>\<open>sep.join(xs)\<close>.\<close>

fun py_join :: "string \<Rightarrow> string list \<Rightarrow> string" where
  "py_join sep [] = []"
| "py_join sep [x] = x"
| "py_join sep (x # y # xs) = x @ sep @ py_join sep (y # xs)"

text \<open>\<open>str.split()\<close> with no argument: the maximal runs of non-whitespace.\<close>

definition py_split :: "string \<Rightarrow> string list" where
  "py_split s = filter (\<lambda>w. w \<noteq> []) (re_split_runs 1 py_isspace s)"

text \<open>
  \<open>str.splitlines()\<close>: lines end at \<open>\n\<close>, \<open>\r\n\<close>, \<open>\r\<close>, \<open>\v\<close>, \<open>\f\<close>,
  \<open>\x1c\<close>, \<open>\x1d\<close>, \<open>\x1e\<close>; a final terminator opens no empty line.
\<close>

definition is_line_break :: "char \<Rightarrow> bool" where
  "is_line_break c \<longleftrightarrow> c \<in> set [CHR 0x0A, CHR 0x0D, CHR 0x0B, CHR 0x0C, CHR 0x1C, CHR 0x1D, CHR 0x1E]"

fun splitlines_aux :: "string \<Rightarrow> string \<Rightarrow> string list" where
  "splitlines_aux cur [] = (if cur = [] then [] else [rev cur])"
| "splitlines_aux cur (c # cs) =
     (if c = CHR 0x0D then
        (case cs of d # ds \<Rightarrow> if d = CHR 0x0A then rev cur # splitlines_aux [] ds
                              else rev cur # splitlines_aux [] cs
         | [] \<Rightarrow> [rev cur])
      else if is_line_break c then rev cur # splitlines_aux [] cs
      else splitlines_aux (c # cur) cs)"

definition py_splitlines :: "string \<Rightarrow> string list" where
  "py_splitlines s = splitlines_aux [] s"

section \<open>Numbers\<close>

text \<open>Value of a digit in the bases 2 to 36 that \<open>int(s, base)\<close> accepts.\<close>

definition digit_val :: "char \<Rightarrow> nat option" where
  "digit_val c =
     (if is_ascii_digit c then Some (of_char c - of_char CHR ''0'')
      else if is_ascii_lower c then Some (of_char c - of_char CHR ''a'' + 10)
      else if is_ascii_upper c then Some (of_char c - of_char CHR ''A'' + 10)
      else None)"

fun digit_vals :: "nat \<Rightarrow> string \<Rightarrow> nat list option" where
  "digit_vals b [] = Some []"
| "digit_vals b (c # cs) =
     (case digit_val c of
        Some v \<Rightarrow> if v < b then map_option (Cons v) (digit_vals b cs) else None
      | None \<Rightarrow> None)"

definition digits_value :: "nat \<Rightarrow> nat list \<Rightarrow> nat" where
  "digits_value b ds = foldl (\<lambda>acc d. acc * b + d) 0 ds"

text \<open>A digit string with single underscores between digits, as Python accepts.\<close>

definition parse_magnitude :: "nat \<Rightarrow> string \<Rightarrow> nat option" where
  "parse_magnitude b s =
     (let gs = split_on (CHR ''_'') s in
      if list_all (\<lambda>g. g \<noteq> []) gs then map_option (digits_value b) (digit_vals b (concat gs))
      else None)"

definition drop_underscore :: "string \<Rightarrow> string" where
  "drop_underscore s = (case s of c # cs \<Rightarrow> if c = CHR ''_'' then cs else s | [] \<Rightarrow> s)"

definition prefix_base :: "char \<Rightarrow> nat option" where
  "prefix_base p =
     (let q = char_upper p in
      if q = CHR ''X'' then Some 16 else if q = CHR ''O'' then Some 8
      else if q = CHR ''B'' then Some 2 else None)"

text \<open>
  The unsigned part of \<open>int(s, base)\<close>: for base 16, 8 or 2 an optional
  \<open>0x\<close>/\<open>0o\<close>/\<open>0b\<close> prefix; for base 0 the prefix chooses the base and a
  prefix-free literal is decimal without leading zeros (\<open>"010"\<close> is rejected).
\<close>

definition unsigned_literal :: "nat \<Rightarrow> string \<Rightarrow> nat option" where
  "unsigned_literal b r =
     (case r of
        z # p # rest \<Rightarrow>
          if z = CHR ''0'' \<and> prefix_base p \<noteq> None \<and> (b = 0 \<or> prefix_base p = Some b)
          then (case prefix_base p of Some b' \<Rightarrow> parse_magnitude b' (drop_underscore rest)
                | None \<Rightarrow> None)
          else if b = 0 then
            (case parse_magnitude 10 r of
               Some v \<Rightarrow> if v \<noteq> 0 \<and> z = CHR ''0'' then None else Some v
             | None \<Rightarrow> None)
          else parse_magnitude b r
      | _ \<Rightarrow> parse_magnitude (if b = 0 then 10 else b) r)"

text \<open>\<open>int(s, base)\<close>; \<open>None\<close> is the \<open>ValueError\<close> it raises.\<close>

definition py_int :: "string \<Rightarrow> nat \<Rightarrow> int option" where
  "py_int s b =
     (let t = py_strip s in
      case t of
        c # r \<Rightarrow>
          if c = CHR ''-'' then map_option (\<lambda>v. - int v) (unsigned_literal b r)
          else if c = CHR ''+'' then map_option int (unsigned_literal b r)
          else map_option int (unsigned_literal b t)
      | [] \<Rightarrow> None)"

definition py_int_r :: "string \<Rightarrow> nat \<Rightarrow> int result" where
  "py_int_r s b = (case py_int s b of Some v \<Rightarrow> Inr v | None \<Rightarrow> Inl ValueError)"

definition digit_char :: "nat \<Rightarrow> char" where
  "digit_char d = (if d < 10 then char_of (48 + d) else char_of (87 + d))"

function nat_digits :: "nat \<Rightarrow> nat \<Rightarrow> string" where
  "nat_digits b n =
     (if b < 2 \<or> n < b then [digit_char n] else nat_digits b (n div b) @ [digit_char (n mod b)])"
  by pat_completeness auto
termination
  by (relation "measure (\<lambda>(b, n). n)") auto

declare nat_digits.simps [simp del]

text \<open>\<open>str(i)\<close> and \<open>format(i, "x")\<close> of a Python int.\<close>

definition py_str_int :: "int \<Rightarrow> string" where
  "py_str_int i = (if i < 0 then CHR ''-'' # nat_digits 10 (nat (- i)) else nat_digits 10 (nat i))"

definition py_hex :: "int \<Rightarrow> string" where
  "py_hex i = (if i < 0 then CHR ''-'' # nat_digits 16 (nat (- i)) else nat_digits 16 (nat i))"

text \<open>
  \<open>range(0, n, step)\<close> for \<open>n \<ge> 0\<close>: a zero step raises \<open>ValueError\<close>, a negative one
  gives no element.
\<close>

definition py_range0 :: "nat \<Rightarrow> int \<Rightarrow> int list result" where
  "py_range0 n step =
     (if step = 0 then Inl ValueError
      else if step < 0 then Inr []
      else Inr (map (\<lambda>k. int k * step) [0..<(n + nat step - 1) div nat step]))"

text \<open>\<open>xs[i] = v\<close>: a negative index counts from the end, out of range raises.\<close>

definition py_list_set :: "'a list \<Rightarrow> int \<Rightarrow> 'a \<Rightarrow> 'a list result" where
  "py_list_set xs i v =
     (let n = int (length xs); j = (if i < 0 then n + i else i) in
      if 0 \<le> j \<and> j < n then Inr (xs[nat j := v]) else Inl IndexError)"

text \<open>\<open>int.from_bytes(bs, byteorder="little")\<close>.\<close>

definition from_le :: "byte list \<Rightarrow> nat" where
  "from_le bs = foldr (\<lambda>b acc. unat b + 256 * acc) bs 0"

text \<open>Python slice \<open>xs[a:b]\<close> for non-negative bounds.\<close>

definition py_slice :: "'a list \<Rightarrow> nat \<Rightarrow> nat \<Rightarrow> 'a list" where
  "py_slice xs a b = take (b - a) (drop a xs)"

lemmas char_class_defs [py_simps] =
  py_isspace_def is_ascii_upper_def is_ascii_lower_def is_ascii_digit_def is_word_char_def
  char_upper_def py_isupper_def

lemmas string_defs [py_simps] =
  py_strip_def starts_with_def ends_with_def glue_first_def py_split_def is_line_break_def
  py_splitlines_def

lemmas number_defs [py_simps] =
  digit_val_def digits_value_def parse_magnitude_def drop_underscore_def prefix_base_def
  unsigned_literal_def py_int_def py_int_r_def digit_char_def py_str_int_def py_hex_def
  from_le_def py_slice_def nat_digits.simps py_range0_def py_list_set_def

section \<open>Shared lemmas\<close>

lemma from_le_Nil [simp]: "from_le [] = 0"
  by (simp add: from_le_def)

lemma from_le_Cons [simp]: "from_le (b # bs) = unat b + 256 * from_le bs"
  by (simp add: from_le_def)

lemma from_le_bound: "from_le bs < 256 ^ length bs"
proof (induction bs)
  case Nil
  then show ?case by simp
next
  case (Cons b bs)
  have "unat b < 256" using unsigned_less [of b] by simp
  then have "unat b + 256 * from_le bs \<le> 255 + 256 * (256 ^ length bs - 1)"
    using Cons.IH by linarith
  also have "\<dots> < 256 * 256 ^ length bs"
    using Cons.IH by (simp add: algebra_simps)
  finally show ?case by simp
qed

lemma length_py_slice [simp]: "length (py_slice xs a b) = min (b - a) (length xs - a)"
  by (simp add: py_slice_def)

lemma starts_with_append [simp]: "starts_with p (p @ s)"
  by (simp add: starts_with_def)

lemma str_contains_iff: "str_contains p s \<longleftrightarrow> (\<exists>i \<le> length s. take (length p) (drop i s) = p)"
proof (induction s)
  case Nil
  then show ?case by auto
next
  case (Cons c cs)
  have "(\<exists>i \<le> length (c # cs). take (length p) (drop i (c # cs)) = p) \<longleftrightarrow>
        take (length p) (c # cs) = p \<or> (\<exists>i \<le> length cs. take (length p) (drop i cs) = p)"
    (is "?l \<longleftrightarrow> ?r")
  proof
    assume ?l
    then obtain i where "i \<le> length (c # cs)" "take (length p) (drop i (c # cs)) = p" by blast
    then show ?r by (cases i) auto
  next
    assume ?r
    then show ?l by (auto intro: exI [of _ 0] exI [of _ "Suc _"])
  qed
  with Cons.IH show ?case by (simp add: starts_with_def)
qed

lemma split_on_nonempty [simp]: "split_on d s \<noteq> []"
  by (induction s) (auto split: list.splits)

lemma concat_split_on: "concat (split_on d s) = filter (\<lambda>c. c \<noteq> d) s"
  by (induction s) (auto split: list.splits)

lemma dropWhile_rev_keep:
  assumes "dropWhile P xs = xs"
  shows "dropWhile P (rev (dropWhile P (rev xs))) = rev (dropWhile P (rev xs))"
proof (cases "dropWhile P (rev xs) = []")
  case True
  then show ?thesis by (simp only: rev.simps dropWhile.simps)
next
  case False
  have split: "xs = rev (dropWhile P (rev xs)) @ rev (takeWhile P (rev xs))"
    by (metis rev_append rev_rev_ident takeWhile_dropWhile_id)
  then have hd_eq: "hd xs = hd (rev (dropWhile P (rev xs)))"
    by (metis False hd_append2 rev_is_Nil_conv)
  have "xs \<noteq> []" using False by auto
  then have "\<not> P (hd xs)" using assms dropWhile_eq_self_iff [of P xs] by blast
  then show ?thesis using hd_eq dropWhile_eq_self_iff [of P "rev (dropWhile P (rev xs))"] by simp
qed

lemma py_strip_idem: "py_strip (py_strip s) = py_strip s"
proof -
  let ?u = "dropWhile py_isspace s"
  have "dropWhile py_isspace ?u = ?u" by simp
  then have t: "dropWhile py_isspace (py_strip s) = py_strip s"
    unfolding py_strip_def by (rule dropWhile_rev_keep)
  show ?thesis by (simp add: py_strip_def [of "py_strip s"] t) (simp add: py_strip_def)
qed

lemma set_py_strip: "set (py_strip s) \<subseteq> set s"
proof
  fix x
  assume "x \<in> set (py_strip s)"
  then have "x \<in> set (dropWhile py_isspace (rev (dropWhile py_isspace s)))"
    by (simp add: py_strip_def)
  then have "x \<in> set (rev (dropWhile py_isspace s))" by (rule set_dropWhileD)
  then show "x \<in> set s" by (auto dest: set_dropWhileD)
qed

lemma split_on_sep_free: "w \<in> set (split_on d s) \<Longrightarrow> d \<notin> set w"
  by (induction s arbitrary: w) (auto split: list.splits if_splits)

lemma split_on_no_sep: "d \<notin> set x \<Longrightarrow> split_on d x = [x]"
  by (induction x) auto

lemma split_on_append_sep: "d \<notin> set x \<Longrightarrow> split_on d (x @ d # y) = x # split_on d y"
  by (induction x) auto

lemma split_on_py_join:
  "xs \<noteq> [] \<Longrightarrow> \<forall>x \<in> set xs. d \<notin> set x \<Longrightarrow> split_on d (py_join [d] xs) = xs"
  by (induction "[d]" xs rule: py_join.induct) (auto simp: split_on_no_sep split_on_append_sep)

lemma last_py_join: "xs \<noteq> [] \<Longrightarrow> last xs \<noteq> [] \<Longrightarrow> py_join sep xs \<noteq> [] \<and> last (py_join sep xs) = last (last xs)"
  by (induction sep xs rule: py_join.induct) auto

lemma split_on_Cons_sep_free: "split_on d s = w # ws \<Longrightarrow> d \<notin> set w"
  by (metis list.set_intros(1) split_on_sep_free)

lemma replicate_numeral: "replicate (numeral n) x = x # replicate (pred_numeral n) x"
  by (simp add: numeral_eq_Suc)

lemma div_lt_ceil_div: "x < (n::nat) \<Longrightarrow> 0 < p \<Longrightarrow> x div p < (n + p - 1) div p"
proof -
  assume "x < n" "0 < p"
  then have "x div p * p \<le> x" by simp
  then have "x div p * p + p \<le> n + p - 1" using \<open>x < n\<close> by linarith
  then have "(x div p + 1) * p \<le> n + p - 1" by (simp add: algebra_simps)
  then have "(x div p + 1) * p div p \<le> (n + p - 1) div p" by (rule div_le_mono)
  then show ?thesis using \<open>0 < p\<close> by simp
qed

lemma list_all2_lookup:
  assumes "list_all2 (\<lambda>(n, s) (n', b). n' = n \<and> P s b) xs ys" and "distinct (map fst xs)"
    and "(n, s) \<in> set xs" and "(n, b) \<in> set ys"
  shows "P s b"
proof -
  from assms(3) obtain i where i: "i < length xs" "xs ! i = (n, s)" by (auto simp: in_set_conv_nth)
  from assms(4) obtain j where j: "j < length ys" "ys ! j = (n, b)" by (auto simp: in_set_conv_nth)
  have len: "length xs = length ys" using assms(1) by (rule list_all2_lengthD)
  obtain ni bi where yi: "ys ! i = (ni, bi)" by fastforce
  have pi: "ni = n \<and> P s bi"
    using list_all2_nthD [OF assms(1) i(1)] i(2) yi by simp
  obtain nj sj where xj: "xs ! j = (nj, sj)" by fastforce
  have "nj = n"
    using list_all2_nthD [OF assms(1)] j len xj by fastforce
  then have "map fst xs ! j = map fst xs ! i" using i j len xj by simp
  moreover have "distinct (map fst xs)" by (rule assms(2))
  ultimately have "i = j"
    using i(1) j(1) len nth_eq_iff_index_eq [of "map fst xs" j i] by simp
  with pi yi j show ?thesis by simp
qed

lemma distinct_map_fst_sort_key:
  "distinct (map fst (sort_key g xs)) \<longleftrightarrow> distinct (map fst xs)"
  by (rule mset_eq_imp_distinct_iff) (simp add: mset_map)

lemma filter_singleton:
  assumes "filter P xs = [y]"
  shows "y \<in> set xs" and "P y" and "x \<in> set xs \<Longrightarrow> P x \<Longrightarrow> x = y"
proof -
  have set_eq: "{x \<in> set xs. P x} = {y}"
    using arg_cong [OF assms, of set] by simp
  then show "y \<in> set xs" and "P y" by auto
  show "x \<in> set xs \<Longrightarrow> P x \<Longrightarrow> x = y" using set_eq by auto
qed

lemma case_singleton_eq:
  "(case l of [x] \<Rightarrow> A x | _ \<Rightarrow> B) = (if length l = 1 then A (hd l) else B)"
  by (cases l rule: remdups_adj.cases) auto

text \<open>\<open>int(str(x)) = x\<close>: decimal printing and parsing are inverse.\<close>

lemma digit_char_dec: "d < 10 \<Longrightarrow> is_ascii_digit (digit_char d) \<and> of_char (digit_char d) = 48 + d"
  by (simp add: digit_char_def is_ascii_digit_def less_eq_char_def)

lemma digit_val_digit_char: "d < 10 \<Longrightarrow> digit_val (digit_char d) = Some d"
  using digit_char_dec [of d] by (simp add: digit_val_def)

lemma digit_not_space: "is_ascii_digit c \<Longrightarrow> \<not> py_isspace c"
  by (auto simp: is_ascii_digit_def py_isspace_def less_eq_char_def)

lemma digit_not_underscore: "is_ascii_digit c \<Longrightarrow> c \<noteq> CHR ''_''"
  by (auto simp: is_ascii_digit_def less_eq_char_def)

lemma digit_vals_append:
  "digit_vals b (xs @ ys) =
     (case digit_vals b xs of
        None \<Rightarrow> None
      | Some a \<Rightarrow> (case digit_vals b ys of None \<Rightarrow> None | Some c \<Rightarrow> Some (a @ c)))"
  by (induction xs) (auto split: option.splits)

lemma digits_value_snoc: "digits_value b (ds @ [d]) = digits_value b ds * b + d"
  by (simp add: digits_value_def)

lemma nat_digits_dec:
  "(\<forall>c \<in> set (nat_digits 10 n). is_ascii_digit c) \<and> nat_digits 10 n \<noteq> [] \<and>
   (\<exists>ds. digit_vals 10 (nat_digits 10 n) = Some ds \<and> digits_value 10 ds = n)"
proof (induction "10::nat" n rule: nat_digits.induct)
  case (1 n)
  show ?case
  proof (cases "n < 10")
    case True
    then show ?thesis
      by (subst (1 2 3) nat_digits.simps) (simp add: digit_char_dec digit_val_digit_char digits_value_def)
  next
    case False
    then have IH: "(\<forall>c \<in> set (nat_digits 10 (n div 10)). is_ascii_digit c) \<and>
                   (\<exists>ds. digit_vals 10 (nat_digits 10 (n div 10)) = Some ds \<and> digits_value 10 ds = n div 10)"
      using 1 by simp
    then obtain ds where ds: "digit_vals 10 (nat_digits 10 (n div 10)) = Some ds"
      "digits_value 10 ds = n div 10" by blast
    have n: "nat_digits 10 n = nat_digits 10 (n div 10) @ [digit_char (n mod 10)]"
      using False by (subst nat_digits.simps) simp
    have "digit_vals 10 (nat_digits 10 n) = Some (ds @ [n mod 10])"
      by (simp add: n digit_vals_append ds digit_val_digit_char)
    moreover have "digits_value 10 (ds @ [n mod 10]) = n"
      by (simp add: digits_value_snoc ds)
    ultimately show ?thesis using IH by (simp add: n digit_char_dec)
  qed
qed

lemma py_strip_no_space: "\<forall>c \<in> set s. \<not> py_isspace c \<Longrightarrow> py_strip s = s"
proof -
  assume a: "\<forall>c \<in> set s. \<not> py_isspace c"
  then have "dropWhile py_isspace s = s" by (cases s) auto
  moreover have "dropWhile py_isspace (rev s) = rev s" using a by (cases "rev s") (auto dest: arg_cong [of _ _ set])
  ultimately show ?thesis by (simp add: py_strip_def)
qed

lemma parse_magnitude_dec: "parse_magnitude 10 (nat_digits 10 n) = Some n"
proof -
  have d: "\<forall>c \<in> set (nat_digits 10 n). is_ascii_digit c" and ne: "nat_digits 10 n \<noteq> []"
    using nat_digits_dec by blast+
  then have "CHR ''_'' \<notin> set (nat_digits 10 n)" using digit_not_underscore by blast
  then have "split_on (CHR ''_'') (nat_digits 10 n) = [nat_digits 10 n]" by (rule split_on_no_sep)
  with ne nat_digits_dec [of n] show ?thesis by (auto simp: parse_magnitude_def)
qed

lemma unsigned_literal_digits:
  assumes "\<forall>c \<in> set r. is_ascii_digit c"
  shows "unsigned_literal 10 r = parse_magnitude 10 r"
proof -
  have "prefix_base c = None" if "is_ascii_digit c" for c
    using that by (auto simp: prefix_base_def char_upper_def is_ascii_digit_def is_ascii_lower_def less_eq_char_def)
  with assms show ?thesis by (auto simp: unsigned_literal_def split: list.split)
qed

lemma unsigned_literal_dec: "unsigned_literal 10 (nat_digits 10 n) = Some n"
  using nat_digits_dec [of n] by (simp add: unsigned_literal_digits parse_magnitude_dec)

lemma py_int_py_str_int: "py_int (py_str_int x) 10 = Some x"
proof -
  have d: "\<forall>c \<in> set (nat_digits 10 m). is_ascii_digit c" and ne: "nat_digits 10 m \<noteq> []" for m
    using nat_digits_dec by blast+
  have sp: "\<forall>c \<in> set (CHR ''-'' # nat_digits 10 m). \<not> py_isspace c" "\<forall>c \<in> set (nat_digits 10 m). \<not> py_isspace c" for m
    using d digit_not_space by (auto simp: py_isspace_def)
  have sign: "c \<noteq> CHR ''-'' \<and> c \<noteq> CHR ''+''" if "is_ascii_digit c" for c
    using that by (auto simp: is_ascii_digit_def less_eq_char_def)
  show ?thesis
  proof (cases "x < 0")
    case True
    then show ?thesis
      by (simp add: py_str_int_def py_int_def py_strip_no_space [OF sp(1)] unsigned_literal_dec)
  next
    case False
    obtain c r where cr: "nat_digits 10 (nat x) = c # r" using ne by (cases "nat_digits 10 (nat x)") auto
    then have "is_ascii_digit c" using d [of "nat x"] by simp
    with False cr sign show ?thesis
      using py_strip_no_space [OF sp(2) [of "nat x"]] unsigned_literal_dec [of "nat x"]
      by (simp add: py_str_int_def py_int_def)
  qed
qed
text \<open>Loops that may raise, and fields of \<open>re.split\<close> on runs.\<close>

lemma fold_result_append:
  "fold_result f (xs @ ys) s = (case fold_result f xs s of Inl e \<Rightarrow> Inl e | Inr s' \<Rightarrow> fold_result f ys s')"
proof (induction xs arbitrary: s)
  case Nil
  then show ?case by (cases "fold_result f ys s") simp_all
next
  case (Cons x xs)
  then show ?case by (cases "f s x") simp_all
qed

lemma fold_result_invariant:
  assumes step: "\<And>s x s'. P s \<Longrightarrow> x \<in> set xs \<Longrightarrow> f s x = Inr s' \<Longrightarrow> P s'"
    and "P s" and "fold_result f xs s = Inr s'"
  shows "P s'"
  using assms
proof (induction xs arbitrary: s)
  case Nil
  then show ?case by simp
next
  case (Cons x xs)
  obtain s1 where s1: "f s x = Inr s1" and r: "fold_result f xs s1 = Inr s'"
    using Cons.prems(3) by (simp split: sum.splits)
  have p1: "P s1" by (rule Cons.prems(1) [OF Cons.prems(2) _ s1]) simp
  show ?case
  proof (rule Cons.IH [OF _ p1 r])
    fix t y t' assume "P t" "y \<in> set xs" "f t y = Inr t'"
    then show "P t'" by (intro Cons.prems(1) [of t y t']) auto
  qed
qed
lemma glue_first_cases:
  "w \<in> set (glue_first r ws) \<Longrightarrow> w \<in> set ws \<or> (\<exists>w0. w = r @ w0 \<and> (w0 \<in> set ws \<or> w0 = []))"
  by (cases ws) (auto simp: glue_first_def)

lemma re_split_runs_free: "\<forall>w \<in> set (re_split_runs (Suc 0) P s). \<forall>c \<in> set w. \<not> P c"
proof (induction "length s" arbitrary: s rule: less_induct)
  case less
  show ?case
  proof (cases s)
    case Nil
    then show ?thesis by simp
  next
    case (Cons c cs)
    show ?thesis
    proof (cases "P c")
      case True
      have eq: "re_split_runs (Suc 0) P s = [] # re_split_runs (Suc 0) P (dropWhile P cs)"
        using True Cons by (simp add: Let_def)
      have "length (dropWhile P cs) < length s"
        using Cons by (simp add: le_imp_less_Suc length_dropWhile_le)
      then have "\<forall>w \<in> set (re_split_runs (Suc 0) P (dropWhile P cs)). \<forall>c \<in> set w. \<not> P c"
        by (rule less)
      then show ?thesis by (simp only: eq) simp
    next
      case False
      have eq: "re_split_runs (Suc 0) P s = glue_first [c] (re_split_runs (Suc 0) P cs)"
        using False Cons by simp
      have "\<forall>w \<in> set (re_split_runs (Suc 0) P cs). \<forall>c \<in> set w. \<not> P c"
        using Cons by (intro less) simp
      with False show ?thesis by (simp only: eq) (fastforce dest!: glue_first_cases)
    qed
  qed
qed
text \<open>\<open>int(format(x, "x"), 16) = x\<close>: hexadecimal printing and parsing are inverse.\<close>

lemma of_char_digit_char:
  "d < 16 \<Longrightarrow> of_char (digit_char d) = (if d < 10 then 48 + d else 87 + d)"
  by (simp add: digit_char_def)

lemma digit_char_eq_iff: "c = d \<longleftrightarrow> of_char c = (of_char d :: nat)"
  by (metis char_of_char)

lemma digit_char_hex:
  assumes "d < 16"
  shows "digit_val (digit_char d) = Some d \<and> \<not> py_isspace (digit_char d) \<and>
         digit_char d \<notin> {CHR ''_'', CHR ''-'', CHR ''+''} \<and> prefix_base (digit_char d) \<noteq> Some 16"
proof -
  let ?c = "digit_char d"
  have oc: "of_char ?c = (if d < 10 then 48 + d else 87 + d)" using assms by (rule of_char_digit_char)
  have v: "digit_val ?c = Some d"
    using assms oc by (auto simp: digit_val_def is_ascii_digit_def is_ascii_lower_def less_eq_char_def)
  have sp: "\<not> py_isspace ?c"
  proof
    assume "py_isspace ?c"
    then have "of_char ?c \<le> (32::nat)" by (auto simp: py_isspace_def)
    with oc show False by (simp split: if_splits)
  qed
  have ne: "?c \<notin> {CHR ''_'', CHR ''-'', CHR ''+''}"
    using oc by (auto simp: digit_char_eq_iff [of ?c] split: if_splits)
  have "char_upper ?c \<noteq> CHR ''X''"
    using oc assms by (auto simp: char_upper_def is_ascii_lower_def less_eq_char_def digit_char_eq_iff [of "char_of _"]
        split: if_splits)
  then have "prefix_base ?c \<noteq> Some 16" by (auto simp: prefix_base_def Let_def)
  with v sp ne show ?thesis by blast
qed

lemma nat_digits_hex:
  "(\<forall>c \<in> set (nat_digits 16 n). \<exists>d < 16. c = digit_char d) \<and> nat_digits 16 n \<noteq> [] \<and>
   (\<exists>ds. digit_vals 16 (nat_digits 16 n) = Some ds \<and> digits_value 16 ds = n)"
proof (induction "16::nat" n rule: nat_digits.induct)
  case (1 n)
  show ?case
  proof (cases "n < 16")
    case True
    then show ?thesis
      by (subst (1 2 3) nat_digits.simps) (auto simp: digit_char_hex digits_value_def)
  next
    case False
    then have IH: "(\<forall>c \<in> set (nat_digits 16 (n div 16)). \<exists>d < 16. c = digit_char d) \<and>
                   (\<exists>ds. digit_vals 16 (nat_digits 16 (n div 16)) = Some ds \<and> digits_value 16 ds = n div 16)"
      using 1 by simp
    then obtain ds where ds: "digit_vals 16 (nat_digits 16 (n div 16)) = Some ds"
      "digits_value 16 ds = n div 16" by blast
    have n: "nat_digits 16 n = nat_digits 16 (n div 16) @ [digit_char (n mod 16)]"
      using False by (subst nat_digits.simps) simp
    have "digit_vals 16 (nat_digits 16 n) = Some (ds @ [n mod 16])"
      by (simp add: n digit_vals_append ds digit_char_hex)
    moreover have "digits_value 16 (ds @ [n mod 16]) = n"
      by (simp add: digits_value_snoc ds)
    moreover have "\<exists>d<16. digit_char (n mod 16) = digit_char d"
      by (rule exI [of _ "n mod 16"]) simp
    ultimately show ?thesis using IH by (auto simp: n)
  qed
qed

lemma unsigned_literal_hex: "unsigned_literal 16 (nat_digits 16 n) = Some n"
proof -
  have d: "\<forall>c \<in> set (nat_digits 16 n). \<exists>d < 16. c = digit_char d" and ne: "nat_digits 16 n \<noteq> []"
    using nat_digits_hex by blast+
  then have "CHR ''_'' \<notin> set (nat_digits 16 n)" using digit_char_hex by fastforce
  then have pm: "parse_magnitude 16 (nat_digits 16 n) = Some n"
    using ne nat_digits_hex [of n] by (auto simp: parse_magnitude_def split_on_no_sep)
  show ?thesis
  proof (cases "nat_digits 16 n")
    case Nil
    with ne show ?thesis by simp
  next
    case (Cons z r)
    show ?thesis
    proof (cases r)
      case Nil
      with Cons pm show ?thesis by (simp add: unsigned_literal_def)
    next
      case (Cons p rest)
      with \<open>nat_digits 16 n = z # r\<close> d have "prefix_base p \<noteq> Some 16" using digit_char_hex by fastforce
      with Cons \<open>nat_digits 16 n = z # r\<close> pm show ?thesis by (auto simp: unsigned_literal_def)
    qed
  qed
qed

lemma py_int_py_hex: "py_int (py_hex x) 16 = Some x"
proof -
  have d: "\<forall>c \<in> set (nat_digits 16 m). \<exists>d < 16. c = digit_char d" and ne: "nat_digits 16 m \<noteq> []" for m
    using nat_digits_hex by blast+
  have sp: "\<forall>c \<in> set (CHR ''-'' # nat_digits 16 m). \<not> py_isspace c" "\<forall>c \<in> set (nat_digits 16 m). \<not> py_isspace c" for m
    using d digit_char_hex by (fastforce simp: py_isspace_def)+
  show ?thesis
  proof (cases "x < 0")
    case True
    then show ?thesis
      by (simp add: py_hex_def py_int_def py_strip_no_space [OF sp(1)] unsigned_literal_hex)
  next
    case False
    obtain c r where cr: "nat_digits 16 (nat x) = c # r" using ne by (cases "nat_digits 16 (nat x)") auto
    then have "c \<noteq> CHR ''-'' \<and> c \<noteq> CHR ''+''" using d [of "nat x"] digit_char_hex by fastforce
    with False cr show ?thesis
      using py_strip_no_space [OF sp(2) [of "nat x"]] unsigned_literal_hex [of "nat x"]
      by (simp add: py_hex_def py_int_def)
  qed
qed

lemma str_contains_single: "str_contains [c] s \<longleftrightarrow> c \<in> set s"
  by (induction s) (auto simp: starts_with_def)

lemma word_char_not_space: "is_word_char c \<Longrightarrow> \<not> py_isspace c"
  by (auto simp: is_word_char_def py_isspace_def is_ascii_upper_def is_ascii_lower_def is_ascii_digit_def
                 less_eq_char_def)

lemma word_char_not_semicolon: "is_word_char c \<Longrightarrow> c \<noteq> CHR '';''"
  by (auto simp: is_word_char_def is_ascii_upper_def is_ascii_lower_def is_ascii_digit_def less_eq_char_def)

lemma nl_not_word_char [simp]: "\<not> is_word_char nl"
  by (simp add: is_word_char_def is_ascii_upper_def is_ascii_lower_def is_ascii_digit_def less_eq_char_def)

lemma word_char_not_break: "is_word_char c \<Longrightarrow> c \<noteq> nl \<and> c \<noteq> CHR 0x0D"
  by (auto dest: word_char_not_space simp: py_isspace_def)

text \<open>A trailing white-space character does not change \<open>str.strip()\<close>.\<close>

lemma py_strip_snoc_space:
  assumes "py_isspace c" shows "py_strip (s @ [c]) = py_strip s"
proof (cases "\<forall>x \<in> set s. py_isspace x")
  case True
  then have "dropWhile py_isspace (s @ [c]) = []" "dropWhile py_isspace s = []"
    using assms by (auto simp: dropWhile_append2 dropWhile_eq_Nil_conv dest: set_dropWhileD)
  then show ?thesis by (simp add: py_strip_def del: dropWhile_eq_Nil_conv)
next
  case False
  then have "dropWhile py_isspace (s @ [c]) = dropWhile py_isspace s @ [c]"
    by (blast intro: dropWhile_append1)
  then show ?thesis unfolding py_strip_def using assms by (simp del: dropWhile_eq_Nil_conv)
qed

end
