(* ===== verification/Symbols.thy ===== *)
theory Symbols
  imports Prelude
begin

text \<open>
  The symbol table of \<open>implib-gen.py\<close>. The script keeps each symbol as a dict with the keys
  \<open>Name\<close>, \<open>Value\<close>, \<open>Size\<close>, \<open>Type\<close>, \<open>Bind\<close>, \<open>Ndx\<close>, \<open>Default\<close>, \<open>Version\<close>,
  \<open>Visibility\<close> and, after the call of \<open>c++filt\<close>, \<open>Demangled Name\<close>; here it is a
  record with one field per key. \<open>Type\<close>, \<open>Bind\<close> and \<open>Ndx\<close> stay the strings the
  tools print. \<open>Demangled Name\<close> is absent (\<open>None\<close>) when \<open>c++filt\<close> printed fewer
  lines than there are symbols; reading it then raises \<open>KeyError\<close>.
\<close>

record symbol =
  sym_name :: string
  sym_value :: int
  sym_size :: int
  sym_type :: string
  sym_bind :: string
  sym_ndx :: string
  sym_default :: bool
  sym_version :: "string option"
  sym_visibility :: string
  sym_demangled :: "string option"

section \<open>Demangled names\<close>

text \<open>
  \<open>main()\<close> pipes the names through \<open>c++filt\<close>, strips the trailing newlines of its
  output and gives the \<open>i\<close>-th output line to the \<open>i\<close>-th symbol; an extra line is an
  \<open>IndexError\<close>. Nothing is run for an empty table.
\<close>

definition rstrip_nl :: "string \<Rightarrow> string" where
  "rstrip_nl s = rev (dropWhile (\<lambda>c. c = nl) (rev s))"

definition attach_demangled :: "symbol list \<Rightarrow> string \<Rightarrow> symbol list result" where
  "attach_demangled syms out =
     (if syms = [] then Inr syms
      else
        (let ls = split_on nl (rstrip_nl out) in
         if length syms < length ls then Inl IndexError
         else Inr (map (\<lambda>(s, d). s\<lparr>sym_demangled := Some d\<rparr>) (zip syms ls)
                   @ drop (length ls) syms)))"

text \<open>The input of \<open>c++filt\<close>: the names joined by newlines.\<close>

definition demangler_input :: "symbol list \<Rightarrow> string" where
  "demangler_input syms = py_join [nl] (map sym_name syms)"

section \<open>Properties\<close>

lemma rstrip_nl_id: "s = [] \<or> last s \<noteq> nl \<Longrightarrow> rstrip_nl s = s"
  by (cases s rule: rev_cases) (auto simp: rstrip_nl_def)

text \<open>The \<open>join\<close>/\<open>split\<close> round trip of the names handed to \<open>c++filt\<close>.\<close>

lemma split_demangler_input:
  assumes ne: "syms \<noteq> []" and names: "\<forall>s \<in> set syms. sym_name s \<noteq> [] \<and> nl \<notin> set (sym_name s)"
  shows "split_on nl (rstrip_nl (demangler_input syms)) = map sym_name syms"
proof -
  let ?ns = "map sym_name syms"
  have ls: "last syms \<in> set syms" using ne by simp
  then have lastne: "last ?ns \<noteq> []" using ne names by (simp add: last_map)
  have "last (sym_name (last syms)) \<in> set (sym_name (last syms))"
    using ls names by simp
  then have "last (sym_name (last syms)) \<noteq> nl" using ls names by fastforce
  then have "last (demangler_input syms) \<noteq> nl"
    using ne lastne last_py_join [of ?ns "[nl]"] by (simp add: demangler_input_def last_map)
  then have r: "rstrip_nl (demangler_input syms) = demangler_input syms"
    by (simp add: rstrip_nl_id)
  have "split_on nl (demangler_input syms) = ?ns"
    using ne names by (simp add: demangler_input_def split_on_py_join)
  then show ?thesis by (simp add: r)
qed

text \<open>
  C8. When \<open>c++filt\<close> echoes its input (names that are not mangled C++ names), the
  newline-joined input is split back into exactly the symbol names, so every symbol gets
  its own name as demangled name: the \<open>join\<close>/\<open>split\<close> round trip of \<open>main()\<close>.
\<close>

theorem attach_demangled_echo:
  assumes ne: "syms \<noteq> []" and names: "\<forall>s \<in> set syms. sym_name s \<noteq> [] \<and> nl \<notin> set (sym_name s)"
  shows "attach_demangled syms (demangler_input syms) =
           Inr (map (\<lambda>s. s\<lparr>sym_demangled := Some (sym_name s)\<rparr>) syms)"
  using split_demangler_input [OF assms] ne
  by (simp add: attach_demangled_def zip_map2 map_zip_map case_prod_beta zip_same_conv_map)

theorem attach_demangled_echo_witness:
  "attach_demangled [symbol.make ''f'' 0 0 ''FUNC'' ''GLOBAL'' ''1'' True None ''DEFAULT'' None,
                     symbol.make ''g'' 0 0 ''FUNC'' ''GLOBAL'' ''1'' True None ''DEFAULT'' None]
     (demangler_input [symbol.make ''f'' 0 0 ''FUNC'' ''GLOBAL'' ''1'' True None ''DEFAULT'' None,
                       symbol.make ''g'' 0 0 ''FUNC'' ''GLOBAL'' ''1'' True None ''DEFAULT'' None])
   = Inr [symbol.make ''f'' 0 0 ''FUNC'' ''GLOBAL'' ''1'' True None ''DEFAULT'' (Some ''f''),
          symbol.make ''g'' 0 0 ''FUNC'' ''GLOBAL'' ''1'' True None ''DEFAULT'' (Some ''g'')]"
  using attach_demangled_echo [of "[symbol.make ''f'' 0 0 ''FUNC'' ''GLOBAL'' ''1'' True None ''DEFAULT'' None,
                                    symbol.make ''g'' 0 0 ''FUNC'' ''GLOBAL'' ''1'' True None ''DEFAULT'' None]"]
  by (simp add: symbol.make_def)

end
