(* ===== verification/Exports.thy ===== *)
theory Exports
  imports Symbols
begin

text \<open>
  The export policy of \<open>main()\<close> in \<open>implib-gen.py\<close>: the command-line options the
  later stages read, the normalisation of the target triple, the user's symbol list, the
  filter \<open>is_exported\<close>, the warning about data symbols and the selection of the
  functions that get a trampoline. Warnings are collected as values, in the order the
  script prints them.
\<close>

section \<open>Options\<close>

text \<open>The \<open>args\<close> namespace that \<open>argparse\<close> builds, one field per option.\<close>

record options =
  opt_verbose :: nat
  opt_dlopen :: bool
  opt_dlopen_callback :: string
  opt_dlsym_callback :: string
  opt_library_load_name :: "string option"
  opt_lazy_load :: bool
  opt_thread_safe :: bool
  opt_vtables :: bool
  opt_no_weak_symbols :: bool
  opt_target :: string
  opt_symbol_list :: "string option"
  opt_symbol_prefix :: string
  opt_quiet :: bool
  opt_suffix :: "string option"

text \<open>The defaults of the argument parser; the target defaults to the host machine.\<close>

definition default_options :: "string \<Rightarrow> options" where
  "default_options machine =
     \<lparr>opt_verbose = 0, opt_dlopen = True, opt_dlopen_callback = [], opt_dlsym_callback = [],
      opt_library_load_name = None, opt_lazy_load = True, opt_thread_safe = True,
      opt_vtables = False, opt_no_weak_symbols = False, opt_target = machine,
      opt_symbol_list = None, opt_symbol_prefix = [], opt_quiet = False, opt_suffix = None\<rparr>"

datatype warning =
    WDataSymbols "string list"
  | WVersioned
  | WNoPublic
  | WMissing "string list"
  | WNoDefSymbols

section \<open>Target triple\<close>

definition is_i86 :: "string \<Rightarrow> bool" where
  "is_i86 t \<longleftrightarrow>
     (case t of a # d # e # f # _ \<Rightarrow>
        a = CHR ''i'' \<and> is_ascii_digit d \<and> e = CHR ''8'' \<and> f = CHR ''6''
      | _ \<Rightarrow> False)"

definition normalize_target :: "string \<Rightarrow> string" where
  "normalize_target t =
     (if starts_with ''arm'' t then ''arm''
      else if is_i86 t then ''i386''
      else if starts_with ''amd64'' t then ''x86_64''
      else if starts_with ''mips64'' t then ''mips64''
      else if starts_with ''mips'' t then ''mips''
      else if starts_with ''ppc64le'' t then ''powerpc64le''
      else if starts_with ''ppc64'' t then ''powerpc64''
      else if starts_with ''rv64'' t then ''riscv64''
      else (case split_on (CHR ''-'') t of w # _ \<Rightarrow> w | [] \<Rightarrow> []))"

section \<open>User symbol list\<close>

text \<open>
  The file is read in text mode, which turns \<open>\r\n\<close> and \<open>\r\<close> into \<open>\n\<close>;
  \<open>re.split(r"\r?\n")\<close> then splits at the newlines, \<open>re.sub(r"#.*", "")\<close> cuts a
  comment, and stripped non-empty lines are kept in file order.
\<close>

fun universal_newlines :: "string \<Rightarrow> string" where
  "universal_newlines [] = []"
| "universal_newlines [c] = [if c = CHR 0x0D then nl else c]"
| "universal_newlines (c # d # cs) =
     (if c = CHR 0x0D then
        (if d = nl then nl # universal_newlines cs else nl # universal_newlines (d # cs))
      else c # universal_newlines (d # cs))"

definition parse_symbol_list :: "string \<Rightarrow> string list" where
  "parse_symbol_list text =
     filter (\<lambda>l. l \<noteq> [])
       (map (\<lambda>l. py_strip (takeWhile (\<lambda>c. c \<noteq> CHR ''#'') l))
          (split_on nl (universal_newlines text)))"

section \<open>Export filter\<close>

definition is_exported :: "options \<Rightarrow> symbol \<Rightarrow> bool" where
  "is_exported args s \<longleftrightarrow>
     sym_bind s \<noteq> ''LOCAL'' \<and> sym_visibility s \<noteq> ''HIDDEN'' \<and> sym_type s \<noteq> ''NOTYPE'' \<and>
     sym_ndx s \<noteq> ''UND'' \<and> sym_name s \<notin> set ['''', ''_init'', ''_fini''] \<and>
     (opt_no_weak_symbols args \<longrightarrow> sym_bind s \<noteq> ''WEAK'')"

text \<open>
  \<open>is_data_symbol\<close>: the \<open>and\<close> reads the demangled name only for an \<open>OBJECT\<close>,
  so only those can raise \<open>KeyError\<close>.
\<close>

definition is_data_symbol :: "options \<Rightarrow> symbol \<Rightarrow> bool result" where
  "is_data_symbol args s =
     (if sym_type s = ''OBJECT'' then
        (case sym_demangled s of
           None \<Rightarrow> Inl KeyError
         | Some d \<Rightarrow> Inr (\<not> (str_contains '' for '' d \<and> opt_vtables args)))
      else Inr False)"

fun exported_data :: "options \<Rightarrow> symbol list \<Rightarrow> string list result" where
  "exported_data args [] = Inr []"
| "exported_data args (s # ss) =
     (case is_data_symbol args s of
        Inl e \<Rightarrow> Inl e
      | Inr b \<Rightarrow> (case exported_data args ss of
                    Inl e \<Rightarrow> Inl e
                  | Inr ns \<Rightarrow> Inr (if b then sym_name s # ns else ns)))"

section \<open>Functions\<close>

text \<open>
  The loop over the \<open>FUNC\<close> symbols: a symbol of a non-default version is skipped, and
  the first one raises the single versioned-symbols warning (\<open>warn_versioned\<close>);
  the others go into the set \<open>all_funs\<close>, here a list without repetitions.
\<close>

fun collect_all_funs ::
  "symbol list \<Rightarrow> string list \<Rightarrow> bool \<Rightarrow> warning list \<Rightarrow> string list \<times> bool \<times> warning list" where
  "collect_all_funs [] all_funs warned ws = (all_funs, warned, ws)"
| "collect_all_funs (s # ss) all_funs warned ws =
     (if \<not> sym_default s then
        (if \<not> warned then collect_all_funs ss all_funs True (ws @ [WVersioned])
         else collect_all_funs ss all_funs warned ws)
      else collect_all_funs ss (List.insert (sym_name s) all_funs) warned ws)"

text \<open>
  Without a user list the functions are \<open>sorted(all_funs)\<close>; with one, the user's names
  in the user's order, kept where present, and the missing ones named in a warning.
\<close>

definition select_funs ::
  "options \<Rightarrow> string list option \<Rightarrow> string list \<Rightarrow> string list \<times> warning list" where
  "select_funs args user all_funs =
     (case user of
        None \<Rightarrow>
          (let funs = sort all_funs in
           (funs, if funs = [] \<and> \<not> opt_quiet args then [WNoPublic] else []))
      | Some fs \<Rightarrow>
          (let missing = filter (\<lambda>n. n \<notin> set all_funs) fs in
           (filter (\<lambda>n. n \<in> set all_funs) fs, if missing \<noteq> [] then [WMissing missing] else [])))"

text \<open>
  The whole stage: filter the exported symbols, warn about data symbols, collect and select
  the functions. The result is the exported symbols (later scanned for vtables), the
  function list and the warnings.
\<close>

definition collect_functions ::
  "options \<Rightarrow> string list option \<Rightarrow> symbol list \<Rightarrow>
   (symbol list \<times> string list \<times> warning list) result" where
  "collect_functions args user syms0 =
     (let syms = filter (is_exported args) syms0 in
      case exported_data args syms of
        Inl e \<Rightarrow> Inl e
      | Inr data \<Rightarrow>
          (let (all_funs, _, wv) =
                 collect_all_funs (filter (\<lambda>s. sym_type s = ''FUNC'') syms) [] False [];
               (funs, wf) = select_funs args user all_funs
           in Inr (syms, funs, (if data \<noteq> [] then [WDataSymbols data] else []) @ wv @ wf)))"

text \<open>A function symbol as \<open>readelf\<close> lists it, for the examples below.\<close>

abbreviation func_sym :: "string \<Rightarrow> string \<Rightarrow> string \<Rightarrow> bool \<Rightarrow> symbol" where
  "func_sym n bind vis dflt \<equiv> symbol.make n 4096 16 ''FUNC'' bind ''12'' dflt None vis (Some n)"

lemmas collect_functions_eval =
  collect_functions_def is_exported_def exported_data.simps is_data_symbol_def select_funs_def
  symbol.make_def default_options_def

section \<open>Properties of the loops\<close>

lemma collect_all_funs_set:
  "set (fst (collect_all_funs ss acc w ws)) = set acc \<union> sym_name ` {s \<in> set ss. sym_default s}"
  by (induction ss acc w ws rule: collect_all_funs.induct) auto

lemma collect_all_funs_distinct:
  "distinct acc \<Longrightarrow> distinct (fst (collect_all_funs ss acc w ws))"
  by (induction ss acc w ws rule: collect_all_funs.induct) auto

lemma collect_all_funs_warnings:
  "snd (snd (collect_all_funs ss acc w ws)) =
     ws @ (if \<not> w \<and> (\<exists>s \<in> set ss. \<not> sym_default s) then [WVersioned] else [])"
  by (induction ss acc w ws rule: collect_all_funs.induct) auto

lemma exported_data_Inr:
  assumes "\<forall>s \<in> set ss. sym_type s = ''OBJECT'' \<longrightarrow> sym_demangled s \<noteq> None"
  shows "exported_data args ss =
           Inr (map sym_name (filter (\<lambda>s. is_data_symbol args s = Inr True) ss))"
  using assms by (induction ss) (auto simp: is_data_symbol_def split: option.splits)

lemma exported_data_KeyError:
  "exported_data args ss = Inl e \<Longrightarrow> e = KeyError"
  by (induction ss) (auto simp: is_data_symbol_def split: option.splits sum.splits if_splits)

lemma collect_functions_Inr_iff:
  "collect_functions args user syms0 = Inr r \<longleftrightarrow>
     (\<exists>data. exported_data args (filter (is_exported args) syms0) = Inr data \<and>
        r = (filter (is_exported args) syms0,
             fst (select_funs args user
                    (fst (collect_all_funs (filter (\<lambda>s. sym_type s = ''FUNC'')
                            (filter (is_exported args) syms0)) [] False []))),
             (if data \<noteq> [] then [WDataSymbols data] else []) @
             snd (snd (collect_all_funs (filter (\<lambda>s. sym_type s = ''FUNC'')
                            (filter (is_exported args) syms0)) [] False [])) @
             snd (select_funs args user
                    (fst (collect_all_funs (filter (\<lambda>s. sym_type s = ''FUNC'')
                            (filter (is_exported args) syms0)) [] False [])))))"
  by (auto simp: collect_functions_def Let_def split: sum.splits prod.splits)

lemma select_funs_subset: "set (fst (select_funs args user all_funs)) \<subseteq> set all_funs"
  by (auto simp: select_funs_def Let_def split: option.splits)

section \<open>Properties of the export policy\<close>

text \<open>
  C1. Every name that gets a trampoline is the name of a symbol of the input table that is a
  defined (\<open>Ndx \<noteq> UND\<close>), non-local, non-hidden \<open>FUNC\<close> of the default version,
  is not \<open>""\<close>, \<open>_init\<close> or \<open>_fini\<close>, and is not \<open>WEAK\<close> under
  \<open>--no-weak-symbols\<close>.
\<close>

theorem collect_functions_exported:
  assumes "collect_functions args user syms0 = Inr (syms, funs, ws)" and "n \<in> set funs"
  shows "\<exists>s \<in> set syms0. sym_name s = n \<and> sym_type s = ''FUNC'' \<and> sym_default s \<and>
           sym_bind s \<noteq> ''LOCAL'' \<and> sym_visibility s \<noteq> ''HIDDEN'' \<and> sym_ndx s \<noteq> ''UND'' \<and>
           n \<notin> {'''', ''_init'', ''_fini''} \<and> (opt_no_weak_symbols args \<longrightarrow> sym_bind s \<noteq> ''WEAK'')"
proof -
  let ?fs = "filter (\<lambda>s. sym_type s = ''FUNC'') (filter (is_exported args) syms0)"
  from assms(1) have "funs = fst (select_funs args user (fst (collect_all_funs ?fs [] False [])))"
    by (auto simp: collect_functions_Inr_iff)
  with assms(2) have "n \<in> set (fst (collect_all_funs ?fs [] False []))"
    using select_funs_subset by blast
  then obtain s where "s \<in> set ?fs" "sym_default s" "sym_name s = n"
    by (auto simp: collect_all_funs_set)
  then show ?thesis by (auto simp: is_exported_def)
qed

theorem collect_functions_exported_witness:
  "\<exists>s \<in> set [func_sym ''c'' ''GLOBAL'' ''DEFAULT'' True, func_sym ''h'' ''GLOBAL'' ''HIDDEN'' True,
              func_sym ''a'' ''GLOBAL'' ''DEFAULT'' True, func_sym ''b'' ''GLOBAL'' ''DEFAULT'' True].
     sym_name s = ''a'' \<and> sym_type s = ''FUNC'' \<and> sym_default s \<and>
     sym_bind s \<noteq> ''LOCAL'' \<and> sym_visibility s \<noteq> ''HIDDEN'' \<and> sym_ndx s \<noteq> ''UND'' \<and>
     ''a'' \<notin> {'''', ''_init'', ''_fini''} \<and>
     (opt_no_weak_symbols (default_options ''x86_64'') \<longrightarrow> sym_bind s \<noteq> ''WEAK'')"
proof -
  have e: "collect_functions (default_options ''x86_64'') None
     [func_sym ''c'' ''GLOBAL'' ''DEFAULT'' True, func_sym ''h'' ''GLOBAL'' ''HIDDEN'' True,
      func_sym ''a'' ''GLOBAL'' ''DEFAULT'' True, func_sym ''b'' ''GLOBAL'' ''DEFAULT'' True]
     = Inr ([func_sym ''c'' ''GLOBAL'' ''DEFAULT'' True, func_sym ''a'' ''GLOBAL'' ''DEFAULT'' True,
             func_sym ''b'' ''GLOBAL'' ''DEFAULT'' True], [''a'', ''b'', ''c''], [])"
    by (simp add: collect_functions_eval)
  show ?thesis
    using collect_functions_exported [OF e, where n = "''a''"]
    by (simp add: symbol.make_def default_options_def)
qed

text \<open>
  C2. Without a user symbol list the function list (and so the jump-table order) is sorted
  and has no repetitions.
\<close>

theorem collect_functions_sorted:
  "collect_functions args None syms0 = Inr (syms, funs, ws) \<Longrightarrow> sorted funs \<and> distinct funs"
  by (auto simp: collect_functions_Inr_iff select_funs_def Let_def collect_all_funs_distinct)

theorem collect_functions_sorted_witness:
  "collect_functions (default_options ''x86_64'') None
     [func_sym ''b'' ''GLOBAL'' ''DEFAULT'' True, func_sym ''a'' ''WEAK'' ''DEFAULT'' True]
     = Inr ([func_sym ''b'' ''GLOBAL'' ''DEFAULT'' True, func_sym ''a'' ''WEAK'' ''DEFAULT'' True],
            [''a'', ''b''], []) \<and> sorted [''a'', ''b''] \<and> distinct [''a'', ''b'']"
proof -
  have e: "collect_functions (default_options ''x86_64'') None
     [func_sym ''b'' ''GLOBAL'' ''DEFAULT'' True, func_sym ''a'' ''WEAK'' ''DEFAULT'' True]
     = Inr ([func_sym ''b'' ''GLOBAL'' ''DEFAULT'' True, func_sym ''a'' ''WEAK'' ''DEFAULT'' True],
            [''a'', ''b''], [])"
    by (simp add: collect_functions_eval)
  show ?thesis using e collect_functions_sorted [OF e] by simp
qed

text \<open>
  C3. With a user symbol list, the function list is the user's list, in the user's order,
  restricted to the names of exported default-version functions of the library (a repeated
  user entry stays repeated).
\<close>

theorem collect_functions_user_list:
  assumes "collect_functions args (Some user) syms0 = Inr (syms, funs, ws)"
  shows "funs = filter (\<lambda>n. \<exists>s \<in> set syms0. is_exported args s \<and> sym_type s = ''FUNC'' \<and>
                              sym_default s \<and> sym_name s = n) user"
  using assms by (auto simp: collect_functions_Inr_iff select_funs_def Let_def collect_all_funs_set
                   intro!: filter_cong)

theorem collect_functions_user_list_witness:
  "filter (\<lambda>n. \<exists>s \<in> set [func_sym ''x'' ''GLOBAL'' ''DEFAULT'' True, func_sym ''y'' ''GLOBAL'' ''DEFAULT'' True].
             is_exported (default_options ''x86_64'') s \<and> sym_type s = ''FUNC'' \<and> sym_default s \<and>
             sym_name s = n) [''y'', ''z'', ''x''] = [''y'', ''x'']"
proof -
  have e: "collect_functions (default_options ''x86_64'') (Some [''y'', ''z'', ''x''])
     [func_sym ''x'' ''GLOBAL'' ''DEFAULT'' True, func_sym ''y'' ''GLOBAL'' ''DEFAULT'' True]
     = Inr ([func_sym ''x'' ''GLOBAL'' ''DEFAULT'' True, func_sym ''y'' ''GLOBAL'' ''DEFAULT'' True],
            [''y'', ''x''], [WMissing [''z'']])"
    by (simp add: collect_functions_eval)
  show ?thesis using collect_functions_user_list [OF e] by simp
qed

text \<open>
  C4. The versioned-symbols warning is printed once if some exported function has a
  non-default version, and never otherwise.
\<close>

theorem collect_functions_versioned_warning:
  assumes "collect_functions args user syms0 = Inr (syms, funs, ws)"
  shows "count_list ws WVersioned =
           (if \<exists>s \<in> set syms0. is_exported args s \<and> sym_type s = ''FUNC'' \<and> \<not> sym_default s
            then 1 else 0)"
  using assms by (auto simp: collect_functions_Inr_iff collect_all_funs_warnings select_funs_def
                   Let_def split: option.splits)

theorem collect_functions_versioned_warning_witness:
  "count_list [WVersioned] WVersioned =
     (if \<exists>s \<in> set [func_sym ''read'' ''GLOBAL'' ''DEFAULT'' False, func_sym ''read'' ''GLOBAL'' ''DEFAULT'' False,
                     func_sym ''write'' ''GLOBAL'' ''DEFAULT'' True].
           is_exported (default_options ''x86_64'') s \<and> sym_type s = ''FUNC'' \<and> \<not> sym_default s
      then 1 else 0)"
proof -
  have e: "collect_functions (default_options ''x86_64'') None
     [func_sym ''read'' ''GLOBAL'' ''DEFAULT'' False, func_sym ''read'' ''GLOBAL'' ''DEFAULT'' False,
      func_sym ''write'' ''GLOBAL'' ''DEFAULT'' True]
     = Inr ([func_sym ''read'' ''GLOBAL'' ''DEFAULT'' False, func_sym ''read'' ''GLOBAL'' ''DEFAULT'' False,
             func_sym ''write'' ''GLOBAL'' ''DEFAULT'' True], [''write''], [WVersioned])"
    by (simp add: collect_functions_eval)
  show ?thesis using collect_functions_versioned_warning [OF e] by simp
qed

text \<open>
  C5. Conversely, without a user list every exported function gets a trampoline: a
  defined, non-hidden \<open>FUNC\<close> of the default version, not named \<open>""\<close>, \<open>_init\<close> or
  \<open>_fini\<close>, whose binding is anything but \<open>LOCAL\<close> (and not \<open>WEAK\<close> under
  \<open>--no-weak-symbols\<close>). The filter tests \<open>Bind \<noteq> LOCAL\<close>, not
  \<open>Bind \<in> {GLOBAL, WEAK}\<close>, so \<open>readelf\<close>'s \<open>UNIQUE\<close> (\<open>STB_GNU_UNIQUE\<close>) is
  included.
\<close>

theorem collect_functions_complete:
  assumes "collect_functions args None syms0 = Inr (syms, funs, ws)" and "s \<in> set syms0"
    and "sym_type s = ''FUNC''" and "sym_default s" and "sym_bind s \<noteq> ''LOCAL''"
    and "sym_visibility s \<noteq> ''HIDDEN''" and "sym_ndx s \<noteq> ''UND''"
    and "sym_name s \<notin> {'''', ''_init'', ''_fini''}"
    and "opt_no_weak_symbols args \<longrightarrow> sym_bind s \<noteq> ''WEAK''"
  shows "sym_name s \<in> set funs"
proof -
  let ?fs = "filter (\<lambda>s. sym_type s = ''FUNC'') (filter (is_exported args) syms0)"
  from assms(1) have "funs = sort (fst (collect_all_funs ?fs [] False []))"
    by (auto simp: collect_functions_Inr_iff select_funs_def Let_def)
  moreover from assms(2-9) have "s \<in> set ?fs"
    by (simp add: is_exported_def)
  ultimately show ?thesis
    using assms(4) by (auto simp: collect_all_funs_set)
qed

theorem collect_functions_complete_witness:
  "collect_functions (default_options ''x86_64'') None [func_sym ''f'' ''UNIQUE'' ''DEFAULT'' True]
     = Inr ([func_sym ''f'' ''UNIQUE'' ''DEFAULT'' True], [''f''], []) \<and>
   sym_name (func_sym ''f'' ''UNIQUE'' ''DEFAULT'' True) \<in> set [''f'']"
proof -
  have e: "collect_functions (default_options ''x86_64'') None [func_sym ''f'' ''UNIQUE'' ''DEFAULT'' True]
     = Inr ([func_sym ''f'' ''UNIQUE'' ''DEFAULT'' True], [''f''], [])"
    by (simp add: collect_functions_eval)
  have "sym_name (func_sym ''f'' ''UNIQUE'' ''DEFAULT'' True) \<in> set [''f'']"
    by (rule collect_functions_complete [OF e]) (simp_all add: symbol.make_def default_options_def)
  with e show ?thesis by blast
qed

text \<open>
  The normalised target, the name of the directory under \<open>arch/\<close> that is looked
  up, never contains a hyphen.
\<close>

theorem normalize_target_no_hyphen: "CHR ''-'' \<notin> set (normalize_target t)"
  unfolding normalize_target_def
  by (simp split: list.split) (metis split_on_Cons_sep_free)

lemma normalize_target_examples:
  "normalize_target ''ppc64le-unknown-linux-gnu'' = ''powerpc64le''"
  "normalize_target ''i686-pc-linux-gnu'' = ''i386''"
  "normalize_target ''armv7l'' = ''arm''"
  "normalize_target ''sparc64-linux'' = ''sparc64''"
  "normalize_target ''aarch64-linux-gnu'' = ''aarch64''"
  by (simp_all add: normalize_target_def is_i86_def py_simps)

text \<open>
  C7. Every entry of the parsed \<open>--symbol-list\<close> is non-empty, has no surrounding
  whitespace, no comment character and no line break.
\<close>

theorem parse_symbol_list_entries:
  assumes "l \<in> set (parse_symbol_list text)"
  shows "l \<noteq> [] \<and> py_strip l = l \<and> CHR ''#'' \<notin> set l \<and> nl \<notin> set l"
proof -
  from assms obtain w where w: "w \<in> set (split_on nl (universal_newlines text))"
    and l: "l = py_strip (takeWhile (\<lambda>c. c \<noteq> CHR ''#'') w)" and ne: "l \<noteq> []"
    by (auto simp: parse_symbol_list_def)
  have "set l \<subseteq> set (takeWhile (\<lambda>c. c \<noteq> CHR ''#'') w)"
    using l set_py_strip by simp
  then have sub: "set l \<subseteq> set w" by (auto dest: set_takeWhileD)
  have "CHR ''#'' \<notin> set l"
    using l set_py_strip [of "takeWhile (\<lambda>c. c \<noteq> CHR ''#'') w"] by (auto dest: set_takeWhileD)
  moreover have "nl \<notin> set l" using sub split_on_sep_free [OF w] by blast
  ultimately show ?thesis using ne l py_strip_idem by simp
qed

theorem parse_symbol_list_entries_witness:
  "parse_symbol_list (''x'' @ [nl] @ ''# comment'' @ [nl] @ ''  y # z'' @ [CHR 0x0D, nl]) = [''x'', ''y'']
   \<and> ''y'' \<noteq> [] \<and> py_strip ''y'' = ''y'' \<and> CHR ''#'' \<notin> set ''y'' \<and> nl \<notin> set ''y''"
proof -
  have e: "parse_symbol_list (''x'' @ [nl] @ ''# comment'' @ [nl] @ ''  y # z'' @ [CHR 0x0D, nl]) = [''x'', ''y'']"
    by (simp add: parse_symbol_list_def py_simps)
  then have "''y'' \<in> set (parse_symbol_list (''x'' @ [nl] @ ''# comment'' @ [nl] @ ''  y # z'' @ [CHR 0x0D, nl]))"
    by simp
  from parse_symbol_list_entries [OF this] e show ?thesis by simp
qed

end
