(* ===== verification/Tools.thy ===== *)
theory Tools
  imports Prelude "HOL-Library.AList"
begin

text \<open>
  The external programs of \<open>implib-gen.py\<close>. A run of a program is modelled by what it
  returns: its exit status, its standard output and its standard error, decoded, or that it
  could not be started. The programs are a parameter \<open>tools\<close> of the model, a function
  from the command line and the standard input to the outcome; \<open>run()\<close> (lines 38-59)
  starts them in the C locale (\<open>run_env\<close>) so that the outputs have the English headers
  the parsers expect; \<open>run_in\<close> makes that environment explicit, and what the programs
  print in it is what \<open>tools\<close> stands for. The tables the programs print are read row by row
  with \<open>make_toc\<close> and \<open>parse_row\<close> (lines 95-111); a row is the dict \<open>parse_row\<close>
  builds, an association list in insertion order whose values are strings or, after the
  hexadecimal conversion, ints.
\<close>

datatype tool_run = Exec int string string | NotFound

type_synonym tools = "string list \<Rightarrow> string \<Rightarrow> tool_run"

text \<open>
  The environment \<open>run()\<close> starts a program in (lines 40-46): a copy of the caller's
  (a dict, here an association list), with \<open>LC_ALL\<close> set to \<open>c\<close> and \<open>LANG\<close> deleted
  if present (the \<open>KeyError\<close> of an absent \<open>LANG\<close> is caught).
\<close>

type_synonym environ = "(string \<times> string) list"

definition run_env :: "environ \<Rightarrow> environ" where
  "run_env env = AList.delete ''LANG'' (AList.update ''LC_ALL'' ''c'' env)"

text \<open>
  \<open>run(args, stdin)\<close>: a program that cannot be started raises \<open>OSError\<close> from
  \<open>Popen\<close>; a non-zero status or any output on standard error is \<open>error()\<close>.
\<close>

definition run :: "tools \<Rightarrow> string list \<Rightarrow> string \<Rightarrow> (string \<times> string) result" where
  "run tools args stdin =
     (case tools args stdin of
        NotFound \<Rightarrow> Inl OSError
      | Exec rc out err \<Rightarrow>
          (if rc \<noteq> 0 \<or> err \<noteq> [] then
             Inl (Fatal (hd args @ '' failed with retcode '' @ py_str_int rc @ '':'' @ [nl] @ err))
           else Inr (out, err)))"

text \<open>
  \<open>run\<close> with the environment made explicit: the programs as a function of the
  environment they are started in, given \<open>run_env\<close> of the caller's \<open>os.environ\<close>.
\<close>

definition run_in :: "(environ \<Rightarrow> tools) \<Rightarrow> environ \<Rightarrow> string list \<Rightarrow> string \<Rightarrow> (string \<times> string) result" where
  "run_in progs env args stdin = run (progs (run_env env)) args stdin"

text \<open>
  \<open>try: out, _ = run(["file", f]) ... except (OSError, SubprocessError): pass\<close>:
  whether \<open>file\<close> mentions a marker. Only \<open>OSError\<close> is caught; \<open>error()\<close> exits.
\<close>

definition file_mentions :: "tools \<Rightarrow> string \<Rightarrow> string \<Rightarrow> bool result" where
  "file_mentions tools f marker =
     (case run tools [''file'', f] [] of
        Inl e \<Rightarrow> (if e = OSError then Inr False else Inl e)
      | Inr (out, _) \<Rightarrow> Inr (str_contains marker out))"

text \<open>
  \<open>is_binary_file\<close> (lines 62-90): \<open>readelf -d\<close> with status 0 means a binary; else the
  output of \<open>file\<close> (status and standard error ignored) is searched for \<open>Mach-O\<close> or
  \<open>shared library\<close>. Only the second \<open>Popen\<close> is inside the \<open>try\<close>.
\<close>

definition is_binary_file :: "tools \<Rightarrow> string \<Rightarrow> bool result" where
  "is_binary_file tools filename =
     (case tools [''readelf'', ''-d'', filename] [] of
        NotFound \<Rightarrow> Inl OSError
      | Exec rc _ _ \<Rightarrow>
          (if rc = 0 then Inr True
           else (case tools [''file'', filename] [] of
                   NotFound \<Rightarrow> Inr False
                 | Exec _ out _ \<Rightarrow>
                     Inr (list_ex (\<lambda>sig. str_contains sig out) [''Mach-O'', ''shared library'']))))"

section \<open>Rows\<close>

datatype cell = CStr string | CInt int

text \<open>\<open>make_toc(words, renames)\<close>: the column names in order, renamed.\<close>

definition make_toc :: "string list \<Rightarrow> (string \<times> string) list \<Rightarrow> string list" where
  "make_toc words renames = map (\<lambda>n. case map_of renames n of Some m \<Rightarrow> m | None \<Rightarrow> n) words"

text \<open>
  \<open>parse_row(words, toc, hex_keys)\<close>: each column gets its word or \<open>""\<close> past the end of
  the row (a repeated column name keeps its first position and its last value), then every
  non-empty hexadecimal column is converted with \<open>int(v, 16)\<close>.
\<close>

definition row_cells :: "string list \<Rightarrow> string list \<Rightarrow> (string \<times> cell) list" where
  "row_cells words toc =
     fold (\<lambda>(i, k) vals. AList.update k (CStr (if i < length words then words ! i else [])) vals)
       (zip [0..<length toc] toc) []"

definition hex_cell :: "(string \<times> cell) list \<Rightarrow> string \<Rightarrow> (string \<times> cell) list result" where
  "hex_cell vals k =
     (case map_of vals k of
        None \<Rightarrow> Inl KeyError
      | Some (CStr v) \<Rightarrow>
          (if v = [] then Inr vals
           else (case py_int v 16 of None \<Rightarrow> Inl ValueError | Some i \<Rightarrow> Inr (AList.update k (CInt i) vals)))
      | Some (CInt i) \<Rightarrow> (if i = 0 then Inr vals else Inl TypeError))"

definition parse_row :: "string list \<Rightarrow> string list \<Rightarrow> string list \<Rightarrow> (string \<times> cell) list result" where
  "parse_row words toc hex_keys = fold_result hex_cell hex_keys (row_cells words toc)"

text \<open>
  Reading a column as a string: a missing column is \<open>KeyError\<close>. The code reads
  \<open>Type\<close>, \<open>Bind\<close> and \<open>Ndx\<close> only later (in \<open>is_exported\<close>); a header without them,
  which \<open>readelf\<close> does not print, is rejected here at the first row.
\<close>

definition str_col :: "(string \<times> cell) list \<Rightarrow> string \<Rightarrow> string result" where
  "str_col vals k = (case map_of vals k of None \<Rightarrow> Inl KeyError | Some (CStr s) \<Rightarrow> Inr s | Some (CInt _) \<Rightarrow> Inl TypeError)"

section \<open>Properties\<close>

text \<open>The child's environment: \<open>LC_ALL=c\<close>, no \<open>LANG\<close>, every other variable inherited.\<close>

lemma run_env_lookup:
  "map_of (run_env env) k = (if k = ''LANG'' then None else if k = ''LC_ALL'' then Some ''c'' else map_of env k)"
  unfolding run_env_def delete_conv update_conv by simp

lemma run_env_distinct: "distinct (map fst env) \<Longrightarrow> distinct (map fst (run_env env))"
  unfolding run_env_def by (intro distinct_delete distinct_update)

text \<open>
  C11. The outputs the parsers read do not depend on the caller's locale: \<open>run()\<close> starts
  every program with \<open>LC_ALL=c\<close> and without \<open>LANG\<close>, so two callers whose environments
  agree on every variable but \<open>LANG\<close> and \<open>LC_ALL\<close> get the same run, for programs that
  read their environment as a map (as \<open>getenv\<close> does).
\<close>

theorem run_in_locale_independent:
  assumes "\<And>e e'. map_of e = map_of e' \<Longrightarrow> progs e = progs e'"
    and "\<And>k. k \<noteq> ''LANG'' \<Longrightarrow> k \<noteq> ''LC_ALL'' \<Longrightarrow> map_of e1 k = map_of e2 k"
  shows "run_in progs e1 args stdin = run_in progs e2 args stdin"
proof -
  have "map_of (run_env e1) k = map_of (run_env e2) k" for k
    unfolding run_env_lookup using assms(2) [of k] by simp
  then have "progs (run_env e1) = progs (run_env e2)"
    by (intro assms(1) ext)
  then show ?thesis
    by (simp add: run_in_def)
qed

theorem run_in_locale_independent_witness:
  "run_in (\<lambda>e args stdin. Exec 0 (case map_of e ''LANG'' of None \<Rightarrow> ''C'' | Some l \<Rightarrow> l) [])
      [(''LANG'', ''de_DE.UTF-8''), (''HOME'', ''/root'')] [''nm'', ''-g''] [] =
   run_in (\<lambda>e args stdin. Exec 0 (case map_of e ''LANG'' of None \<Rightarrow> ''C'' | Some l \<Rightarrow> l) [])
      [(''HOME'', ''/root''), (''LC_ALL'', ''fr_FR'')] [''nm'', ''-g''] []"
  by (rule run_in_locale_independent) simp_all

end
