(* ===== verification/ElfTables.thy ===== *)
theory ElfTables
  imports Tools
begin

text \<open>
  The section and dynamic-relocation tables that \<open>collect_sections\<close> and
  \<open>collect_relocs\<close> of \<open>implib-gen.py\<close> build from \<open>readelf -SW\<close> and
  \<open>readelf -rW\<close>. A section row keeps the columns the vtable stage reads (\<open>Name\<close>,
  \<open>Address\<close>, \<open>Off\<close>, \<open>Size\<close>, \<open>Flg\<close>); a relocation row its \<open>Offset\<close>,
  \<open>Info\<close>, \<open>Type\<close> and the cell \<open>Symbol's Name + Addend\<close>, which the parser turns
  into a pair \<open>(name, addend)\<close> or leaves as the empty string (\<open>None\<close> here).
  Both parsers (\<open>collect_sections\<close>, lines 345-379, and \<open>collect_relocs\<close>, 280-342) are
  loops over the output lines with the active header as state.
\<close>

record elf_section =
  sec_name :: string
  sec_address :: int
  sec_off :: int
  sec_size :: int
  sec_flags :: string

record reloc =
  rel_offset :: int
  rel_info :: int
  rel_type :: string
  rel_target :: "(string \<times> int) option"

section \<open>\<open>collect_sections\<close>\<close>

text \<open>\<open>re.sub(r"\[\s+", "[", line)\<close>: the blanks after each \<open>[\<close> are removed.\<close>

function squeeze_bracket :: "string \<Rightarrow> string" where
  "squeeze_bracket [] = []"
| "squeeze_bracket (c # cs) =
     (if c = CHR ''['' \<and> cs \<noteq> [] \<and> py_isspace (hd cs) then c # squeeze_bracket (dropWhile py_isspace cs)
      else c # squeeze_bracket cs)"
  by pat_completeness auto
termination
  by (relation "measure length") (auto simp: le_imp_less_Suc length_dropWhile_le)

text \<open>
  A section row: the columns \<open>Address\<close>, \<open>Off\<close> and \<open>Size\<close> are hexadecimal; only
  allocatable sections (an \<open>A\<close> in \<open>Flg\<close>) are kept. The hexadecimal columns precede
  \<open>Flg\<close>, so in a row that has flags they are present and converted.
\<close>

definition section_row ::
  "string list \<Rightarrow> string list \<Rightarrow> elf_section list \<Rightarrow> elf_section list result" where
  "section_row toc words secs =
     (case parse_row words toc [''Address'', ''Off'', ''Size''] of
        Inl e \<Rightarrow> Inl e
      | Inr row \<Rightarrow>
          (case str_col row ''Flg'' of
             Inl e \<Rightarrow> Inl e
           | Inr flg \<Rightarrow>
               (if \<not> str_contains ''A'' flg then Inr secs
                else
                  (case (str_col row ''Name'', map_of row ''Address'', map_of row ''Off'', map_of row ''Size'') of
                     (Inr n, Some (CInt a), Some (CInt off), Some (CInt sz)) \<Rightarrow>
                       Inr (secs @ [\<lparr>sec_name = n, sec_address = a, sec_off = off, sec_size = sz, sec_flags = flg\<rparr>])
                   | (Inl e, _, _, _) \<Rightarrow> Inl e
                   | _ \<Rightarrow> Inl TypeError))))"

definition section_line ::
  "string list option \<times> elf_section list \<Rightarrow> string \<Rightarrow> (string list option \<times> elf_section list) result" where
  "section_line st line0 =
     (let line1 = py_strip line0 in
      if line1 = [] then Inr st
      else
        (let line = squeeze_bracket line1; words = re_split_runs 1 (\<lambda>c. c = CHR '' '') line in
         if starts_with ''[Nr]'' line then
           (if fst st \<noteq> None then Inl (Fatal ''multiple headers in output of readelf'')
            else Inr (Some (make_toc words [(''Addr'', ''Address'')]), snd st))
         else
           (case fst st of
              Some toc \<Rightarrow>
                (if starts_with ''['' line then
                   (case section_row toc words (snd st) of Inl e \<Rightarrow> Inl e | Inr secs \<Rightarrow> Inr (Some toc, secs))
                 else Inr st)
            | None \<Rightarrow> Inr st)))"

definition parse_readelf_sections :: "string \<Rightarrow> string \<Rightarrow> elf_section list result" where
  "parse_readelf_sections f out =
     (case fold_result section_line (py_splitlines out) (None, []) of
        Inl e \<Rightarrow> Inl e
      | Inr (None, _) \<Rightarrow> Inl (Fatal (''failed to analyze sections in '' @ f))
      | Inr (Some _, secs) \<Rightarrow> Inr secs)"

definition collect_sections :: "tools \<Rightarrow> string \<Rightarrow> elf_section list result" where
  "collect_sections tools f =
     (case file_mentions tools f ''Mach-O'' of
        Inl e \<Rightarrow> Inl e
      | Inr True \<Rightarrow> Inr []
      | Inr False \<Rightarrow>
          (case run tools [''readelf'', ''-SW'', f] [] of
             Inl e \<Rightarrow> Inl e
           | Inr (out, _) \<Rightarrow> parse_readelf_sections f out))"

section \<open>\<open>collect_relocs\<close>\<close>

text \<open>\<open>re.sub(r" \+ ", "+", line)\<close>, non-overlapping from the left.\<close>

function join_plus :: "string \<Rightarrow> string" where
  "join_plus [] = []"
| "join_plus (c # cs) =
     (if starts_with '' + '' (c # cs) then CHR ''+'' # join_plus (drop 2 cs) else c # join_plus cs)"
  by pat_completeness auto
termination
  by (relation "measure length") auto

text \<open>\<open>re.match(r"^\s*Type[0-9]:", line)\<close> on a stripped line: the MIPS continuation lines.\<close>

definition is_type_line :: "string \<Rightarrow> bool" where
  "is_type_line line \<longleftrightarrow> starts_with ''Type'' line \<and> 6 \<le> length line \<and> is_ascii_digit (line ! 4) \<and> line ! 5 = CHR '':''"

text \<open>The FreeBSD header names and their GNU equivalents; another name is a \<open>KeyError\<close>.\<close>

definition bsd_rename :: "(string \<times> string) list" where
  "bsd_rename =
     [(''r_offset'', ''Offset''), (''r_info'', ''Info''), (''r_type'', ''Type''), (''st_value'', ''Symbol's Value''),
      (''st_name + r_addend'', ''Symbol's Name + Addend'')]"

fun rename_toc :: "string list \<Rightarrow> string list result" where
  "rename_toc [] = Inr []"
| "rename_toc (n # ns) =
     (case map_of bsd_rename n of
        None \<Rightarrow> Inl KeyError
      | Some m \<Rightarrow> (case rename_toc ns of Inl e \<Rightarrow> Inl e | Inr ms \<Rightarrow> Inr (m # ms)))"

text \<open>
  The target cell \<open>Symbol's Name + Addend\<close>: empty stays empty (no target); otherwise it is
  split on \<open>+\<close>, a cell without \<open>+\<close> being read as an addend with an empty name, and the
  second part is the hexadecimal addend (further parts are ignored).
\<close>

definition reloc_target_cell :: "string \<Rightarrow> (string \<times> int) option result" where
  "reloc_target_cell c =
     (if c = [] then Inr None
      else
        (let p = split_on (CHR ''+'') c; p' = (if length p = 1 then [[], p ! 0] else p) in
         case py_int (p' ! 1) 16 of None \<Rightarrow> Inl ValueError | Some a \<Rightarrow> Inr (Some (p' ! 0, a))))"

abbreviation name_addend :: string where
  "name_addend \<equiv> ''Symbol's Name + Addend''"

text \<open>
  A relocation row: \<open>Offset\<close> and \<open>Info\<close> are hexadecimal; an older \<open>readelf\<close> without the
  combined column gets \<open>Symbol's Name + "+0"\<close>. \<open>Offset\<close> is the first column, so it is
  present in every row; \<open>Info\<close> is never read by the script, and an \<open>Info\<close> cell that
  stayed a string is kept as \<open>0\<close>.
\<close>

definition reloc_row :: "string list \<Rightarrow> string \<Rightarrow> reloc result" where
  "reloc_row toc line =
     (case parse_row (re_split_runs 1 py_isspace (join_plus line)) toc [''Offset'', ''Info''] of
        Inl e \<Rightarrow> Inl e
      | Inr row0 \<Rightarrow>
          (let row = (case (map_of row0 name_addend, map_of row0 ''Symbol's Name'') of
                        (None, Some (CStr n)) \<Rightarrow> AList.update name_addend (CStr (n @ ''+0'')) row0
                      | _ \<Rightarrow> row0);
               info = (case map_of row ''Info'' of Some (CInt i) \<Rightarrow> i | _ \<Rightarrow> 0) in
           case str_col row name_addend of
             Inl e \<Rightarrow> Inl e
           | Inr c \<Rightarrow>
               (case reloc_target_cell c of
                  Inl e \<Rightarrow> Inl e
                | Inr t \<Rightarrow>
                    (case (map_of row ''Offset'', str_col row ''Type'') of
                       (Some (CInt off), Inr ty) \<Rightarrow> Inr \<lparr>rel_offset = off, rel_info = info, rel_type = ty, rel_target = t\<rparr>
                     | (_, Inl e) \<Rightarrow> Inl e
                     | _ \<Rightarrow> Inl TypeError))))"

datatype reloc_step = RelocsNone | RelocsState "string list option" "reloc list"

text \<open>
  One line: \<open>There are no relocations in this file.\<close> ends the loop with no relocations
  (\<open>RelocsNone\<close>, which later lines leave alone); a blank line forgets the header; the
  GNU and FreeBSD headers are split at runs of two or more blanks.
\<close>

definition reloc_line :: "reloc_step \<Rightarrow> string \<Rightarrow> reloc_step result" where
  "reloc_line st line0 =
     (case st of
        RelocsNone \<Rightarrow> Inr RelocsNone
      | RelocsState toc rels \<Rightarrow>
          (let line = py_strip line0 in
           if line = [] then Inr (RelocsState None rels)
           else if line = ''There are no relocations in this file.'' then Inr RelocsNone
           else if is_type_line line then Inr st
           else if starts_with ''Offset'' line then
             (if toc \<noteq> None then Inl (Fatal ''multiple headers in output of readelf'')
              else Inr (RelocsState (Some (make_toc (re_split_runs 2 py_isspace line) [])) rels))
           else if starts_with ''r_offset'' line then
             (if toc \<noteq> None then Inl (Fatal ''multiple headers in output of readelf'')
              else (case rename_toc (make_toc (re_split_runs 2 py_isspace line) []) of
                      Inl e \<Rightarrow> Inl e
                    | Inr t \<Rightarrow> Inr (RelocsState (Some t) rels)))
           else
             (case toc of
                None \<Rightarrow> Inr st
              | Some t \<Rightarrow> (case reloc_row t line of Inl e \<Rightarrow> Inl e | Inr r \<Rightarrow> Inr (RelocsState toc (rels @ [r]))))))"

definition parse_readelf_relocs :: "string \<Rightarrow> string \<Rightarrow> reloc list result" where
  "parse_readelf_relocs f out =
     (case fold_result reloc_line (py_splitlines out) (RelocsState None []) of
        Inl e \<Rightarrow> Inl e
      | Inr RelocsNone \<Rightarrow> Inr []
      | Inr (RelocsState None _) \<Rightarrow> Inl (Fatal (''failed to analyze relocations in '' @ f))
      | Inr (RelocsState (Some _) rels) \<Rightarrow> Inr rels)"

definition collect_relocs :: "tools \<Rightarrow> string \<Rightarrow> reloc list result" where
  "collect_relocs tools f =
     (case file_mentions tools f ''Mach-O'' of
        Inl e \<Rightarrow> Inl e
      | Inr True \<Rightarrow> Inr []
      | Inr False \<Rightarrow>
          (case run tools [''readelf'', ''-rW'', f] [] of
             Inl e \<Rightarrow> Inl e
           | Inr (out, _) \<Rightarrow> parse_readelf_relocs f out))"

section \<open>Worked examples\<close>

text \<open>
  A section table in the layout of \<open>readelf -SW\<close>, with an allocatable and a
  non-allocatable section, and a relocation table with a symbol and a relative row.
\<close>

abbreviation ex_sections :: string where
  "ex_sections \<equiv>
     ''  [Nr] Name Type Addr Off Size ES Flg Lk Inf Al'' @ [nl] @
     ''  [ 1] .text PROGBITS 1000 1000 20 00 AX 0 0 16'' @ [nl] @
     ''  [ 2] .comment PROGBITS 0 1020 2b 01 MS 0 0 1'' @ [nl]"

abbreviation ex_relocs :: string where
  "ex_relocs \<equiv>
     [nl] @ ''Relocation section '' @ [CHR 0x27] @ ''.rela.dyn'' @ [CHR 0x27] @ '' at offset 0x480 contains 2 entries:'' @ [nl] @
     ''    Offset             Info             Type               Symbol's Value  Symbol's Name + Addend'' @ [nl] @
     ''0000000000003de8  0000000000000008 R_X86_64_RELATIVE                 1130'' @ [nl] @
     ''0000000000003fe0  0000000100000006 R_X86_64_GLOB_DAT      0000000000000000 __cxa_finalize + 0'' @ [nl]"

lemmas table_eval = parse_readelf_sections_def section_line_def section_row_def parse_readelf_relocs_def
  reloc_line_def reloc_row_def reloc_target_cell_def is_type_line_def parse_row_def row_cells_def
  hex_cell_def str_col_def make_toc_def py_simps upt_rec char_of_def bit_iff_odd

section \<open>Properties\<close>

lemma parse_readelf_sections_example:
  "parse_readelf_sections ''libx.so'' ex_sections =
     Inr [\<lparr>sec_name = ''.text'', sec_address = 4096, sec_off = 4096, sec_size = 32, sec_flags = ''AX''\<rparr>]"
  by (simp add: parse_readelf_sections_def section_line_def section_row_def parse_row_def row_cells_def
      hex_cell_def str_col_def make_toc_def py_simps upt_rec char_of_def bit_iff_odd)

lemma parse_readelf_relocs_example:
  "parse_readelf_relocs ''libx.so'' ex_relocs =
     Inr [\<lparr>rel_offset = 15848, rel_info = 8, rel_type = ''R_X86_64_RELATIVE'', rel_target = None\<rparr>,
          \<lparr>rel_offset = 16352, rel_info = 4294967302, rel_type = ''R_X86_64_GLOB_DAT'',
           rel_target = Some (''__cxa_finalize'', 0)\<rparr>]"
  by (simp add: table_eval)

lemma section_line_alloc:
  assumes "section_line st line = Inr st'" and "\<forall>s \<in> set (snd st). CHR ''A'' \<in> set (sec_flags s)"
  shows "\<forall>s \<in> set (snd st'). CHR ''A'' \<in> set (sec_flags s)"
proof -
  have row: "section_row toc words secs = Inr secs' \<Longrightarrow> \<forall>s \<in> set secs. CHR ''A'' \<in> set (sec_flags s) \<Longrightarrow>
             \<forall>s \<in> set secs'. CHR ''A'' \<in> set (sec_flags s)" for toc words secs secs'
    unfolding section_row_def
    by (auto simp: str_contains_single split: sum.split_asm if_split_asm option.split_asm cell.split_asm)
  show ?thesis
    using assms row by (auto simp: section_line_def Let_def split: if_split_asm option.split_asm sum.split_asm)
qed

text \<open>
  C35. The parser keeps only allocatable sections: every section it returns has the flag
  \<open>A\<close>, so the byte reader never looks for a symbol in a section that is not loaded.
\<close>

theorem parse_readelf_sections_allocatable:
  assumes "parse_readelf_sections f out = Inr secs" and "s \<in> set secs"
  shows "CHR ''A'' \<in> set (sec_flags s)"
proof -
  obtain toc where st: "fold_result section_line (py_splitlines out) (None, []) = Inr (Some toc, secs)"
    using assms(1) by (auto simp: parse_readelf_sections_def split: sum.splits option.splits prod.splits)
  have "\<forall>s \<in> set (snd (Some toc, secs)). CHR ''A'' \<in> set (sec_flags s)"
  proof (rule fold_result_invariant [OF _ _ st])
    fix t x t'
    assume "\<forall>s \<in> set (snd t). CHR ''A'' \<in> set (sec_flags s)" and "section_line t x = Inr t'"
    then show "\<forall>s \<in> set (snd t'). CHR ''A'' \<in> set (sec_flags s)" by (rule section_line_alloc [rotated])
  qed simp
  with assms(2) show ?thesis by simp
qed

theorem parse_readelf_sections_allocatable_witness:
  "CHR ''A'' \<in> set (sec_flags \<lparr>sec_name = ''.text'', sec_address = 4096, sec_off = 4096, sec_size = 32,
                                 sec_flags = ''AX''\<rparr>)"
  using parse_readelf_sections_allocatable [OF parse_readelf_sections_example] by simp

lemma plus_notin_py_hex: "CHR ''+'' \<notin> set (py_hex a)"
proof
  assume a: "CHR ''+'' \<in> set (py_hex a)"
  obtain m where "CHR ''+'' \<in> set (nat_digits 16 m)"
    using a by (auto simp: py_hex_def split: if_splits)
  moreover have "\<forall>c \<in> set (nat_digits 16 m). \<exists>d < 16. c = digit_char d"
    using nat_digits_hex by blast
  ultimately obtain d where "d < 16" "CHR ''+'' = digit_char d" by blast
  then show False using digit_char_hex [of d] by simp
qed

text \<open>
  C36. The target cell as \<open>readelf\<close> prints it, \<open>name + addend\<close> with the addend in
  hexadecimal (joined to \<open>name+addend\<close> by the parser), is read back as the pair of the name
  and the addend, for every name without \<open>+\<close>.
\<close>

theorem reloc_target_cell_roundtrip:
  assumes "CHR ''+'' \<notin> set n"
  shows "reloc_target_cell (n @ ''+'' @ py_hex a) = Inr (Some (n, a))"
proof -
  have "split_on (CHR ''+'') (n @ ''+'' @ py_hex a) = [n, py_hex a]"
    using assms plus_notin_py_hex by (simp add: split_on_append_sep split_on_no_sep)
  then show ?thesis by (simp add: reloc_target_cell_def py_int_py_hex)
qed

theorem reloc_target_cell_roundtrip_witness:
  "reloc_target_cell ''__cxa_finalize+0'' = Inr (Some (''__cxa_finalize'', 0))"
  using reloc_target_cell_roundtrip [of "''__cxa_finalize''" 0] by (simp add: py_simps char_of_def bit_iff_odd)

end
