(* ===== verification/Vtables.thy ===== *)
theory Vtables
  imports Symbols ElfTables
begin

text \<open>
  The vtable reconstruction of \<open>implib-gen.py\<close> (option \<open>--vtables\<close>): reading the
  unrelocated bytes of each class symbol from the library file
  (\<open>read_unrelocated_data\<close>) and turning them into a list of slots, pointer-sized
  words with the relocations of the accepted types laid over them
  (\<open>collect_relocated_data\<close>). Python dicts keyed by symbol name are association lists
  in insertion order; the file is its list of bytes.
\<close>

section \<open>Reading the unrelocated bytes\<close>

definition is_symbol_in_section :: "symbol \<Rightarrow> elf_section \<Rightarrow> bool" where
  "is_symbol_in_section s sec \<longleftrightarrow>
     (let sec_end = sec_address sec + sec_size sec in
      (sec_address sec \<le> sym_value s \<and> sym_value s < sec_end) \<and> sym_value s + sym_size s \<le> sec_end)"

text \<open>
  \<open>f.seek(off); f.read(n)\<close> on the binary file: a negative position raises
  \<open>ValueError\<close>, \<open>n = -1\<close> reads to the end, a smaller \<open>n\<close> raises, and a read
  past the end returns fewer bytes.
\<close>

definition read_at :: "byte list \<Rightarrow> int \<Rightarrow> int \<Rightarrow> byte list result" where
  "read_at f off n =
     (if off < 0 \<or> n < -1 then Inl ValueError
      else (let rest = drop (nat off) f in Inr (if n = -1 then rest else take (nat n) rest)))"

definition interval_msg :: "symbol \<Rightarrow> string" where
  "interval_msg s =
     ''failed to locate section for interval ['' @ py_hex (sym_value s) @ '', '' @
     py_hex (sym_value s + sym_size s) @ '')''"

text \<open>
  The loop of \<open>read_unrelocated_data\<close>, over the symbols sorted by address: exactly one
  section must contain the symbol, and the bytes are read at the section's file offset
  \<open>Off\<close>, as the code does (\<open>f.seek(sec["Off"])\<close>).
\<close>

fun read_syms :: "byte list \<Rightarrow> elf_section list \<Rightarrow> (string \<times> symbol) list \<Rightarrow>
                  (string \<times> byte list) list result" where
  "read_syms f secs [] = Inr []"
| "read_syms f secs ((n, s) # rest) =
     (case filter (is_symbol_in_section s) secs of
        [sec] \<Rightarrow>
          (case read_at f (sec_off sec) (sym_size s) of
             Inl e \<Rightarrow> Inl e
           | Inr b \<Rightarrow> (case read_syms f secs rest of
                         Inl e \<Rightarrow> Inl e
                       | Inr d \<Rightarrow> Inr ((n, b) # d)))
      | _ \<Rightarrow> Inl (Fatal (interval_msg s)))"

definition read_unrelocated_data ::
  "byte list \<Rightarrow> (string \<times> symbol) list \<Rightarrow> elf_section list \<Rightarrow> (string \<times> byte list) list result" where
  "read_unrelocated_data f syms secs = read_syms f secs (sort_key (\<lambda>(n, s). sym_value s) syms)"

section \<open>Slots\<close>

text \<open>
  A slot of a class symbol: a byte of a \<open>typeinfo name\<close> string, a pointer-sized word
  read from the file (\<open>("offset", val)\<close>), or a relocation that replaces the word
  (\<open>("reloc", rel)\<close>).
\<close>

datatype slot = SByte byte | SOffset nat | SReloc reloc

text \<open>
  The word loop of \<open>collect_relocated_data\<close>:
  \<open>for i in range(0, len(b), ptr_size): b[i * ptr_size : (i + 1) * ptr_size]\<close>. The
  loop variable already steps by \<open>ptr_size\<close> and is multiplied by it again.
\<close>

definition symbol_slots :: "int \<Rightarrow> byte list \<Rightarrow> slot list result" where
  "symbol_slots ptr_size b =
     (case py_range0 (length b) ptr_size of
        Inl e \<Rightarrow> Inl e
      | Inr is \<Rightarrow> Inr (map (\<lambda>i. SOffset (from_le (py_slice b (nat (i * ptr_size))
                                                             (nat ((i + 1) * ptr_size))))) is))"

definition reloc_applies :: "string list \<Rightarrow> int \<Rightarrow> int \<Rightarrow> reloc \<Rightarrow> bool" where
  "reloc_applies reloc_types start finish r \<longleftrightarrow>
     rel_type r \<in> set reloc_types \<and> start \<le> rel_offset r \<and> rel_offset r < finish"

fun overlay_relocs ::
  "int \<Rightarrow> string list \<Rightarrow> int \<Rightarrow> int \<Rightarrow> reloc list \<Rightarrow> slot list \<Rightarrow> slot list result" where
  "overlay_relocs ptr_size reloc_types start finish [] d = Inr d"
| "overlay_relocs ptr_size reloc_types start finish (r # rs) d =
     (if reloc_applies reloc_types start finish r then
        (let i = (rel_offset r - start) div ptr_size in
         if i < int (length d) then
           (case py_list_set d i (SReloc r) of
              Inl e \<Rightarrow> Inl e
            | Inr d' \<Rightarrow> overlay_relocs ptr_size reloc_types start finish rs d')
         else Inl AssertionError)
      else overlay_relocs ptr_size reloc_types start finish rs d)"

text \<open>The body of the loop for one class symbol.\<close>

definition symbol_data ::
  "int \<Rightarrow> string list \<Rightarrow> reloc list \<Rightarrow> symbol \<Rightarrow> byte list \<Rightarrow> slot list result" where
  "symbol_data ptr_size reloc_types rels s b =
     (case sym_demangled s of
        None \<Rightarrow> Inl KeyError
      | Some dn \<Rightarrow>
          if starts_with ''typeinfo name'' dn then Inr (map SByte b)
          else (case symbol_slots ptr_size b of
                  Inl e \<Rightarrow> Inl e
                | Inr d \<Rightarrow> overlay_relocs ptr_size reloc_types (sym_value s)
                             (sym_value s + sym_size s) rels d))"

fun relocated_syms ::
  "(string \<times> byte list) list \<Rightarrow> reloc list \<Rightarrow> int \<Rightarrow> string list \<Rightarrow> (string \<times> symbol) list \<Rightarrow>
   (string \<times> slot list) list result" where
  "relocated_syms bites rels ptr_size reloc_types [] = Inr []"
| "relocated_syms bites rels ptr_size reloc_types ((n, s) # rest) =
     (case map_of bites n of
        None \<Rightarrow> Inl AssertionError
      | Some b \<Rightarrow>
          (case symbol_data ptr_size reloc_types rels s b of
             Inl e \<Rightarrow> Inl e
           | Inr d \<Rightarrow> (case relocated_syms bites rels ptr_size reloc_types rest of
                         Inl e \<Rightarrow> Inl e
                       | Inr ds \<Rightarrow> Inr ((n, d) # ds))))"

definition collect_relocated_data ::
  "(string \<times> symbol) list \<Rightarrow> (string \<times> byte list) list \<Rightarrow> reloc list \<Rightarrow> int \<Rightarrow> string list \<Rightarrow>
   (string \<times> slot list) list result" where
  "collect_relocated_data syms bites rels ptr_size reloc_types =
     relocated_syms bites rels ptr_size reloc_types (sort_key fst syms)"

text \<open>
  What the loop means to compute: word \<open>i\<close> is read from bytes
  \<open>[i * ptr_size, (i + 1) * ptr_size)\<close>.
\<close>

definition intended_slots :: "nat \<Rightarrow> byte list \<Rightarrow> slot list" where
  "intended_slots p b =
     map (\<lambda>i. SOffset (from_le (py_slice b (i * p) ((i + 1) * p)))) [0..<(length b + p - 1) div p]"

text \<open>
  One step of the relocation overlay as a list update, and the slot a relocation lands in;
  when no assertion fails, the overlay of a list of relocations is the fold of its steps
  (\<open>overlay_relocs_eq\<close>).
\<close>

abbreviation slot_index :: "int \<Rightarrow> int \<Rightarrow> reloc \<Rightarrow> int" where
  "slot_index ptr_size start r \<equiv> (rel_offset r - start) div ptr_size"

definition overlay_step ::
  "int \<Rightarrow> string list \<Rightarrow> int \<Rightarrow> int \<Rightarrow> reloc \<Rightarrow> slot list \<Rightarrow> slot list" where
  "overlay_step ptr_size reloc_types start finish r d =
     (if reloc_applies reloc_types start finish r
      then d[nat (slot_index ptr_size start r) := SReloc r] else d)"

text \<open>
  The class of the specification's vtable scenario: \<open>vtable for C\<close> of 24 bytes at
  \<open>0x1000\<close>, with a relocation of an accepted type at offset 16 naming
  \<open>_ZN1C3fooEv\<close>.
\<close>

abbreviation vt_reloc :: reloc where
  "vt_reloc \<equiv> reloc.make 4112 1 ''R_X86_64_64'' (Some (''_ZN1C3fooEv'', 0))"

abbreviation vt_sym :: symbol where
  "vt_sym \<equiv> symbol.make ''_ZTV1C'' 4096 24 ''OBJECT'' ''GLOBAL'' ''20'' True None ''DEFAULT''
              (Some ''vtable for C'')"

text \<open>
  A read-only data section at \<open>0x1000\<close> stored at file offset 8, with two 8-byte
  objects at \<open>0x1000\<close> and \<open>0x1008\<close>, and a 24-byte file.
\<close>

abbreviation ro_section :: elf_section where
  "ro_section \<equiv> elf_section.make ''.data.rel.ro'' 4096 8 16 ''WA''"

abbreviation ro_sym :: "string \<Rightarrow> int \<Rightarrow> symbol" where
  "ro_sym n v \<equiv> symbol.make n v 8 ''OBJECT'' ''GLOBAL'' ''20'' True None ''DEFAULT'' (Some n)"

abbreviation ro_file :: "byte list" where
  "ro_file \<equiv> [0, 1, 2, 3, 4, 5, 6, 7, 8, 9, 10, 11, 12, 13, 14, 15, 16, 17, 18, 19, 20, 21, 22, 23]"

lemmas read_eval =
  read_unrelocated_data_def is_symbol_in_section_def read_at_def elf_section.make_def
  symbol.make_def Let_def

lemmas vtable_eval =
  symbol_data_def symbol_slots_def py_range0_def py_slice_def symbol.make_def reloc.make_def
  reloc_applies_def py_list_set_def Let_def starts_with_def upt_rec replicate_numeral

section \<open>The slot loop\<close>

lemma nat_scaled_index: "nat (int k * int p * int p) = k * p * p"
  by (simp only: of_nat_mult [symmetric] nat_int)

lemma nat_scaled_next: "nat ((int k * int p + 1) * int p) = (k * p + 1) * p"
proof -
  have "(int k * int p + 1) * int p = int ((k * p + 1) * p)" by (simp add: algebra_simps)
  then show ?thesis by (simp only: nat_int)
qed

text \<open>For a positive pointer size the loop returns, and slot \<open>k\<close> is read at byte \<open>k * p * p\<close>.\<close>

lemma symbol_slots_closed:
  assumes "0 < p"
  shows "symbol_slots (int p) b =
           Inr (map (\<lambda>k. SOffset (from_le (py_slice b (k * p * p) ((k * p + 1) * p))))
                    [0..<(length b + p - 1) div p])"
  using assms by (simp add: symbol_slots_def py_range0_def nat_scaled_index nat_scaled_next)

lemma length_overlay_step [simp]: "length (overlay_step ptr_size types st fi r d) = length d"
  by (simp add: overlay_step_def)

lemma length_fold_overlay_step [simp]:
  "length (fold (overlay_step ptr_size types st fi) rs d) = length d"
  by (induction rs arbitrary: d) simp_all

lemma overlay_relocs_eq:
  assumes "0 < ptr_size"
  shows "overlay_relocs ptr_size types st fi rs d =
     (if \<exists>r \<in> set rs. reloc_applies types st fi r \<and> int (length d) \<le> slot_index ptr_size st r
      then Inl AssertionError
      else Inr (fold (overlay_step ptr_size types st fi) rs d))"
proof (induction rs arbitrary: d)
  case Nil
  then show ?case by simp
next
  case (Cons r rs)
  show ?case
  proof (cases "reloc_applies types st fi r")
    case True
    then have nonneg: "0 \<le> slot_index ptr_size st r"
      using assms by (simp add: reloc_applies_def pos_imp_zdiv_nonneg_iff)
    show ?thesis
    proof (cases "slot_index ptr_size st r < int (length d)")
      case True
      with nonneg have "py_list_set d (slot_index ptr_size st r) (SReloc r) =
                          Inr (overlay_step ptr_size types st fi r d)"
        using \<open>reloc_applies types st fi r\<close> by (simp add: py_list_set_def overlay_step_def)
      with True \<open>reloc_applies types st fi r\<close>
      have "overlay_relocs ptr_size types st fi (r # rs) d =
              overlay_relocs ptr_size types st fi rs (overlay_step ptr_size types st fi r d)"
        by (simp add: Let_def)
      with True \<open>reloc_applies types st fi r\<close> show ?thesis
        by (simp add: Cons.IH)
    next
      case False
      with \<open>reloc_applies types st fi r\<close> show ?thesis by (auto simp: Let_def)
    qed
  next
    case False
    then have id: "overlay_step ptr_size types st fi r d = d" by (simp add: overlay_step_def)
    have "overlay_relocs ptr_size types st fi (r # rs) d = overlay_relocs ptr_size types st fi rs d"
      using False by simp
    also have "\<dots> = (if \<exists>r \<in> set rs. reloc_applies types st fi r \<and>
                               int (length d) \<le> slot_index ptr_size st r
      then Inl AssertionError
      else Inr (fold (overlay_step ptr_size types st fi) rs d))" by (rule Cons.IH)
    finally show ?thesis using False id by simp
  qed
qed

lemma overlay_relocs_length:
  assumes "0 < ptr_size" and "overlay_relocs ptr_size types st fi rs d = Inr d'"
  shows "length d' = length d"
proof -
  from assms have "d' = fold (overlay_step ptr_size types st fi) rs d"
    by (simp add: overlay_relocs_eq split: if_splits)
  then show ?thesis by simp
qed

lemma overlay_step_commute:
  assumes "0 < ptr_size"
    and "reloc_applies types st fi r1 \<and> reloc_applies types st fi r2 \<and>
         slot_index ptr_size st r1 = slot_index ptr_size st r2 \<longrightarrow> r1 = r2"
  shows "overlay_step ptr_size types st fi r1 \<circ> overlay_step ptr_size types st fi r2 =
         overlay_step ptr_size types st fi r2 \<circ> overlay_step ptr_size types st fi r1"
proof
  fix d
  show "(overlay_step ptr_size types st fi r1 \<circ> overlay_step ptr_size types st fi r2) d =
        (overlay_step ptr_size types st fi r2 \<circ> overlay_step ptr_size types st fi r1) d"
  proof (cases "reloc_applies types st fi r1 \<and> reloc_applies types st fi r2")
    case True
    then have nn: "0 \<le> slot_index ptr_size st r1" "0 \<le> slot_index ptr_size st r2"
      using assms(1) by (auto simp: reloc_applies_def pos_imp_zdiv_nonneg_iff)
    show ?thesis
    proof (cases "slot_index ptr_size st r1 = slot_index ptr_size st r2")
      case True
      with assms(2) \<open>reloc_applies types st fi r1 \<and> reloc_applies types st fi r2\<close>
      show ?thesis by simp
    next
      case False
      with nn have "nat (slot_index ptr_size st r1) \<noteq> nat (slot_index ptr_size st r2)" by simp
      with \<open>reloc_applies types st fi r1 \<and> reloc_applies types st fi r2\<close> show ?thesis
        by (simp add: overlay_step_def list_update_swap)
    qed
  next
    case False
    then show ?thesis by (auto simp: overlay_step_def)
  qed
qed

text \<open>
  When the symbol's bytes are \<open>size\<close> long, every accepted relocation inside the symbol
  lands in a slot that exists, so the \<open>assert\<close> of the loop holds.
\<close>

lemma overlay_relocs_no_assertion:
  assumes "0 < p" and "0 \<le> sz" and "int (length d) = (sz + int p - 1) div int p"
  shows "overlay_relocs (int p) types st (st + sz) rs d =
           Inr (fold (overlay_step (int p) types st (st + sz)) rs d)"
proof -
  have "slot_index (int p) st r < int (length d)" if "reloc_applies types st (st + sz) r" for r
  proof -
    from that have x: "0 \<le> rel_offset r - st" "rel_offset r - st < sz"
      by (auto simp: reloc_applies_def)
    then have "nat (rel_offset r - st) < nat sz" by simp
    then have "nat (rel_offset r - st) div p < (nat sz + p - 1) div p"
      using assms(1) by (rule div_lt_ceil_div)
    moreover have "int (nat (rel_offset r - st) div p) = slot_index (int p) st r"
      using x by (simp add: zdiv_int)
    moreover have "int ((nat sz + p - 1) div p) = (sz + int p - 1) div int p"
      using assms(1,2) by (simp add: zdiv_int of_nat_diff)
    ultimately show ?thesis using assms(3) by linarith
  qed
  then have "\<not> (\<exists>r \<in> set rs. reloc_applies types st (st + sz) r \<and>
                 int (length d) \<le> slot_index (int p) st r)"
    by (meson not_le)
  then show ?thesis
    using assms(1) by (simp only: overlay_relocs_eq [of "int p"] of_nat_0_less_iff if_False)
qed

lemma vtable_example:
  "symbol_data (int 8) [''R_X86_64_64'', ''R_X86_64_GLOB_DAT''] [vt_reloc] vt_sym (replicate 24 7) =
     Inr [SOffset 506381209866536711, SOffset 0, SReloc vt_reloc]"
  by (simp add: vtable_eval)

lemma vtable_slots_example:
  "symbol_slots (int 8) (replicate 24 7) = Inr [SOffset 506381209866536711, SOffset 0, SOffset 0]"
  by (simp add: vtable_eval)

section \<open>Properties of the slot reconstruction\<close>

text \<open>
  C9. With a positive pointer size, the slot list of a class symbol has one slot per byte
  for a \<open>typeinfo name\<close> string and \<open>\<lceil>len(b) / ptr_size\<rceil>\<close> slots otherwise.
\<close>

theorem symbol_data_length:
  assumes "0 < p" and "sym_demangled s = Some dn"
    and "symbol_data (int p) reloc_types rels s b = Inr d"
  shows "length d = (if starts_with ''typeinfo name'' dn then length b else (length b + p - 1) div p)"
proof (cases "starts_with ''typeinfo name'' dn")
  case True
  with assms show ?thesis by (auto simp: symbol_data_def)
next
  case False
  with assms have "overlay_relocs (int p) reloc_types (sym_value s) (sym_value s + sym_size s) rels
      (map (\<lambda>k. SOffset (from_le (py_slice b (k * p * p) ((k * p + 1) * p))))
         [0..<(length b + p - 1) div p]) = Inr d"
    by (simp add: symbol_data_def symbol_slots_closed)
  then have "length d = length (map (\<lambda>k. SOffset (from_le (py_slice b (k * p * p) ((k * p + 1) * p))))
                                   [0..<(length b + p - 1) div p])"
    by (rule overlay_relocs_length [rotated]) (simp add: assms(1))
  with False show ?thesis by simp
qed

theorem symbol_data_length_witness:
  "length [SOffset 506381209866536711, SOffset 0, SReloc vt_reloc] =
     (if starts_with ''typeinfo name'' ''vtable for C'' then length (replicate 24 (7::byte))
      else (length (replicate 24 (7::byte)) + 8 - 1) div 8)"
  using symbol_data_length [OF _ _ vtable_example, where dn = "''vtable for C''"]
  by (simp add: symbol.make_def)

text \<open>
  C10. Word \<open>k\<close> of a vtable is read from the bytes \<open>[k * p * p, (k * p + 1) * p)\<close>,
  not \<open>[k * p, (k + 1) * p)\<close>: the loop index already steps by the pointer size and the
  slice multiplies it again. For a 24-byte vtable and \<open>p = 8\<close>, slots 1 and 2 are read past
  the end and are \<open>0\<close> whatever the file holds.
\<close>

theorem symbol_slots_word_offset:
  assumes "0 < p" and "symbol_slots (int p) b = Inr d" and "k < length d"
  shows "d ! k = SOffset (from_le (py_slice b (k * p * p) ((k * p + 1) * p)))"
proof -
  from assms(1,2) have "d = map (\<lambda>k. SOffset (from_le (py_slice b (k * p * p) ((k * p + 1) * p))))
                              [0..<(length b + p - 1) div p]"
    by (simp add: symbol_slots_closed)
  with assms(3) show ?thesis by simp
qed

theorem symbol_slots_word_offset_witness:
  "[SOffset 506381209866536711, SOffset 0, SOffset 0] ! 1 =
     SOffset (from_le (py_slice (replicate 24 (7::byte)) (1 * 8 * 8) ((1 * 8 + 1) * 8)))"
  using symbol_slots_word_offset [OF _ vtable_slots_example, where k = 1] by simp

text \<open>
  The loop reads what it means to read (\<open>intended_slots\<close>: word \<open>k\<close> from bytes
  \<open>[k * p, (k + 1) * p)\<close>) only when it cannot matter; for the scenario vtable the two
  differ.
\<close>

theorem symbol_slots_not_intended:
  "symbol_slots 8 (replicate 24 7) \<noteq> Inr (intended_slots 8 (replicate 24 7))"
  by (simp add: symbol_slots_def intended_slots_def py_range0_def py_slice_def upt_rec
       replicate_numeral)

text \<open>
  The code's word loop and the intended one agree for a pointer size of one byte or
  for data of at most one word.
\<close>

theorem symbol_slots_intended:
  assumes "0 < p" and "p = 1 \<or> length b \<le> p"
  shows "symbol_slots (int p) b = Inr (intended_slots p b)"
proof -
  have eqs: "k * p * p = k * p \<and> (k * p + 1) * p = (k + 1) * p"
    if "k < (length b + p - 1) div p" for k
  proof (cases "p = 1")
    case True
    then show ?thesis by simp
  next
    case False
    with assms have "length b + p - 1 < 2 * p" by simp
    then have "(length b + p - 1) div p < 2" by (simp add: div_less_iff_less_mult)
    then have "(length b + p - 1) div p \<le> 1" by simp
    with that have "k = 0" by simp
    then show ?thesis by simp
  qed
  have "map (\<lambda>k. SOffset (from_le (py_slice b (k * p * p) ((k * p + 1) * p))))
               [0..<(length b + p - 1) div p] =
             map (\<lambda>k. SOffset (from_le (py_slice b (k * p) ((k + 1) * p))))
               [0..<(length b + p - 1) div p]"
  proof (rule map_cong [OF refl])
    fix k
    assume "k \<in> set [0..<(length b + p - 1) div p]"
    then have "k < (length b + p - 1) div p" by simp
    from eqs [OF this] show "SOffset (from_le (py_slice b (k * p * p) ((k * p + 1) * p))) =
                             SOffset (from_le (py_slice b (k * p) ((k + 1) * p)))"
      by metis
  qed
  then show ?thesis using assms(1)
    by (simp only: symbol_slots_closed intended_slots_def)
qed

theorem symbol_slots_intended_witness:
  "symbol_slots (int 1) [1, 2] = Inr (intended_slots 1 [1, 2])"
  using symbol_slots_intended [of 1 "[1, 2]"] by simp

text \<open>
  C12. Laying the relocations over the words does not depend on their order, as long as
  no two different accepted relocations land in the same slot.
\<close>

theorem overlay_relocs_commute:
  assumes "0 < ptr_size" and "mset rs' = mset rs"
    and "\<forall>r1 \<in> set rs. \<forall>r2 \<in> set rs. reloc_applies types st fi r1 \<and> reloc_applies types st fi r2 \<and>
           slot_index ptr_size st r1 = slot_index ptr_size st r2 \<longrightarrow> r1 = r2"
  shows "overlay_relocs ptr_size types st fi rs' d = overlay_relocs ptr_size types st fi rs d"
proof -
  have set_eq: "set rs' = set rs" using assms(2) by (metis set_mset_mset)
  have "fold (overlay_step ptr_size types st fi) rs' = fold (overlay_step ptr_size types st fi) rs"
    by (rule fold_multiset_equiv)
       (use assms set_eq in \<open>auto intro: overlay_step_commute\<close>)
  then show ?thesis using assms(1) set_eq by (simp add: overlay_relocs_eq)
qed

theorem overlay_relocs_commute_witness:
  "overlay_relocs 8 [''R_X86_64_64''] 4096 4120 [vt_reloc, reloc.make 4096 1 ''R_X86_64_64'' (Some (''_ZTI1C'', 0))]
     [SOffset 0, SOffset 0, SOffset 0] =
   overlay_relocs 8 [''R_X86_64_64''] 4096 4120 [reloc.make 4096 1 ''R_X86_64_64'' (Some (''_ZTI1C'', 0)), vt_reloc]
     [SOffset 0, SOffset 0, SOffset 0]"
  by (rule overlay_relocs_commute) (auto simp: reloc.make_def reloc_applies_def)

text \<open>
  C13. For a class symbol whose bytes are exactly \<open>Size\<close> long and a positive pointer
  size, the loop body returns: no relocation inside the symbol trips the \<open>assert\<close>.
\<close>

theorem symbol_data_returns:
  assumes "0 < p" and "sym_demangled s = Some dn" and "0 \<le> sym_size s"
    and "length b = nat (sym_size s)"
  shows "\<exists>d. symbol_data (int p) reloc_types rels s b = Inr d"
proof (cases "starts_with ''typeinfo name'' dn")
  case True
  with assms(2) show ?thesis by (simp add: symbol_data_def)
next
  case False
  let ?d = "map (\<lambda>k. SOffset (from_le (py_slice b (k * p * p) ((k * p + 1) * p))))
                [0..<(length b + p - 1) div p]"
  have "int (length ?d) = (sym_size s + int p - 1) div int p"
    using assms(1,3,4) by (simp add: zdiv_int of_nat_diff)
  from overlay_relocs_no_assertion [OF assms(1,3) this]
  show ?thesis using assms(1,2) False by (simp add: symbol_data_def symbol_slots_closed)
qed

theorem symbol_data_returns_witness:
  "\<exists>d. symbol_data (int 8) [''R_X86_64_64''] [vt_reloc] vt_sym (replicate 24 7) = Inr d"
  using symbol_data_returns [of 8 vt_sym "''vtable for C''" "replicate 24 7"]
  by (simp add: symbol.make_def)

lemma relocated_syms_returns:
  assumes "0 < p"
    and "\<forall>(n, s) \<in> set xs. \<exists>b dn. map_of bites n = Some b \<and> sym_demangled s = Some dn \<and>
           0 \<le> sym_size s \<and> length b = nat (sym_size s)"
  shows "\<exists>ds. relocated_syms bites rels (int p) types xs = Inr ds \<and> map fst ds = map fst xs \<and>
           list_all2 (\<lambda>(n, s) (n', d). \<forall>dn. sym_demangled s = Some dn \<longrightarrow>
              length d = (if starts_with ''typeinfo name'' dn then nat (sym_size s)
                          else (nat (sym_size s) + p - 1) div p)) xs ds"
  using assms(2)
proof (induction xs)
  case Nil
  then show ?case by simp
next
  case (Cons x xs)
  obtain n s where x: "x = (n, s)" by fastforce
  with Cons.prems obtain b dn where b: "map_of bites n = Some b" and dn: "sym_demangled s = Some dn"
    and sz: "0 \<le> sym_size s" "length b = nat (sym_size s)" by auto
  obtain d where d: "symbol_data (int p) types rels s b = Inr d"
    using symbol_data_returns [OF assms(1) dn sz] by blast
  have len: "length d = (if starts_with ''typeinfo name'' dn then nat (sym_size s)
                          else (nat (sym_size s) + p - 1) div p)"
    using symbol_data_length [OF assms(1) dn d] sz by simp
  from Cons obtain ds where ds: "relocated_syms bites rels (int p) types xs = Inr ds"
    "map fst ds = map fst xs"
    "list_all2 (\<lambda>(n, s) (n', d). \<forall>dn. sym_demangled s = Some dn \<longrightarrow>
              length d = (if starts_with ''typeinfo name'' dn then nat (sym_size s)
                          else (nat (sym_size s) + p - 1) div p)) xs ds" by auto
  show ?case using x b d ds len dn by simp
qed

text \<open>
  C14. \<open>collect_relocated_data\<close> returns when every class symbol has its bytes, its
  demangled name and a size its bytes match: one slot list per class symbol, in name order,
  with \<open>Size\<close> byte slots for a \<open>typeinfo name\<close> and \<open>\<lceil>Size / ptr_size\<rceil>\<close> word slots
  otherwise.
\<close>

theorem collect_relocated_data_returns:
  assumes "0 < p"
    and "\<forall>(n, s) \<in> set syms. \<exists>b dn. map_of bites n = Some b \<and> sym_demangled s = Some dn \<and>
           0 \<le> sym_size s \<and> length b = nat (sym_size s)"
  shows "\<exists>ds. collect_relocated_data syms bites rels (int p) reloc_types = Inr ds \<and>
           map fst ds = map fst (sort_key fst syms) \<and>
           list_all2 (\<lambda>(n, s) (n', d). \<forall>dn. sym_demangled s = Some dn \<longrightarrow>
              length d = (if starts_with ''typeinfo name'' dn then nat (sym_size s)
                          else (nat (sym_size s) + p - 1) div p)) (sort_key fst syms) ds"
  using relocated_syms_returns [OF assms(1), of "sort_key fst syms"] assms(2)
  by (simp add: collect_relocated_data_def)

theorem collect_relocated_data_returns_witness:
  "\<exists>ds. collect_relocated_data [(''_ZTV1C'', vt_sym)] [(''_ZTV1C'', replicate 24 7)] [vt_reloc]
           (int 8) [''R_X86_64_64''] = Inr ds \<and>
         map fst ds = map fst (sort_key fst [(''_ZTV1C'', vt_sym)]) \<and>
         list_all2 (\<lambda>(n, s) (n', d). \<forall>dn. sym_demangled s = Some dn \<longrightarrow>
            length d = (if starts_with ''typeinfo name'' dn then nat (sym_size s)
                        else (nat (sym_size s) + 8 - 1) div 8)) (sort_key fst [(''_ZTV1C'', vt_sym)]) ds"
  using collect_relocated_data_returns [of 8 "[(''_ZTV1C'', vt_sym)]" "[(''_ZTV1C'', replicate 24 7)]"]
  by (simp add: symbol.make_def)

section \<open>Properties of the byte reader\<close>

lemma read_syms_Inr:
  "read_syms f secs xs = Inr d \<Longrightarrow>
     list_all2 (\<lambda>(n, s) (n', b). n' = n \<and> (\<exists>sec. filter (is_symbol_in_section s) secs = [sec] \<and>
                 read_at f (sec_off sec) (sym_size s) = Inr b)) xs d"
proof (induction xs arbitrary: d)
  case Nil
  then show ?case by simp
next
  case (Cons x xs)
  obtain n s where x: "x = (n, s)" by fastforce
  with Cons.prems show ?case
    by (auto split: list.splits sum.splits intro: Cons.IH)
qed

lemma read_unrelocated_data_lookup:
  assumes "read_unrelocated_data f syms secs = Inr d" and "distinct (map fst syms)"
    and "(n, s) \<in> set syms" and "(n, b) \<in> set d"
  shows "\<exists>sec. filter (is_symbol_in_section s) secs = [sec] \<and> read_at f (sec_off sec) (sym_size s) = Inr b"
proof -
  let ?xs = "sort_key (\<lambda>(n, s). sym_value s) syms"
  have "list_all2 (\<lambda>(n, s) (n', b). n' = n \<and> (\<exists>sec. filter (is_symbol_in_section s) secs = [sec] \<and>
                 read_at f (sec_off sec) (sym_size s) = Inr b)) ?xs d"
    using assms(1) by (simp add: read_unrelocated_data_def read_syms_Inr)
  moreover have "distinct (map fst ?xs)" using assms(2) by (simp add: distinct_map_fst_sort_key)
  moreover have "(n, s) \<in> set ?xs" using assms(3) by simp
  ultimately show ?thesis using assms(4) by (rule list_all2_lookup)
qed

lemma read_at_Inr:
  "read_at f off n = Inr b \<longleftrightarrow> 0 \<le> off \<and> -1 \<le> n \<and>
     b = (if n = -1 then drop (nat off) f else take (nat n) (drop (nat off) f))"
  by (auto simp: read_at_def Let_def)

lemma read_example:
  "read_unrelocated_data ro_file [(''A'', ro_sym ''A'' 4104), (''B'', ro_sym ''B'' 4096)] [ro_section] =
     Inr [(''B'', [8, 9, 10, 11, 12, 13, 14, 15]), (''A'', [8, 9, 10, 11, 12, 13, 14, 15])]"
  by (simp add: read_eval)

text \<open>
  C15. What the reader returns for a class symbol: the unique section that contains it has a
  non-negative file offset, and the bytes are \<open>Size\<close> bytes read from that section's
  file offset \<open>Off\<close>, not from \<open>Off + (Value - Address)\<close>.
\<close>

theorem read_unrelocated_data_bytes:
  assumes "read_unrelocated_data f syms secs = Inr d" and "distinct (map fst syms)"
    and "(n, s) \<in> set syms" and "(n, b) \<in> set d"
  shows "\<exists>sec \<in> set secs. filter (is_symbol_in_section s) secs = [sec] \<and> 0 \<le> sec_off sec \<and>
           b = (if sym_size s = -1 then drop (nat (sec_off sec)) f
                else take (nat (sym_size s)) (drop (nat (sec_off sec)) f))"
proof -
  obtain sec where sec: "filter (is_symbol_in_section s) secs = [sec]"
    and r: "read_at f (sec_off sec) (sym_size s) = Inr b"
    using read_unrelocated_data_lookup [OF assms] by blast
  have "sec \<in> set secs" using sec by (rule filter_singleton(1))
  with sec r show ?thesis by (auto simp: read_at_Inr)
qed

theorem read_unrelocated_data_bytes_witness:
  "\<exists>sec \<in> set [ro_section]. filter (is_symbol_in_section (ro_sym ''A'' 4104)) [ro_section] = [sec] \<and>
      0 \<le> sec_off sec \<and>
      ([8, 9, 10, 11, 12, 13, 14, 15] :: byte list) =
        (if sym_size (ro_sym ''A'' 4104) = -1 then drop (nat (sec_off sec)) ro_file
         else take (nat (sym_size (ro_sym ''A'' 4104))) (drop (nat (sec_off sec)) ro_file))"
  using read_unrelocated_data_bytes [OF read_example, of "''A''" "ro_sym ''A'' 4104"]
  by (simp add: read_eval)

text \<open>
  C16. Two class symbols of equal size in the same section get the same bytes, wherever
  they sit in the section: the reader seeks to the section's offset for each of them.
\<close>

theorem read_unrelocated_same_section:
  assumes "read_unrelocated_data f syms secs = Inr d" and "distinct (map fst syms)"
    and "(n1, s1) \<in> set syms" and "(n2, s2) \<in> set syms"
    and "(n1, b1) \<in> set d" and "(n2, b2) \<in> set d"
    and "sec \<in> set secs" and "is_symbol_in_section s1 sec" and "is_symbol_in_section s2 sec"
    and "sym_size s1 = sym_size s2"
  shows "b1 = b2"
proof -
  have one: "filter (is_symbol_in_section s) secs = [sec']
             \<Longrightarrow> is_symbol_in_section s sec \<Longrightarrow> sec' = sec" for s sec'
    using assms(7) by (metis filter_singleton(3))
  obtain sec1 where "filter (is_symbol_in_section s1) secs = [sec1]"
    and r1: "read_at f (sec_off sec1) (sym_size s1) = Inr b1"
    using read_unrelocated_data_lookup [OF assms(1,2,3,5)] by blast
  with one assms(8) have "sec1 = sec" by blast
  obtain sec2 where "filter (is_symbol_in_section s2) secs = [sec2]"
    and r2: "read_at f (sec_off sec2) (sym_size s2) = Inr b2"
    using read_unrelocated_data_lookup [OF assms(1,2,4,6)] by blast
  with one assms(9) have "sec2 = sec" by blast
  show ?thesis using r1 r2 \<open>sec1 = sec\<close> \<open>sec2 = sec\<close> assms(10) by simp
qed

theorem read_unrelocated_same_section_witness:
  "([8, 9, 10, 11, 12, 13, 14, 15] :: byte list) = [8, 9, 10, 11, 12, 13, 14, 15]"
  using read_unrelocated_same_section [OF read_example, of "''A''" "ro_sym ''A'' 4104" "''B''" "ro_sym ''B'' 4096"
                                     "[8, 9, 10, 11, 12, 13, 14, 15]" "[8, 9, 10, 11, 12, 13, 14, 15]" ro_section]
  by (simp add: read_eval)

text \<open>
  C17. When the file holds every section it lists, the bytes read for a symbol of
  non-negative size are exactly \<open>Size\<close> long.
\<close>

theorem read_unrelocated_data_length:
  assumes "read_unrelocated_data f syms secs = Inr d" and "distinct (map fst syms)"
    and "(n, s) \<in> set syms" and "(n, b) \<in> set d" and "0 \<le> sym_size s"
    and "\<forall>sec \<in> set secs. sec_off sec + sec_size sec \<le> int (length f)"
  shows "length b = nat (sym_size s)"
proof -
  obtain sec where sec: "sec \<in> set secs" "filter (is_symbol_in_section s) secs = [sec]"
    and off: "0 \<le> sec_off sec"
    and b: "b = (if sym_size s = -1 then drop (nat (sec_off sec)) f
                else take (nat (sym_size s)) (drop (nat (sec_off sec)) f))"
    using read_unrelocated_data_bytes [OF assms(1-4)] by blast
  have "is_symbol_in_section s sec" using sec(2) by (rule filter_singleton(2))
  then have "sym_size s \<le> sec_size sec" by (auto simp: is_symbol_in_section_def Let_def)
  with assms(6) sec(1) have "sec_off sec + sym_size s \<le> int (length f)" by fastforce
  with off assms(5) have "nat (sec_off sec) + nat (sym_size s) \<le> length f" by arith
  with b assms(5) show ?thesis by simp
qed

theorem read_unrelocated_data_length_witness:
  "length ([8, 9, 10, 11, 12, 13, 14, 15] :: byte list) = nat (sym_size (ro_sym ''A'' 4104))"
  using read_unrelocated_data_length [OF read_example, of "''A''" "ro_sym ''A'' 4104"]
  by (simp add: read_eval)

lemma read_syms_fails:
  assumes "\<forall>sec \<in> set secs. 0 \<le> sec_off sec" and "\<forall>(n, s) \<in> set xs. -1 \<le> sym_size s"
    and "\<exists>(n, s) \<in> set xs. length (filter (is_symbol_in_section s) secs) \<noteq> 1"
  shows "\<exists>(n, s) \<in> set xs. length (filter (is_symbol_in_section s) secs) \<noteq> 1 \<and>
           read_syms f secs xs = Inl (Fatal (interval_msg s))"
  using assms(2,3)
proof (induction xs)
  case Nil
  then show ?case by simp
next
  case (Cons x xs)
  obtain n s where x: "x = (n, s)" by fastforce
  show ?case
  proof (cases "length (filter (is_symbol_in_section s) secs) = 1")
    case True
    then obtain sec where sec: "filter (is_symbol_in_section s) secs = [sec]"
      by (cases "filter (is_symbol_in_section s) secs" rule: remdups_adj.cases) auto
    then have "sec \<in> set secs" by (rule filter_singleton(1))
    then have rd: "read_at f (sec_off sec) (sym_size s) =
                     Inr (if sym_size s = -1 then drop (nat (sec_off sec)) f
                          else take (nat (sym_size s)) (drop (nat (sec_off sec)) f))"
      using assms(1) Cons.prems(1) x by (auto simp: read_at_Inr)
    from Cons.prems True x obtain n' s' where bad: "(n', s') \<in> set xs"
      "length (filter (is_symbol_in_section s') secs) \<noteq> 1" by auto
    from Cons.IH Cons.prems(1) bad obtain n'' s'' where
      "(n'', s'') \<in> set xs" "length (filter (is_symbol_in_section s'') secs) \<noteq> 1"
      "read_syms f secs xs = Inl (Fatal (interval_msg s''))" by fastforce
    then show ?thesis using x sec rd by fastforce
  next
    case False
    then have "read_syms f secs (x # xs) = Inl (Fatal (interval_msg s))"
      using x by (simp add: case_singleton_eq)
    then show ?thesis using x False by auto
  qed
qed

text \<open>
  C18. If some class symbol lies in no section or in several, the reader stops with the
  fatal error naming the address interval of such a symbol (the first in address order).
\<close>

theorem read_unrelocated_data_fails:
  assumes "\<forall>sec \<in> set secs. 0 \<le> sec_off sec" and "\<forall>(n, s) \<in> set syms. -1 \<le> sym_size s"
    and "\<exists>(n, s) \<in> set syms. length (filter (is_symbol_in_section s) secs) \<noteq> 1"
  shows "\<exists>(n, s) \<in> set syms. length (filter (is_symbol_in_section s) secs) \<noteq> 1 \<and>
           read_unrelocated_data f syms secs = Inl (Fatal (interval_msg s))"
  using read_syms_fails [of secs "sort_key (\<lambda>(n, s). sym_value s) syms" f] assms
  by (simp add: read_unrelocated_data_def)

theorem read_unrelocated_data_fails_witness:
  "\<exists>(n, s) \<in> set [(''A'', ro_sym ''A'' 4200)].
     length (filter (is_symbol_in_section s) [ro_section]) \<noteq> 1 \<and>
     read_unrelocated_data ro_file [(''A'', ro_sym ''A'' 4200)] [ro_section] = Inl (Fatal (interval_msg s))"
  using read_unrelocated_data_fails [of "[ro_section]" "[(''A'', ro_sym ''A'' 4200)]" ro_file]
  by (simp add: read_eval)

lemma read_syms_returns:
  assumes "\<forall>sec \<in> set secs. 0 \<le> sec_off sec"
    and "\<forall>(n, s) \<in> set xs. -1 \<le> sym_size s \<and> length (filter (is_symbol_in_section s) secs) = 1"
  shows "\<exists>d. read_syms f secs xs = Inr d \<and> map fst d = map fst xs"
  using assms(2)
proof (induction xs)
  case Nil
  then show ?case by simp
next
  case (Cons x xs)
  obtain n s where x: "x = (n, s)" by fastforce
  with Cons.prems obtain sec where sec: "filter (is_symbol_in_section s) secs = [sec]"
    by (cases "filter (is_symbol_in_section s) secs" rule: remdups_adj.cases) auto
  then have "sec \<in> set secs" by (rule filter_singleton(1))
  then obtain b where rd: "read_at f (sec_off sec) (sym_size s) = Inr b"
    using assms(1) Cons.prems x by (auto simp: read_at_Inr)
  from Cons obtain d where "read_syms f secs xs = Inr d" "map fst d = map fst xs" by auto
  then show ?case using x sec rd by simp
qed

text \<open>
  If every class symbol lies in exactly one section, the sections have non-negative
  file offsets and the sizes are at least \<open>-1\<close>, the reader returns one byte string per
  symbol, in address order.
\<close>

theorem read_unrelocated_data_returns:
  assumes "\<forall>sec \<in> set secs. 0 \<le> sec_off sec"
    and "\<forall>(n, s) \<in> set syms. -1 \<le> sym_size s \<and> length (filter (is_symbol_in_section s) secs) = 1"
  shows "\<exists>d. read_unrelocated_data f syms secs = Inr d \<and>
           map fst d = map fst (sort_key (\<lambda>(n, s). sym_value s) syms)"
  using read_syms_returns [of secs "sort_key (\<lambda>(n, s). sym_value s) syms" f] assms
  by (simp add: read_unrelocated_data_def)

theorem read_unrelocated_data_returns_witness:
  "\<exists>d. read_unrelocated_data ro_file [(''A'', ro_sym ''A'' 4104), (''B'', ro_sym ''B'' 4096)] [ro_section] = Inr d \<and>
     map fst d = map fst (sort_key (\<lambda>(n, s). sym_value s) [(''A'', ro_sym ''A'' 4104), (''B'', ro_sym ''B'' 4096)])"
  using read_unrelocated_data_returns [of "[ro_section]" "[(''A'', ro_sym ''A'' 4104), (''B'', ro_sym ''B'' 4096)]" ro_file]
  by (simp add: read_eval)

end
