(* ===== verification/VtableEmit.thy ===== *)
theory VtableEmit
  imports Vtables
begin

text \<open>
  \<open>generate_vtables\<close> of \<open>implib-gen.py\<close>: the C translation unit appended to the
  \<open>.init.c\<close> file in vtable mode. It prints an \<open>extern\<close> for every relocation target
  that is not itself a class symbol, then a \<open>typedef\<close> and a weak declaration per class
  symbol, then one definition per class symbol whose initialisers are the slots. The
  intermediate \<open>code_info\<close> dict (name \<open>\<mapsto>\<close> declarator and initialiser) is a list of
  triples in name order; a declarator \<open>decl % type_name\<close> is kept as the text before and
  after its \<open>%s\<close>.
\<close>

section \<open>Pieces of the output\<close>

definition c_type :: "slot \<Rightarrow> string" where
  "c_type sl =
     (case sl of SReloc _ \<Rightarrow> ''const void *'' | SByte _ \<Rightarrow> ''unsigned char'' | SOffset _ \<Rightarrow> ''size_t'')"

text \<open>\<open>re.sub(r"@.*", "", name)\<close>: each \<open>@\<close> and the rest of its line are removed.\<close>

function strip_version :: "string \<Rightarrow> string" where
  "strip_version [] = []"
| "strip_version (c # cs) =
     (if c = CHR ''@'' then strip_version (dropWhile (\<lambda>x. x \<noteq> nl) cs) else c # strip_version cs)"
  by pat_completeness auto
termination
  by (relation "measure length") (auto simp: le_imp_less_Suc length_dropWhile_le)

text \<open>
  \<open>sym_name, addend = val["Symbol's Name + Addend"]\<close>: unpacking the empty string that the
  relocation parser leaves for a relocation without symbol raises \<open>ValueError\<close>.
\<close>

definition reloc_target :: "reloc \<Rightarrow> (string \<times> int) result" where
  "reloc_target r = (case rel_target r of Some (n, a) \<Rightarrow> Inr (n, a) | None \<Rightarrow> Inl ValueError)"

definition extern_decl :: "string \<Rightarrow> string" where
  "extern_decl n = ''extern const char '' @ n @ ''[];'' @ [nl, nl]"

text \<open>
  The extern loop over the slots of one symbol. \<open>printed\<close> is the set the code tests
  against; the code never adds to it.
\<close>

fun slot_externs :: "(string \<times> symbol) list \<Rightarrow> string list \<Rightarrow> slot list \<Rightarrow> string list result" where
  "slot_externs cls_syms printed [] = Inr []"
| "slot_externs cls_syms printed (SReloc r # ds) =
     (case reloc_target r of
        Inl e \<Rightarrow> Inl e
      | Inr (n, a) \<Rightarrow>
          (let sym_name = strip_version n in
           case slot_externs cls_syms printed ds of
             Inl e \<Rightarrow> Inl e
           | Inr es \<Rightarrow>
               Inr (if sym_name \<notin> set (map fst cls_syms) \<and> sym_name \<notin> set printed
                    then sym_name # es else es)))"
| "slot_externs cls_syms printed (SByte b # ds) = slot_externs cls_syms printed ds"
| "slot_externs cls_syms printed (SOffset v # ds) = slot_externs cls_syms printed ds"

fun data_externs ::
  "(string \<times> symbol) list \<Rightarrow> string list \<Rightarrow> (string \<times> slot list) list \<Rightarrow> string list result" where
  "data_externs cls_syms printed [] = Inr []"
| "data_externs cls_syms printed ((name, d) # rest) =
     (case slot_externs cls_syms printed d of
        Inl e \<Rightarrow> Inl e
      | Inr es \<Rightarrow> (case data_externs cls_syms printed rest of
                    Inl e \<Rightarrow> Inl e
                  | Inr es' \<Rightarrow> Inr (es @ es')))"

definition vtable_externs ::
  "(string \<times> symbol) list \<Rightarrow> (string \<times> slot list) list \<Rightarrow> string list result" where
  "vtable_externs cls_syms cls_data =
     (let printed = [] in data_externs cls_syms printed (sort_key fst cls_data))"

text \<open>An initialiser: \<open>str(val) + "UL"\<close> for a number, the address expression for a relocation.\<close>

definition slot_value :: "slot \<Rightarrow> string result" where
  "slot_value sl =
     (case sl of
        SByte b \<Rightarrow> Inr (py_str_int (uint b) @ ''UL'')
      | SOffset v \<Rightarrow> Inr (py_str_int (int v) @ ''UL'')
      | SReloc r \<Rightarrow>
          (case reloc_target r of
             Inl e \<Rightarrow> Inl e
           | Inr (n, a) \<Rightarrow> Inr (''(const char *)&'' @ strip_version n @ '' + '' @ py_str_int a)))"

fun slot_values :: "slot list \<Rightarrow> string list result" where
  "slot_values [] = Inr []"
| "slot_values (sl # sls) =
     (case slot_value sl of
        Inl e \<Rightarrow> Inl e
      | Inr v \<Rightarrow> (case slot_values sls of Inl e \<Rightarrow> Inl e | Inr vs \<Rightarrow> Inr (v # vs)))"

definition field_decl :: "nat \<times> slot \<Rightarrow> string" where
  "field_decl p = (case p of (i, sl) \<Rightarrow> c_type sl @ '' field_'' @ py_str_int (int i) @ '';'')"

text \<open>The declarator, as the text before and after its \<open>%s\<close>.\<close>

definition declarator :: "string \<Rightarrow> slot list \<Rightarrow> string \<times> string" where
  "declarator dn d =
     (if starts_with ''typeinfo name'' dn then (''const unsigned char '', ''[]'')
      else (''const struct { '' @ py_join '' '' (map field_decl (zip [0..<length d] d)) @ '' } '', []))"

type_synonym code_info = "(string \<times> (string \<times> string) \<times> string) list"

fun collect_code_info ::
  "(string \<times> slot list) list \<Rightarrow> (string \<times> symbol) list \<Rightarrow> code_info result" where
  "collect_code_info cls_data [] = Inr []"
| "collect_code_info cls_data ((name, s) # rest) =
     (case map_of cls_data name of
        None \<Rightarrow> Inl KeyError
      | Some d \<Rightarrow>
          (case sym_demangled s of
             None \<Rightarrow> Inl KeyError
           | Some dn \<Rightarrow>
               (case slot_values d of
                  Inl e \<Rightarrow> Inl e
                | Inr vals \<Rightarrow>
                    (case collect_code_info cls_data rest of
                       Inl e \<Rightarrow> Inl e
                     | Inr ci \<Rightarrow>
                         Inr ((name, declarator dn d, ''{ '' @ py_join '', '' vals @ '' }'') # ci)))))"

definition type_decl :: "string \<times> (string \<times> string) \<times> string \<Rightarrow> string" where
  "type_decl e =
     (case e of (name, (before, after), _) \<Rightarrow>
        ''typedef '' @ before @ name @ ''_type'' @ after @ '';'' @ [nl] @
        ''extern __attribute__((weak)) '' @ name @ ''_type '' @ name @ '';'' @ [nl])"

definition type_def :: "string \<times> (string \<times> string) \<times> string \<Rightarrow> string" where
  "type_def e =
     (case e of (name, _, init) \<Rightarrow>
        ''const '' @ name @ ''_type '' @ name @ '' = '' @ init @ '';'' @ [nl])"

definition vt_prologue :: string where
  "vt_prologue = ''#ifdef __cplusplus'' @ [nl] @ ''extern '' @ [dq] @ ''C'' @ [dq] @ '' {'' @ [nl] @
                 ''#endif'' @ [nl, nl]"

definition vt_epilogue :: string where
  "vt_epilogue = ''#ifdef __cplusplus'' @ [nl] @ ''}  // extern '' @ [dq] @ ''C'' @ [dq] @ [nl] @
                 ''#endif'' @ [nl]"

text \<open>The relocation targets of a slot list, without version suffix.\<close>

fun slot_reloc_names :: "slot list \<Rightarrow> string list" where
  "slot_reloc_names [] = []"
| "slot_reloc_names (SReloc r # ds) =
     (case rel_target r of Some (n, a) \<Rightarrow> strip_version n # slot_reloc_names ds
      | None \<Rightarrow> slot_reloc_names ds)"
| "slot_reloc_names (SByte b # ds) = slot_reloc_names ds"
| "slot_reloc_names (SOffset v # ds) = slot_reloc_names ds"

section \<open>The generator\<close>

definition generate_vtables ::
  "(string \<times> (string \<times> string) list) list \<Rightarrow> (string \<times> symbol) list \<Rightarrow>
   (string \<times> slot list) list \<Rightarrow> string result" where
  "generate_vtables cls_tables cls_syms cls_data =
     (case vtable_externs cls_syms cls_data of
        Inl e \<Rightarrow> Inl e
      | Inr externs \<Rightarrow>
          (case collect_code_info cls_data (sort_key fst cls_syms) of
             Inl e \<Rightarrow> Inl e
           | Inr code_info \<Rightarrow>
               Inr (vt_prologue @ concat (map extern_decl externs) @
                    concat (map type_decl (sort_key fst code_info)) @
                    concat (map type_def (sort_key fst code_info)) @ vt_epilogue)))"

section \<open>A worked example\<close>

text \<open>
  The vtable of a class \<open>C\<close> with one virtual method \<open>C::foo\<close>: two offsets and the
  relocated method pointer (the slots computed in \<open>Vtables\<close>, with offset 5), and a second
  table whose two slots both point to \<open>foo\<close>, once under a version suffix.
\<close>

abbreviation vt_cls_data :: "(string \<times> slot list) list" where
  "vt_cls_data \<equiv> [(''_ZTV1C'', [SOffset 5, SOffset 0, SReloc vt_reloc])]"

abbreviation dup_cls_data :: "(string \<times> slot list) list" where
  "dup_cls_data \<equiv>
     [(''_ZTV1C'', [SReloc (reloc.make 4096 1 ''R_X86_64_64'' (Some (''foo'', 0))),
                    SReloc (reloc.make 4104 1 ''R_X86_64_64'' (Some (''foo@@V1'', 0)))])]"

abbreviation vt_out :: string where
  "vt_out \<equiv>
     ''#ifdef __cplusplus'' @ [nl] @ ''extern '' @ [dq] @ ''C'' @ [dq] @ '' {'' @ [nl] @ ''#endif'' @ [nl, nl] @
     ''extern const char _ZN1C3fooEv[];'' @ [nl, nl] @
     ''typedef const struct { size_t field_0; size_t field_1; const void * field_2; } _ZTV1C_type;'' @ [nl] @
     ''extern __attribute__((weak)) _ZTV1C_type _ZTV1C;'' @ [nl] @
     ''const _ZTV1C_type _ZTV1C = { 5UL, 0UL, (const char *)&_ZN1C3fooEv + 0 };'' @ [nl] @
     ''#ifdef __cplusplus'' @ [nl] @ ''}  // extern '' @ [dq] @ ''C'' @ [dq] @ [nl] @ ''#endif'' @ [nl]"

lemmas emit_eval = generate_vtables_def vtable_externs_def slot_value_def reloc_target_def
  declarator_def field_decl_def c_type_def type_decl_def type_def_def vt_prologue_def vt_epilogue_def
  extern_decl_def Let_def char_of_def bit_iff_odd

section \<open>Properties\<close>

lemma strip_version_no_at: "CHR ''@'' \<notin> set (strip_version s)"
  by (induction s rule: strip_version.induct) auto

lemma strip_version_id: "CHR ''@'' \<notin> set s \<Longrightarrow> strip_version s = s"
  by (induction s rule: strip_version.induct) auto

lemma slot_externs_eq:
  assumes "\<forall>r. SReloc r \<in> set d \<longrightarrow> rel_target r \<noteq> None"
  shows "slot_externs cs printed d =
           Inr (filter (\<lambda>n. n \<notin> set (map fst cs) \<and> n \<notin> set printed) (slot_reloc_names d))"
  using assms
  by (induction cs printed d rule: slot_externs.induct)
     (auto simp: reloc_target_def Let_def split: option.splits)

lemma slot_externs_ValueError:
  assumes "SReloc r0 \<in> set d" and "rel_target r0 = None"
  shows "slot_externs cs printed d = Inl ValueError"
  using assms(1)
proof (induction d)
  case Nil
  then show ?case by simp
next
  case (Cons sl ds)
  show ?case
  proof (cases "sl = SReloc r0")
    case True
    with assms(2) show ?thesis by (simp add: reloc_target_def)
  next
    case False
    with Cons.prems have "SReloc r0 \<in> set ds" by auto
    then have IH: "slot_externs cs printed ds = Inl ValueError" by (rule Cons.IH)
    show ?thesis using IH by (cases sl) (auto simp: reloc_target_def Let_def split: option.splits)
  qed
qed

lemma data_externs_eq:
  assumes "\<forall>(n, d) \<in> set xs. \<forall>r. SReloc r \<in> set d \<longrightarrow> rel_target r \<noteq> None"
  shows "data_externs cs printed xs =
           Inr (filter (\<lambda>n. n \<notin> set (map fst cs) \<and> n \<notin> set printed)
                  (concat (map (slot_reloc_names \<circ> snd) xs)))"
  using assms by (induction xs) (auto simp: slot_externs_eq)

lemma set_slot_reloc_names: "n \<in> set (slot_reloc_names d) \<Longrightarrow> CHR ''@'' \<notin> set n"
  by (induction d rule: slot_reloc_names.induct) (auto simp: strip_version_no_at split: option.splits)

lemma data_externs_Inr:
  "data_externs cs printed xs = Inr es \<Longrightarrow>
     es = filter (\<lambda>n. n \<notin> set (map fst cs) \<and> n \<notin> set printed) (concat (map (slot_reloc_names \<circ> snd) xs))"
proof (induction xs arbitrary: es)
  case Nil
  then show ?case by simp
next
  case (Cons x xs)
  obtain n d where x: "x = (n, d)" by fastforce
  show ?case
  proof (cases "\<forall>r. SReloc r \<in> set d \<longrightarrow> rel_target r \<noteq> None")
    case True
    with Cons x show ?thesis by (auto simp: slot_externs_eq split: sum.splits)
  next
    case False
    then obtain r where "SReloc r \<in> set d" "rel_target r = None" by blast
    then have "slot_externs cs printed d = Inl ValueError" by (rule slot_externs_ValueError)
    with Cons.prems x show ?thesis by simp
  qed
qed

lemma vtable_externs_dup_example:
  "vtable_externs [(''_ZTV1C'', vt_sym)] dup_cls_data = Inr [''foo'', ''foo'']"
  by (simp add: emit_eval py_simps symbol.make_def reloc.make_def)

lemma generate_vtables_example:
  "generate_vtables [] [(''_ZTV1C'', vt_sym)] vt_cls_data = Inr vt_out"
  by (simp add: emit_eval py_simps symbol.make_def reloc.make_def upt_rec)

lemma slot_values_length: "slot_values d = Inr vs \<Longrightarrow> length vs = length d"
  by (induction d arbitrary: vs) (auto split: sum.splits)

lemma slot_values_returns:
  "\<forall>r. SReloc r \<in> set d \<longrightarrow> rel_target r \<noteq> None \<Longrightarrow> \<exists>vs. slot_values d = Inr vs"
proof (induction d)
  case Nil
  then show ?case by simp
next
  case (Cons sl d)
  then obtain vs where vs: "slot_values d = Inr vs" by auto
  obtain v where "slot_value sl = Inr v"
    using Cons.prems by (cases sl) (auto simp: slot_value_def reloc_target_def split: option.splits)
  with vs show ?case by simp
qed

lemma collect_code_info_Inr:
  "collect_code_info cd xs = Inr ci \<Longrightarrow>
     list_all2 (\<lambda>(n, s) (n', decl, init). n' = n \<and> (\<exists>d dn vals. map_of cd n = Some d \<and>
                  sym_demangled s = Some dn \<and> slot_values d = Inr vals \<and> length vals = length d \<and>
                  decl = declarator dn d \<and> init = ''{ '' @ py_join '', '' vals @ '' }'')) xs ci"
proof (induction xs arbitrary: ci)
  case Nil
  then show ?case by simp
next
  case (Cons x xs)
  obtain n s where x: "x = (n, s)" by fastforce
  with Cons show ?case
    by (auto split: option.splits sum.splits dest: slot_values_length)
qed

lemma collect_code_info_returns:
  assumes "\<forall>(n, s) \<in> set xs. \<exists>d dn. map_of cd n = Some d \<and> sym_demangled s = Some dn"
    and "\<forall>(n, d) \<in> set cd. \<forall>r. SReloc r \<in> set d \<longrightarrow> rel_target r \<noteq> None"
  shows "\<exists>ci. collect_code_info cd xs = Inr ci"
  using assms(1)
proof (induction xs)
  case Nil
  then show ?case by simp
next
  case (Cons x xs)
  obtain n s where x: "x = (n, s)" by fastforce
  with Cons.prems obtain d dn where d: "map_of cd n = Some d" and dn: "sym_demangled s = Some dn"
    by auto
  from d have "(n, d) \<in> set cd" by (rule map_of_SomeD)
  with assms(2) obtain vs where "slot_values d = Inr vs" using slot_values_returns by blast
  moreover from Cons obtain ci where "collect_code_info cd xs = Inr ci" by auto
  ultimately show ?case using x d dn by simp
qed

text \<open>
  C20. The externs printed for the vtables are the version-stripped targets of all
  relocated slots, table by table in name order, minus the class symbols themselves, and
  nothing more: in particular a target that two slots name is printed twice, because the
  \<open>printed\<close> set of the code is never filled.
\<close>

theorem vtable_externs_eq:
  assumes "\<forall>(n, d) \<in> set cls_data. \<forall>r. SReloc r \<in> set d \<longrightarrow> rel_target r \<noteq> None"
  shows "vtable_externs cls_syms cls_data =
           Inr (filter (\<lambda>n. n \<notin> set (map fst cls_syms))
                  (concat (map (slot_reloc_names \<circ> snd) (sort_key fst cls_data))))"
  using assms by (simp add: vtable_externs_def data_externs_eq)

theorem vtable_externs_eq_witness:
  "vtable_externs [(''_ZTV1C'', vt_sym)] dup_cls_data = Inr [''foo'', ''foo'']"
  using vtable_externs_eq [of dup_cls_data "[(''_ZTV1C'', vt_sym)]"]
  by (simp add: reloc.make_def symbol.make_def)

text \<open>
  Every printed extern is a legal C identifier as far as versions go: it carries no
  \<open>@\<close>, and it is never one of the class symbols that the unit itself defines.
\<close>

theorem vtable_externs_safe:
  assumes "vtable_externs cls_syms cls_data = Inr es" and "n \<in> set es"
  shows "n \<notin> set (map fst cls_syms) \<and> CHR ''@'' \<notin> set n"
  using data_externs_Inr [of cls_syms "[]" "sort_key fst cls_data" es] assms
  by (auto simp: vtable_externs_def dest: set_slot_reloc_names)

theorem vtable_externs_safe_witness:
  "''foo'' \<notin> set (map fst [(''_ZTV1C'', vt_sym)]) \<and> CHR ''@'' \<notin> set ''foo''"
  using vtable_externs_safe [OF vtable_externs_dup_example, of "''foo''"] by simp

text \<open>
  Removing the version suffix (\<open>re.sub(r"@.*", "", name)\<close>) is idempotent: a
  stripped name has no \<open>@\<close> left.
\<close>

theorem strip_version_idem: "strip_version (strip_version s) = strip_version s"
  by (rule strip_version_id [OF strip_version_no_at])

text \<open>
  C23. The generated unit is the prologue, the externs, one \<open>typedef\<close> and weak
  declaration per class symbol, one definition per class symbol, and the epilogue; the
  class symbols appear in name order, each with the declarator of its demangled name and an
  initialiser holding exactly one value per slot of its data.
\<close>

theorem generate_vtables_shape:
  assumes "generate_vtables cls_tables cls_syms cls_data = Inr out"
  shows "\<exists>externs ci. out = vt_prologue @ concat (map extern_decl externs) @
                            concat (map type_decl ci) @ concat (map type_def ci) @ vt_epilogue \<and>
           list_all2 (\<lambda>(n, s) (n', decl, init). n' = n \<and> (\<exists>d dn vals. map_of cls_data n = Some d \<and>
                  sym_demangled s = Some dn \<and> slot_values d = Inr vals \<and> length vals = length d \<and>
                  decl = declarator dn d \<and> init = ''{ '' @ py_join '', '' vals @ '' }''))
             (sort_key fst cls_syms) ci"
proof -
  from assms obtain externs ci where
    ci: "collect_code_info cls_data (sort_key fst cls_syms) = Inr ci" and
    out: "out = vt_prologue @ concat (map extern_decl externs) @
                concat (map type_decl (sort_key fst ci)) @ concat (map type_def (sort_key fst ci)) @
                vt_epilogue"
    by (auto simp: generate_vtables_def split: sum.splits)
  have rel: "list_all2 (\<lambda>(n, s) (n', decl, init). n' = n \<and> (\<exists>d dn vals. map_of cls_data n = Some d \<and>
                  sym_demangled s = Some dn \<and> slot_values d = Inr vals \<and> length vals = length d \<and>
                  decl = declarator dn d \<and> init = ''{ '' @ py_join '', '' vals @ '' }''))
             (sort_key fst cls_syms) ci"
    using ci by (rule collect_code_info_Inr)
  then have "map fst ci = map fst (sort_key fst cls_syms)"
    by (induction rule: list_all2_induct) auto
  then have "sort_key fst ci = ci" by (simp add: sort_key_id_if_sorted)
  with out rel show ?thesis by auto
qed

theorem generate_vtables_shape_witness:
  "\<exists>externs ci. vt_out = vt_prologue @ concat (map extern_decl externs) @
                            concat (map type_decl ci) @ concat (map type_def ci) @ vt_epilogue \<and>
     list_all2 (\<lambda>(n, s) (n', decl, init). n' = n \<and> (\<exists>d dn vals. map_of vt_cls_data n = Some d \<and>
                  sym_demangled s = Some dn \<and> slot_values d = Inr vals \<and> length vals = length d \<and>
                  decl = declarator dn d \<and> init = ''{ '' @ py_join '', '' vals @ '' }''))
       (sort_key fst [(''_ZTV1C'', vt_sym)]) ci"
  by (rule generate_vtables_shape [OF generate_vtables_example])

text \<open>
  The generator returns when every class symbol has data and a demangled name and
  every relocated slot has a target symbol; its only failures are the \<open>KeyError\<close> of a
  missing entry and the \<open>ValueError\<close> of a relocation without symbol.
\<close>

theorem generate_vtables_returns:
  assumes "\<forall>(n, s) \<in> set cls_syms. \<exists>d dn. map_of cls_data n = Some d \<and> sym_demangled s = Some dn"
    and "\<forall>(n, d) \<in> set cls_data. \<forall>r. SReloc r \<in> set d \<longrightarrow> rel_target r \<noteq> None"
  shows "\<exists>out. generate_vtables cls_tables cls_syms cls_data = Inr out"
proof -
  have "vtable_externs cls_syms cls_data =
          Inr (filter (\<lambda>n. n \<notin> set (map fst cls_syms))
                 (concat (map (slot_reloc_names \<circ> snd) (sort_key fst cls_data))))"
    using assms(2) by (simp add: vtable_externs_def data_externs_eq)
  moreover obtain ci where "collect_code_info cls_data (sort_key fst cls_syms) = Inr ci"
    using collect_code_info_returns [of "sort_key fst cls_syms" cls_data] assms by auto
  ultimately show ?thesis by (simp add: generate_vtables_def)
qed

theorem generate_vtables_returns_witness:
  "\<exists>out. generate_vtables [] [(''_ZTV1C'', vt_sym)] vt_cls_data = Inr out"
  using generate_vtables_returns [of "[(''_ZTV1C'', vt_sym)]" vt_cls_data "[]"]
  by (simp add: symbol.make_def reloc.make_def)

end
