(* ===== verification/Emitter.thy ===== *)
theory Emitter
  imports Exports VtableEmit
begin

text \<open>
  The code emitter at the end of \<open>main()\<close> in \<open>implib-gen.py\<close>: the output stem and
  \<open>lib_suffix\<close>, the load name, and the two generated files, \<open><suffix>.tramp.S\<close> (the
  table template once, then the trampoline template once per function) and
  \<open><suffix>.init.c\<close> (the init template, followed by the vtable unit in vtable mode).
  The templates live outside \<open>src/\<close> and are parameters here; what is modelled is the
  text the script computes and the environments it substitutes into them, with
  \<open>string.Template.substitute\<close> of the Python library modelled as \<open>tpl_substitute\<close>.
\<close>

section \<open>Python's \<open>string.Template.substitute\<close>\<close>

text \<open>
  A placeholder is \<open>$$\<close> (a dollar), \<open>$id\<close> or \<open>${id}\<close>, with \<open>id\<close> matching
  \<open>[_a-z][_a-z0-9]*\<close> case-insensitively; an unknown \<open>id\<close> raises \<open>KeyError\<close> and any
  other \<open>$\<close> raises \<open>ValueError\<close> (the \<open>invalid\<close> group of the pattern). The template is
  scanned from the left, so the first bad placeholder decides the error.
\<close>

definition is_id_start :: "char \<Rightarrow> bool" where
  "is_id_start c \<longleftrightarrow> is_ascii_upper c \<or> is_ascii_lower c \<or> c = CHR ''_''"

definition braced_id :: "string \<Rightarrow> (string \<times> string) option" where
  "braced_id s =
     (case s of
        c # cs \<Rightarrow>
          (if is_id_start c \<and> dropWhile is_word_char cs \<noteq> [] \<and> hd (dropWhile is_word_char cs) = CHR ''}''
           then Some (c # takeWhile is_word_char cs, tl (dropWhile is_word_char cs)) else None)
      | [] \<Rightarrow> None)"

function tpl_substitute :: "(string \<times> string) list \<Rightarrow> string \<Rightarrow> string result" where
  "tpl_substitute env [] = Inr []"
| "tpl_substitute env (c # cs) =
     (if c \<noteq> CHR ''$'' then
        (case tpl_substitute env cs of Inl e \<Rightarrow> Inl e | Inr r \<Rightarrow> Inr (c # r))
      else
        (case cs of
           [] \<Rightarrow> Inl ValueError
         | d # ds \<Rightarrow>
             (if d = CHR ''$'' then
                (case tpl_substitute env ds of Inl e \<Rightarrow> Inl e | Inr r \<Rightarrow> Inr (d # r))
              else if is_id_start d then
                (case map_of env (takeWhile is_word_char cs) of
                   None \<Rightarrow> Inl KeyError
                 | Some v \<Rightarrow>
                     (case tpl_substitute env (dropWhile is_word_char cs) of
                        Inl e \<Rightarrow> Inl e | Inr r \<Rightarrow> Inr (v @ r)))
              else if d = CHR ''{'' then
                (case braced_id ds of
                   None \<Rightarrow> Inl ValueError
                 | Some (name, rest) \<Rightarrow>
                     (case map_of env name of
                        None \<Rightarrow> Inl KeyError
                      | Some v \<Rightarrow>
                          (case tpl_substitute env rest of Inl e \<Rightarrow> Inl e | Inr r \<Rightarrow> Inr (v @ r))))
              else Inl ValueError)))"
  by pat_completeness auto
termination
  by (relation "measure (\<lambda>(env, s). length s)")
     (auto simp: braced_id_def less_Suc_eq_le le_diff_conv le_SucI [OF length_dropWhile_le]
                 le_SucI [OF le_SucI [OF length_dropWhile_le]]
                 le_SucI [OF le_SucI [OF le_SucI [OF length_dropWhile_le]]] split: list.splits if_splits)

text \<open>
  A template seen as literal text and placeholders: \<open>render_tpl\<close> writes it in
  \<open>string.Template\<close> syntax (a literal \<open>$\<close> doubled, a placeholder braced) and
  \<open>fill_tpl\<close> is the text that substituting an environment should give.
\<close>

datatype tpl_piece = Lit string | Var string

definition escape_dollar :: "string \<Rightarrow> string" where
  "escape_dollar s = concat (map (\<lambda>c. if c = CHR ''$'' then ''$$'' else [c]) s)"

fun render_tpl :: "tpl_piece list \<Rightarrow> string" where
  "render_tpl [] = []"
| "render_tpl (Lit s # ps) = escape_dollar s @ render_tpl ps"
| "render_tpl (Var n # ps) = ''${'' @ n @ ''}'' @ render_tpl ps"

definition is_identifier :: "string \<Rightarrow> bool" where
  "is_identifier n = (case n of c # cs \<Rightarrow> is_id_start c \<and> list_all is_word_char cs | [] \<Rightarrow> False)"

fun tpl_vars :: "tpl_piece list \<Rightarrow> string list" where
  "tpl_vars [] = []"
| "tpl_vars (Lit s # ps) = tpl_vars ps"
| "tpl_vars (Var n # ps) = n # tpl_vars ps"

fun fill_tpl :: "(string \<times> string) list \<Rightarrow> tpl_piece list \<Rightarrow> string" where
  "fill_tpl env [] = []"
| "fill_tpl env (Lit s # ps) = s @ fill_tpl env ps"
| "fill_tpl env (Var n # ps) = (case map_of env n of Some v \<Rightarrow> v | None \<Rightarrow> []) @ fill_tpl env ps"

text \<open>\<open>str(int(b))\<close> of a flag.\<close>

definition bool_str :: "bool \<Rightarrow> string" where
  "bool_str b = (if b then ''1'' else ''0'')"

section \<open>Output names\<close>

text \<open>\<open>os.path.basename\<close>: what follows the last \<open>/\<close>.\<close>

definition basename :: "string \<Rightarrow> string" where
  "basename p = rev (takeWhile (\<lambda>c. c \<noteq> CHR ''/'') (rev p))"

text \<open>
  \<open>re.sub(r"\.def$", "", s)\<close>. Python's \<open>$\<close> also matches before a final newline, so a
  \<open>.def\<close> followed by one trailing newline is removed as well and the newline kept.
\<close>

definition strip_def_ext :: "string \<Rightarrow> string" where
  "strip_def_ext s =
     (if ends_with ''.def'' s then take (length s - 4) s
      else if ends_with (''.def'' @ [nl]) s then take (length s - 5) s @ [nl]
      else s)"

text \<open>The stem of the input file (lines 737-739) and the suffix of the outputs (899-904).\<close>

definition input_stem :: "bool \<Rightarrow> string \<Rightarrow> string" where
  "input_stem binary input_name =
     (if binary then basename input_name else strip_def_ext (basename input_name))"

definition output_suffix :: "options \<Rightarrow> bool \<Rightarrow> string \<Rightarrow> string" where
  "output_suffix args binary input_name =
     (case opt_suffix args of Some s \<Rightarrow> s | None \<Rightarrow> input_stem binary input_name)"

text \<open>
  \<open>re.sub(r"[^a-zA-Z_0-9]+", "_", suffix)\<close>: every maximal run of characters other than
  ASCII letters, digits and underscore becomes one underscore.
\<close>

function sanitize :: "string \<Rightarrow> string" where
  "sanitize [] = []"
| "sanitize (c # cs) =
     (if is_word_char c then c # sanitize cs
      else CHR ''_'' # sanitize (dropWhile (\<lambda>x. \<not> is_word_char x) cs))"
  by pat_completeness auto
termination
  by (relation "measure length") (auto simp: le_imp_less_Suc length_dropWhile_le)

text \<open>
  The load name (lines 741-750): the \<open>--library-load-name\<close> option, else the SONAME of a
  binary or the \<open>LIBRARY\<close>/\<open>NAME\<close> of a def file (given here as the reader's result),
  else the stem.
\<close>

definition choose_load_name :: "options \<Rightarrow> bool \<Rightarrow> string option \<Rightarrow> string option \<Rightarrow> string \<Rightarrow> string" where
  "choose_load_name args binary soname libname stem =
     (case opt_library_load_name args of
        Some n \<Rightarrow> n
      | None \<Rightarrow> (if binary then (case soname of Some n \<Rightarrow> n | None \<Rightarrow> stem)
                 else (case libname of Some n \<Rightarrow> n | None \<Rightarrow> stem)))"

section \<open>The trampoline file\<close>

text \<open>
  \<open><suffix>.tramp.S\<close> (lines 909-930): the table template with \<open>lib_suffix\<close> and
  \<open>table_size = ptr_size * (len(funs) + 1)\<close>, then for the \<open>i\<close>-th function the trampoline
  template with \<open>sym = symbol_prefix + name\<close>, \<open>offset = i * ptr_size\<close> and \<open>number = i\<close>.
  The keyword arguments are the environment; their \<open>str()\<close> is substituted.
\<close>

definition table_env :: "string \<Rightarrow> int \<Rightarrow> nat \<Rightarrow> (string \<times> string) list" where
  "table_env lib_suffix ptr_size n =
     [(''lib_suffix'', lib_suffix), (''table_size'', py_str_int (ptr_size * (int n + 1)))]"

definition tramp_env :: "string \<Rightarrow> string \<Rightarrow> int \<Rightarrow> nat \<Rightarrow> string \<Rightarrow> (string \<times> string) list" where
  "tramp_env lib_suffix prefix ptr_size i name =
     [(''lib_suffix'', lib_suffix), (''sym'', prefix @ name), (''offset'', py_str_int (int i * ptr_size)),
      (''number'', py_str_int (int i))]"

fun tramp_texts :: "string \<Rightarrow> string \<Rightarrow> string \<Rightarrow> int \<Rightarrow> nat \<Rightarrow> string list \<Rightarrow> string result" where
  "tramp_texts tpl lib_suffix prefix ptr_size i [] = Inr []"
| "tramp_texts tpl lib_suffix prefix ptr_size i (name # names) =
     (case tpl_substitute (tramp_env lib_suffix prefix ptr_size i name) tpl of
        Inl e \<Rightarrow> Inl e
      | Inr t \<Rightarrow>
          (case tramp_texts tpl lib_suffix prefix ptr_size (Suc i) names of
             Inl e \<Rightarrow> Inl e
           | Inr ts \<Rightarrow> Inr (t @ ts)))"

definition gen_tramp_file ::
  "string \<Rightarrow> string \<Rightarrow> string \<Rightarrow> string \<Rightarrow> int \<Rightarrow> string list \<Rightarrow> string result" where
  "gen_tramp_file table_tpl tramp_tpl lib_suffix prefix ptr_size funs =
     (case tpl_substitute (table_env lib_suffix ptr_size (length funs)) table_tpl of
        Inl e \<Rightarrow> Inl e
      | Inr table_text \<Rightarrow>
          (case tramp_texts tramp_tpl lib_suffix prefix ptr_size 0 funs of
             Inl e \<Rightarrow> Inl e
           | Inr ts \<Rightarrow> Inr (table_text @ ts)))"

section \<open>The init file\<close>

text \<open>
  \<open><suffix>.init.c\<close> (lines 933-958): the names as quoted C strings, one per line with
  a comma after each, and the flags as \<open>0\<close>/\<open>1\<close>. In vtable mode the unit of
  \<open>generate_vtables\<close> follows the substituted template.
\<close>

definition sym_names :: "string list \<Rightarrow> string" where
  "sym_names funs =
     (if funs \<noteq> [] then py_join ([CHR '','', nl] @ ''  '') (map (\<lambda>n. dq # n @ [dq]) funs) @ '',''
      else [])"

definition init_env :: "options \<Rightarrow> string \<Rightarrow> string \<Rightarrow> string list \<Rightarrow> (string \<times> string) list" where
  "init_env args lib_suffix load_name funs =
     [(''lib_suffix'', lib_suffix), (''load_name'', load_name),
      (''dlopen_callback'', opt_dlopen_callback args), (''dlsym_callback'', opt_dlsym_callback args),
      (''has_dlopen_callback'', bool_str (opt_dlopen_callback args \<noteq> [])),
      (''has_dlsym_callback'', bool_str (opt_dlsym_callback args \<noteq> [])),
      (''no_dlopen'', bool_str (\<not> opt_dlopen args)), (''lazy_load'', bool_str (opt_lazy_load args)),
      (''thread_safe'', bool_str (opt_thread_safe args)), (''sym_names'', sym_names funs)]"

definition gen_init_file ::
  "string \<Rightarrow> options \<Rightarrow> string \<Rightarrow> string \<Rightarrow> string list \<Rightarrow>
   (string \<times> (string \<times> string) list) list \<Rightarrow> (string \<times> symbol) list \<Rightarrow> (string \<times> slot list) list \<Rightarrow>
   string result" where
  "gen_init_file init_tpl args lib_suffix load_name funs cls_tables cls_syms cls_data =
     (case tpl_substitute (init_env args lib_suffix load_name funs) init_tpl of
        Inl e \<Rightarrow> Inl e
      | Inr init_text \<Rightarrow>
          (if opt_vtables args then
             (case generate_vtables cls_tables cls_syms cls_data of
                Inl e \<Rightarrow> Inl e
              | Inr vtable_text \<Rightarrow> Inr (init_text @ vtable_text))
           else Inr init_text))"

section \<open>A worked example\<close>

text \<open>
  Templates in the style of the architecture directories: a table with its size, a
  trampoline jumping through its slot, and an init template listing the names.
\<close>

abbreviation ex_table_tpl :: "tpl_piece list" where
  "ex_table_tpl \<equiv> [Lit ''_'', Var ''lib_suffix'', Lit ''_tramp_table: .zero '', Var ''table_size'', Lit [nl]]"

abbreviation ex_tramp_tpl :: "tpl_piece list" where
  "ex_tramp_tpl \<equiv>
     [Lit ''_'', Var ''sym'', Lit '': jmp *_'', Var ''lib_suffix'', Lit ''_tramp_table+'', Var ''offset'',
      Lit '' # $'', Var ''number'', Lit [nl]]"

abbreviation ex_init_tpl :: "tpl_piece list" where
  "ex_init_tpl \<equiv> [Lit ''{'', Var ''sym_names'', Lit ''} '', Var ''no_dlopen'', Var ''has_dlsym_callback'']"

abbreviation init_keys :: "string set" where
  "init_keys \<equiv> {''lib_suffix'', ''load_name'', ''dlopen_callback'', ''dlsym_callback'',
                 ''has_dlopen_callback'', ''has_dlsym_callback'', ''no_dlopen'', ''lazy_load'',
                 ''thread_safe'', ''sym_names''}"

lemmas tpl_eval = is_identifier_def is_id_start_def table_env_def tramp_env_def init_env_def
  sym_names_def bool_str_def default_options_def char_of_def bit_iff_odd

section \<open>Properties\<close>

lemma tpl_substitute_escape:
  "tpl_substitute env (escape_dollar s @ rest) = map_sum id ((@) s) (tpl_substitute env rest)"
proof (induction s)
  case Nil
  then show ?case by (cases "tpl_substitute env rest") (simp_all add: escape_dollar_def)
next
  case (Cons c s)
  then show ?case
    by (cases "tpl_substitute env rest") (auto simp: escape_dollar_def)
qed

lemma braced_id_identifier:
  "is_identifier n \<Longrightarrow> braced_id (n @ CHR ''}'' # rest) = Some (n, rest)"
proof -
  assume "is_identifier n"
  then obtain c cs where n: "n = c # cs" "is_id_start c" "list_all is_word_char cs"
    by (auto simp: is_identifier_def split: list.splits)
  have nw: "\<not> is_word_char CHR ''}''" by (simp add: py_simps)
  from n(3) nw have "takeWhile is_word_char (cs @ CHR ''}'' # rest) = cs"
    "dropWhile is_word_char (cs @ CHR ''}'' # rest) = CHR ''}'' # rest"
    by (simp_all add: list_all_iff takeWhile_append2 dropWhile_append2 takeWhile_tail)
  with n nw show ?thesis by (simp add: braced_id_def)
qed

lemma tpl_substitute_render:
  assumes "list_all is_identifier (tpl_vars ps)" and "set (tpl_vars ps) \<subseteq> set (map fst env)"
  shows "tpl_substitute env (render_tpl ps) = Inr (fill_tpl env ps)"
  using assms
proof (induction ps rule: render_tpl.induct)
  case 1
  then show ?case by simp
next
  case (2 s ps)
  then show ?case by (simp add: tpl_substitute_escape)
next
  case (3 n ps)
  then obtain v where v: "map_of env n = Some v"
    by (auto dest: weak_map_of_SomeI simp: image_iff)
  have "\<not> is_id_start CHR ''{''" by (simp add: is_id_start_def py_simps)
  with 3 v show ?case by (simp add: braced_id_identifier)
qed

lemma tpl_substitute_render_KeyError:
  assumes "list_all is_identifier (tpl_vars ps)" and "\<not> set (tpl_vars ps) \<subseteq> set (map fst env)"
  shows "tpl_substitute env (render_tpl ps) = Inl KeyError"
  using assms
proof (induction ps rule: render_tpl.induct)
  case 1
  then show ?case by simp
next
  case (2 s ps)
  then show ?case by (simp add: tpl_substitute_escape)
next
  case (3 n ps)
  have b: "\<not> is_id_start CHR ''{''" by (simp add: is_id_start_def py_simps)
  show ?case
  proof (cases "map_of env n")
    case None
    with 3 b show ?thesis by (simp add: braced_id_identifier)
  next
    case (Some v)
    then have "n \<in> set (map fst env)" by (force dest: map_of_SomeD)
    with "3.prems" have "list_all is_identifier (tpl_vars ps)" "\<not> set (tpl_vars ps) \<subseteq> set (map fst env)"
      by auto
    then have "tpl_substitute env (render_tpl ps) = Inl KeyError" by (rule "3.IH")
    with 3 b Some show ?thesis by (simp add: braced_id_identifier)
  qed
qed

lemma tramp_texts_render:
  assumes "list_all is_identifier (tpl_vars ps)"
    and "set (tpl_vars ps) \<subseteq> {''lib_suffix'', ''sym'', ''offset'', ''number''}"
  shows "tramp_texts (render_tpl ps) ls pfx p i funs =
           Inr (concat (map (\<lambda>(k, n). fill_tpl (tramp_env ls pfx p k n) ps) (zip [i..<i + length funs] funs)))"
proof (induction funs arbitrary: i)
  case Nil
  then show ?case by simp
next
  case (Cons n funs)
  have "set (tpl_vars ps) \<subseteq> set (map fst (tramp_env ls pfx p i n))"
    using assms(2) by (auto simp: tramp_env_def)
  then have "tpl_substitute (tramp_env ls pfx p i n) (render_tpl ps) = Inr (fill_tpl (tramp_env ls pfx p i n) ps)"
    using assms(1) by (simp add: tpl_substitute_render)
  moreover have "[i..<i + length (n # funs)] = i # [Suc i..<Suc i + length funs]"
    by (simp add: upt_rec)
  ultimately show ?case using Cons [of "Suc i"] by simp
qed

lemma tramp_texts_KeyError:
  assumes "list_all is_identifier (tpl_vars ps)"
    and "\<not> set (tpl_vars ps) \<subseteq> {''lib_suffix'', ''sym'', ''offset'', ''number''}" and "funs \<noteq> []"
  shows "tramp_texts (render_tpl ps) ls pfx p i funs = Inl KeyError"
proof -
  obtain n ns where funs: "funs = n # ns" using assms(3) by (cases funs) auto
  have "\<not> set (tpl_vars ps) \<subseteq> set (map fst (tramp_env ls pfx p i n))"
    using assms(2) by (simp add: tramp_env_def)
  with assms(1) funs show ?thesis by (simp add: tpl_substitute_render_KeyError)
qed

lemma py_join_Cons_prepend: "b @ py_join s (x # ys) = py_join s ((b @ x) # ys)"
  by (cases ys) auto

lemma py_join_trailing:
  "py_join (a @ d # b) (x # xs) @ a = py_join [d] ((x @ a) # map (\<lambda>y. b @ y @ a) xs)"
  by (induction xs arbitrary: x) (auto simp: neq_Nil_conv py_join_Cons_prepend)

lemma sanitize_word: "list_all is_word_char (sanitize s)"
  by (induction s rule: sanitize.induct) (auto simp: py_simps)

lemma sanitize_id: "list_all is_word_char s \<Longrightarrow> sanitize s = s"
  by (induction s rule: sanitize.induct) auto

lemma sanitize_length: "length (sanitize s) \<le> length s"
  by (induction s rule: sanitize.induct) (auto intro: le_trans [OF _ length_dropWhile_le])

lemma sanitize_Nil_iff: "sanitize s = [] \<longleftrightarrow> s = []"
  by (cases s) auto

lemma basename_append: assumes "CHR ''/'' \<notin> set n" shows "basename (d @ CHR ''/'' # n) = n"
proof -
  have t: "takeWhile (\<lambda>c. c \<noteq> CHR ''/'') (rev n) = rev n"
    using assms by (auto simp: takeWhile_eq_all_conv)
  have "takeWhile (\<lambda>c. c \<noteq> CHR ''/'') (rev n @ CHR ''/'' # rev d) = rev n"
    using assms by (subst takeWhile_append2) (auto simp: t)
  then show ?thesis by (simp add: basename_def)
qed


text \<open>
  C25. For templates whose placeholders are identifiers among the documented keys, the
  trampoline file is the table template filled with \<open>lib_suffix\<close> and
  \<open>table_size\<close>, followed by one filled trampoline template per function, in the order
  of the function list, the \<open>i\<close>-th with its own name, offset and number.
\<close>

theorem gen_tramp_file_render:
  assumes "list_all is_identifier (tpl_vars table_ps)"
    and "set (tpl_vars table_ps) \<subseteq> {''lib_suffix'', ''table_size''}"
    and "list_all is_identifier (tpl_vars tramp_ps)"
    and "set (tpl_vars tramp_ps) \<subseteq> {''lib_suffix'', ''sym'', ''offset'', ''number''}"
  shows "gen_tramp_file (render_tpl table_ps) (render_tpl tramp_ps) lib_suffix prefix ptr_size funs =
           Inr (fill_tpl (table_env lib_suffix ptr_size (length funs)) table_ps @
                concat (map (\<lambda>(i, n). fill_tpl (tramp_env lib_suffix prefix ptr_size i n) tramp_ps)
                          (zip [0..<length funs] funs)))"
proof -
  have "set (tpl_vars table_ps) \<subseteq> set (map fst (table_env lib_suffix ptr_size (length funs)))"
    using assms(2) by (auto simp: table_env_def)
  then show ?thesis
    using assms by (simp add: gen_tramp_file_def tpl_substitute_render tramp_texts_render)
qed

theorem gen_tramp_file_render_witness:
  "gen_tramp_file (render_tpl ex_table_tpl) (render_tpl ex_tramp_tpl) ''libfoo_so'' [] 8 [''a'', ''b''] =
     Inr (''_libfoo_so_tramp_table: .zero 24'' @ [nl] @ ''_a: jmp *_libfoo_so_tramp_table+0 # $0'' @ [nl] @
          ''_b: jmp *_libfoo_so_tramp_table+8 # $1'' @ [nl])"
  using gen_tramp_file_render [where table_ps = ex_table_tpl and tramp_ps = ex_tramp_tpl and
      lib_suffix = "''libfoo_so''" and prefix = "[]" and ptr_size = 8 and funs = "[''a'', ''b'']"]
  by (simp add: tpl_eval py_simps upt_rec)

text \<open>
  C26. The \<open>i\<close>-th trampoline is given the offset \<open>i * ptr_size\<close> and the table the size
  \<open>ptr_size * (N + 1)\<close>, as decimal numbers that read back to these values; so each
  trampoline's slot lies inside the table, below the last slot, which stays free.
\<close>

theorem tramp_slot_bounds:
  assumes "0 < ptr_size" and "i < length funs"
  shows "py_int (the (map_of (tramp_env lib_suffix prefix ptr_size i (funs ! i)) ''offset'')) 10 =
           Some (int i * ptr_size) \<and>
         py_int (the (map_of (table_env lib_suffix ptr_size (length funs)) ''table_size'')) 10 =
           Some (ptr_size * (int (length funs) + 1)) \<and>
         0 \<le> int i * ptr_size \<and> int i * ptr_size + ptr_size \<le> ptr_size * (int (length funs) + 1) - ptr_size"
proof -
  have "int i + 1 \<le> int (length funs)" using assms(2) by simp
  then have "(int i + 1) * ptr_size \<le> int (length funs) * ptr_size"
    using assms(1) by (simp add: mult_right_mono)
  then show ?thesis
    using assms(1) by (simp add: tramp_env_def table_env_def py_int_py_str_int algebra_simps)
qed

theorem tramp_slot_bounds_witness:
  "py_int (the (map_of (tramp_env ''libfoo_so'' [] 8 1 ([''a'', ''b''] ! 1)) ''offset'')) 10 = Some 8 \<and>
   py_int (the (map_of (table_env ''libfoo_so'' 8 (length [''a'', ''b''])) ''table_size'')) 10 = Some 24"
  using tramp_slot_bounds [where ptr_size = 8 and i = 1 and funs = "[''a'', ''b'']" and
      lib_suffix = "''libfoo_so''" and prefix = "[]"]
  by simp

text \<open>
  C27. A trampoline template that uses a placeholder other than \<open>lib_suffix\<close>,
  \<open>sym\<close>, \<open>offset\<close> and \<open>number\<close> makes the generator fail with \<open>KeyError\<close> as soon as
  there is a function to emit.
\<close>

theorem gen_tramp_file_KeyError:
  assumes "list_all is_identifier (tpl_vars table_ps)"
    and "set (tpl_vars table_ps) \<subseteq> {''lib_suffix'', ''table_size''}"
    and "list_all is_identifier (tpl_vars tramp_ps)"
    and "\<not> set (tpl_vars tramp_ps) \<subseteq> {''lib_suffix'', ''sym'', ''offset'', ''number''}"
    and "funs \<noteq> []"
  shows "gen_tramp_file (render_tpl table_ps) (render_tpl tramp_ps) lib_suffix prefix ptr_size funs =
           Inl KeyError"
proof -
  have "set (tpl_vars table_ps) \<subseteq> set (map fst (table_env lib_suffix ptr_size (length funs)))"
    using assms(2) by (auto simp: table_env_def)
  then show ?thesis
    using assms by (simp add: gen_tramp_file_def tpl_substitute_render tramp_texts_KeyError)
qed

theorem gen_tramp_file_KeyError_witness:
  "gen_tramp_file (render_tpl ex_table_tpl) (render_tpl [Lit ''.quad '', Var ''table_size''])
     ''libfoo_so'' [] 8 [''a''] = Inl KeyError"
  using gen_tramp_file_KeyError [where table_ps = ex_table_tpl and tramp_ps = "[Lit ''.quad '', Var ''table_size'']" and
      lib_suffix = "''libfoo_so''" and prefix = "[]" and ptr_size = 8 and funs = "[''a'']"]
  by (simp add: tpl_eval py_simps)

text \<open>
  C28. For an init template over the documented keys, the init file is the template filled
  with the substitutions of the specification (section 4.7): \<open>lib_suffix\<close>,
  \<open>load_name\<close>, the two callbacks, \<open>has_dlopen_callback\<close>/\<open>has_dlsym_callback\<close>
  \<open>1\<close> exactly when the callback is non-empty, \<open>no_dlopen\<close> \<open>1\<close> exactly under
  \<open>--no-dlopen\<close>, \<open>lazy_load\<close> and \<open>thread_safe\<close> \<open>1\<close> exactly when set, and the
  \<open>sym_names\<close> list; in vtable mode the vtable unit follows, and its failure is the file's.
\<close>

theorem gen_init_file_render:
  assumes "list_all is_identifier (tpl_vars ps)" and "set (tpl_vars ps) \<subseteq> init_keys"
  shows "gen_init_file (render_tpl ps) args lib_suffix load_name funs cls_tables cls_syms cls_data =
           (let text = fill_tpl
                 [(''lib_suffix'', lib_suffix), (''load_name'', load_name),
                  (''dlopen_callback'', opt_dlopen_callback args),
                  (''dlsym_callback'', opt_dlsym_callback args),
                  (''has_dlopen_callback'', if opt_dlopen_callback args = [] then ''0'' else ''1''),
                  (''has_dlsym_callback'', if opt_dlsym_callback args = [] then ''0'' else ''1''),
                  (''no_dlopen'', if opt_dlopen args then ''0'' else ''1''),
                  (''lazy_load'', if opt_lazy_load args then ''1'' else ''0''),
                  (''thread_safe'', if opt_thread_safe args then ''1'' else ''0''),
                  (''sym_names'', sym_names funs)] ps in
            if opt_vtables args then
              (case generate_vtables cls_tables cls_syms cls_data of
                 Inl e \<Rightarrow> Inl e
               | Inr v \<Rightarrow> Inr (text @ v))
            else Inr text)"
proof -
  have env: "init_env args lib_suffix load_name funs =
               [(''lib_suffix'', lib_suffix), (''load_name'', load_name),
                (''dlopen_callback'', opt_dlopen_callback args),
                (''dlsym_callback'', opt_dlsym_callback args),
                (''has_dlopen_callback'', if opt_dlopen_callback args = [] then ''0'' else ''1''),
                (''has_dlsym_callback'', if opt_dlsym_callback args = [] then ''0'' else ''1''),
                (''no_dlopen'', if opt_dlopen args then ''0'' else ''1''),
                (''lazy_load'', if opt_lazy_load args then ''1'' else ''0''),
                (''thread_safe'', if opt_thread_safe args then ''1'' else ''0''),
                (''sym_names'', sym_names funs)]"
    by (simp add: init_env_def bool_str_def)
  have "set (tpl_vars ps) \<subseteq> set (map fst (init_env args lib_suffix load_name funs))"
    using assms(2) by (auto simp: init_env_def)
  with assms(1) have "tpl_substitute (init_env args lib_suffix load_name funs) (render_tpl ps) =
                      Inr (fill_tpl (init_env args lib_suffix load_name funs) ps)"
    by (simp add: tpl_substitute_render)
  then show ?thesis
    by (simp add: gen_init_file_def env Let_def)
qed

theorem gen_init_file_render_witness:
  "gen_init_file (render_tpl ex_init_tpl) (default_options ''x86_64'') ''libfoo_so'' ''libfoo.so.1''
     [''a'', ''b''] [] [] [] =
   Inr (''{'' @ [dq] @ ''a'' @ [dq, CHR '','', nl] @ ''  '' @ [dq] @ ''b'' @ [dq] @ '',} 00'')"
  using gen_init_file_render [where ps = ex_init_tpl and args = "default_options ''x86_64''" and
      lib_suffix = "''libfoo_so''" and load_name = "''libfoo.so.1''" and funs = "[''a'', ''b'']" and
      cls_tables = "[]" and cls_syms = "[]" and cls_data = "[]"]
  by (simp add: tpl_eval py_simps)

text \<open>
  C29. The \<open>sym_names\<close> value lists the functions one per line, each as a quoted C
  string followed by a comma (the last one included), every line after the first indented
  by two spaces.
\<close>

theorem sym_names_lines:
  assumes "funs \<noteq> []" and "\<forall>n \<in> set funs. nl \<notin> set n"
  shows "split_on nl (sym_names funs) =
           (dq # hd funs @ [dq, CHR '','']) # map (\<lambda>n. ''  '' @ dq # n @ [dq, CHR '','']) (tl funs)"
proof -
  obtain f fs where f: "funs = f # fs" using assms(1) by (cases funs) auto
  have "sym_names funs = py_join [nl] ((dq # f @ [dq, CHR '','']) # map (\<lambda>n. ''  '' @ dq # n @ [dq, CHR '','']) fs)"
    using py_join_trailing [of "'',''" nl "''  ''" "dq # f @ [dq]" "map (\<lambda>n. dq # n @ [dq]) fs"]
    by (simp add: sym_names_def f comp_def)
  moreover have "\<forall>x \<in> set ((dq # f @ [dq, CHR '','']) # map (\<lambda>n. ''  '' @ dq # n @ [dq, CHR '','']) fs). nl \<notin> set x"
    using assms(2) f by auto
  ultimately show ?thesis by (simp add: split_on_py_join f)
qed

theorem sym_names_lines_witness:
  "split_on nl (sym_names [''foo'', ''bar'']) = [dq # ''foo'' @ [dq, CHR '',''], ''  '' @ dq # ''bar'' @ [dq, CHR '','']]"
  using sym_names_lines [where funs = "[''foo'', ''bar'']"] by simp

text \<open>
  C30. \<open>lib_suffix\<close> consists of ASCII letters, digits and underscores only, so it can be
  pasted into C and assembler identifiers; sanitising is idempotent, never lengthens the
  suffix and keeps a non-empty suffix non-empty.
\<close>

theorem lib_suffix_identifier:
  "list_all is_word_char (sanitize s) \<and> sanitize (sanitize s) = sanitize s \<and>
   length (sanitize s) \<le> length s \<and> (sanitize s = [] \<longleftrightarrow> s = [])"
  by (simp add: sanitize_word sanitize_id sanitize_length sanitize_Nil_iff)

text \<open>
  For a def file \<open>dir/NAME.def\<close> the output stem is \<open>NAME\<close>; for a binary of the
  same name the \<open>.def\<close> stays.
\<close>

theorem input_stem_def_file:
  assumes "CHR ''/'' \<notin> set n"
  shows "input_stem False (d @ ''/'' @ n @ ''.def'') = n \<and>
         input_stem True (d @ ''/'' @ n @ ''.def'') = n @ ''.def''"
proof -
  have "basename (d @ CHR ''/'' # n @ ''.def'') = n @ ''.def''"
    using assms by (intro basename_append) simp
  moreover have "strip_def_ext (n @ ''.def'') = n"
    by (simp add: strip_def_ext_def ends_with_def starts_with_def)
  ultimately show ?thesis by (simp add: input_stem_def)
qed

theorem input_stem_def_file_witness:
  "input_stem False ''/tmp/libfoo.def'' = ''libfoo'' \<and> input_stem True ''/tmp/libfoo.def'' = ''libfoo.def''"
  using input_stem_def_file [where n = "''libfoo''" and d = "''/tmp''"] by simp

end
