(* ===== verification/ElfSyms.thy ===== *)
theory ElfSyms
  imports Symbols Tools
begin

text \<open>
  \<open>collect_syms\<close> of \<open>implib-gen.py\<close> (lines 114-228): the visibility map from
  \<open>nm -g\<close>, the parser of \<open>readelf -sW\<close> for ELF files as a state machine over the output
  lines, and the parser of \<open>nm -D\<close> for Mach-O files.
\<close>

section \<open>Visibility from \<open>nm -g\<close>\<close>

text \<open>
  Lines with at least three fields \<open>address type name\<close>: an upper-case type letter means
  \<open>DEFAULT\<close>, anything else \<open>HIDDEN\<close>; a later line for the same name overrides.
\<close>

definition nm_visibility :: "string \<Rightarrow> (string \<times> string) list" where
  "nm_visibility nm_out =
     fold (\<lambda>line vis. let parts = py_split line in
                      if 3 \<le> length parts
                      then AList.update (parts ! 2) (if py_isupper (parts ! 1) then ''DEFAULT'' else ''HIDDEN'') vis
                      else vis)
       (py_splitlines nm_out) []"

definition vis_get :: "(string \<times> string) list \<Rightarrow> string \<Rightarrow> string" where
  "vis_get vis name = (case map_of vis name of Some v \<Rightarrow> v | None \<Rightarrow> ''DEFAULT'')"

section \<open>The \<open>readelf -sW\<close> parser\<close>

text \<open>\<open>re.sub(r"\[<localentry>: [0-9]+\]", "", line)\<close>, scanning from the left.\<close>

function strip_localentry :: "string \<Rightarrow> string" where
  "strip_localentry [] = []"
| "strip_localentry (c # cs) =
     (let m = ''[<localentry>: ''; rest = drop (length m - 1) cs; ds = takeWhile is_ascii_digit rest in
      if starts_with m (c # cs) \<and> ds \<noteq> [] \<and> drop (length ds) rest \<noteq> [] \<and> hd (drop (length ds) rest) = CHR '']''
      then strip_localentry (tl (drop (length ds) rest))
      else c # strip_localentry cs)"
  by pat_completeness auto
termination
  by (relation "measure length") (auto simp: Let_def)

record symtab_parser =
  sp_toc :: "string list option"
  sp_syms :: "symbol list"
  sp_seen :: "string list"

text \<open>
  The name column of a row: a name with \<open>@\<close> is split on the runs of \<open>@\<close> into exactly
  a name and a version (else the unpacking raises \<open>ValueError\<close>), of the default version
  when it contains \<open>@@\<close>.
\<close>

definition name_version :: "string \<Rightarrow> (string \<times> string option \<times> bool) result" where
  "name_version name =
     (if str_contains ''@'' name
      then (case re_split_runs 1 (\<lambda>c. c = CHR ''@'') name of
              [n, v] \<Rightarrow> Inr (n, Some v, str_contains ''@@'' name)
            | _ \<Rightarrow> Inl ValueError)
      else Inr (name, None, True))"

text \<open>
  The symbol of a row. \<open>Value\<close> is the converted hexadecimal column; it is empty only in
  rows too short to have a name, which are skipped before, so an empty \<open>Value\<close> is
  rejected.
\<close>

definition row_symbol ::
  "(string \<times> string) list \<Rightarrow> (string \<times> cell) list \<Rightarrow> string \<Rightarrow> string option \<Rightarrow> bool \<Rightarrow> int \<Rightarrow>
   symbol result" where
  "row_symbol vis row n ver dflt sz =
     (case map_of row ''Value'' of
        None \<Rightarrow> Inl KeyError
      | Some (CStr _) \<Rightarrow> Inl TypeError
      | Some (CInt v) \<Rightarrow>
          (case str_col row ''Type'' of
             Inl e \<Rightarrow> Inl e
           | Inr ty \<Rightarrow>
               (case str_col row ''Bind'' of
                  Inl e \<Rightarrow> Inl e
                | Inr bd \<Rightarrow>
                    (case str_col row ''Ndx'' of
                       Inl e \<Rightarrow> Inl e
                     | Inr ndx \<Rightarrow>
                         Inr \<lparr>sym_name = n, sym_value = v, sym_size = sz, sym_type = ty, sym_bind = bd,
                              sym_ndx = ndx, sym_default = dflt, sym_version = ver,
                              sym_visibility = vis_get vis n, sym_demangled = None\<rparr>))))"

text \<open>
  A row after a header: an unnamed or already seen name is skipped; \<open>Size\<close> is read with
  \<open>int(s, 0)\<close>.
\<close>

definition symtab_row ::
  "(string \<times> string) list \<Rightarrow> symtab_parser \<Rightarrow> string list \<Rightarrow> string list \<Rightarrow> symtab_parser result" where
  "symtab_row vis st toc words =
     (case parse_row words toc [''Value''] of
        Inl e \<Rightarrow> Inl e
      | Inr row \<Rightarrow>
          (case str_col row ''Name'' of
             Inl e \<Rightarrow> Inl e
           | Inr name \<Rightarrow>
               (if name = [] \<or> name \<in> set (sp_seen st) then Inr st
                else
                  (case str_col row ''Size'' of
                     Inl e \<Rightarrow> Inl e
                   | Inr size_s \<Rightarrow>
                       (case py_int size_s 0 of
                          None \<Rightarrow> Inl ValueError
                        | Some sz \<Rightarrow>
                            (case name_version name of
                               Inl e \<Rightarrow> Inl e
                             | Inr (n, ver, dflt) \<Rightarrow>
                                 (case row_symbol vis row n ver dflt sz of
                                    Inl e \<Rightarrow> Inl e
                                  | Inr s \<Rightarrow>
                                      Inr (st\<lparr>sp_syms := sp_syms st @ [s],
                                              sp_seen := sp_seen st @ [name]\<rparr>))))))))"

text \<open>
  One line of the \<open>readelf\<close> output: a blank line ends a table and forgets its header; a
  line starting with \<open>Num\<close> is a header (its colons removed), an error if a header is
  already active; other lines are rows when a header is active and ignored otherwise.
\<close>

definition symtab_line ::
  "(string \<times> string) list \<Rightarrow> symtab_parser \<Rightarrow> string \<Rightarrow> symtab_parser result" where
  "symtab_line vis st line0 =
     (let line = strip_localentry (py_strip line0) in
      if line = [] then Inr (st\<lparr>sp_toc := None\<rparr>)
      else
        (let words = re_split_runs 1 (\<lambda>c. c = CHR '' '') line in
         if starts_with ''Num'' line then
           (if sp_toc st \<noteq> None then Inl (Fatal ''multiple headers in output of readelf'')
            else Inr (st\<lparr>sp_toc := Some (make_toc (map (filter (\<lambda>c. c \<noteq> CHR '':'')) words) [])\<rparr>))
         else
           (case sp_toc st of
              None \<Rightarrow> Inr st
            | Some toc \<Rightarrow> symtab_row vis st toc words)))"

definition parse_readelf_syms ::
  "(string \<times> string) list \<Rightarrow> string \<Rightarrow> string \<Rightarrow> symbol list result" where
  "parse_readelf_syms vis f out =
     (case fold_result (symtab_line vis) (py_splitlines out) \<lparr>sp_toc = None, sp_syms = [], sp_seen = []\<rparr> of
        Inl e \<Rightarrow> Inl e
      | Inr st \<Rightarrow>
          (if sp_toc st = None then Inl (Fatal (''failed to analyze symbols in '' @ f))
           else Inr (sp_syms st)))"

section \<open>The \<open>nm -D\<close> parser for Mach-O\<close>

definition macho_line ::
  "(string \<times> string) list \<Rightarrow> string list \<times> symbol list \<Rightarrow> string \<Rightarrow> (string list \<times> symbol list) result" where
  "macho_line vis st line0 =
     (let line = py_strip line0; parts = py_split line in
      if line = [] \<or> length parts < 3 then Inr st
      else
        (let address = parts ! 0; symbol_type = parts ! 1; name = parts ! 2 in
         if name \<in> set (fst st) then Inr st
         else
           (case (if address \<noteq> ''U'' then py_int address 16 else Some 0) of
              None \<Rightarrow> Inl ValueError
            | Some v \<Rightarrow>
                Inr (fst st @ [name],
                     snd st @ [\<lparr>sym_name = name, sym_value = v, sym_size = 0,
                                sym_type = (if map char_upper symbol_type = ''T'' then ''FUNC'' else ''OBJECT''),
                                sym_bind = (if py_isupper symbol_type then ''GLOBAL'' else ''LOCAL''),
                                sym_ndx = (if map char_upper symbol_type \<noteq> ''U'' then ''1'' else ''UND''),
                                sym_default = True, sym_version = None,
                                sym_visibility = vis_get vis name, sym_demangled = None\<rparr>]))))"

definition parse_macho_syms :: "(string \<times> string) list \<Rightarrow> string \<Rightarrow> symbol list result" where
  "parse_macho_syms vis out =
     (case fold_result (macho_line vis) (py_splitlines out) ([], []) of
        Inl e \<Rightarrow> Inl e
      | Inr st \<Rightarrow> Inr (snd st))"

section \<open>\<open>collect_syms\<close>\<close>

definition collect_syms :: "tools \<Rightarrow> string \<Rightarrow> symbol list result" where
  "collect_syms tools f =
     (case run tools [''nm'', ''-g'', f] [] of
        Inl e \<Rightarrow> Inl e
      | Inr (nm_out, _) \<Rightarrow>
          (let vis = nm_visibility nm_out in
           case file_mentions tools f ''Mach-O'' of
             Inl e \<Rightarrow> Inl e
           | Inr True \<Rightarrow>
               (case run tools [''nm'', ''-D'', f] [] of
                  Inl e \<Rightarrow> Inl e
                | Inr (out, _) \<Rightarrow> parse_macho_syms vis out)
           | Inr False \<Rightarrow>
               (case run tools [''readelf'', ''-sW'', f] [] of
                  Inl e \<Rightarrow> Inl e
                | Inr (out, _) \<Rightarrow> parse_readelf_syms vis f out)))"

section \<open>The parser's invariant and a worked example\<close>

text \<open>
  The invariant of the parser state: the names seen are distinct, and the \<open>i\<close>-th symbol
  is decoded from the \<open>i\<close>-th of them, with its visibility from \<open>nm\<close>.
\<close>

definition symtab_ok :: "(string \<times> string) list \<Rightarrow> symtab_parser \<Rightarrow> bool" where
  "symtab_ok vis st \<longleftrightarrow> distinct (sp_seen st) \<and>
     list_all2 (\<lambda>raw s. name_version raw = Inr (sym_name s, sym_version s, sym_default s) \<and>
                      sym_visibility s = vis_get vis (sym_name s) \<and> sym_demangled s = None)
       (sp_seen st) (sp_syms st)"

text \<open>A table with a repeated versioned row, and the same output followed by a blank line.\<close>

abbreviation ex_symtab :: string where
  "ex_symtab \<equiv>
     ''Num: Value Size Type Bind Vis Ndx Name'' @ [nl] @
     ''1: 1139 11 FUNC GLOBAL DEFAULT 12 foo@@V1'' @ [nl] @
     ''2: 1139 11 FUNC GLOBAL DEFAULT 12 foo@@V1'' @ [nl]"

abbreviation ex_foo :: symbol where
  "ex_foo \<equiv> \<lparr>sym_name = ''foo'', sym_value = 4409, sym_size = 11, sym_type = ''FUNC'', sym_bind = ''GLOBAL'',
              sym_ndx = ''12'', sym_default = True, sym_version = Some ''V1'', sym_visibility = ''DEFAULT'',
              sym_demangled = None\<rparr>"

lemmas symtab_eval = parse_readelf_syms_def symtab_line_def symtab_row_def parse_row_def row_cells_def
  hex_cell_def str_col_def name_version_def row_symbol_def make_toc_def vis_get_def py_simps upt_rec
  char_of_def bit_iff_odd

section \<open>Properties\<close>

lemma name_version_Inr:
  assumes "name_version name = Inr (n, ver, d)"
  shows "CHR ''@'' \<notin> set n \<and> (ver = None \<longrightarrow> d \<and> n = name)"
proof (cases "CHR ''@'' \<in> set name")
  case True
  then obtain a b where ab: "re_split_runs 1 (\<lambda>c. c = CHR ''@'') name = [a, b]" "n = a" "ver = Some b"
    using assms by (auto simp: name_version_def str_contains_single split: list.splits)
  then have "a \<in> set (re_split_runs (Suc 0) (\<lambda>c. c = CHR ''@'') name)" by simp
  then have "CHR ''@'' \<notin> set a" using re_split_runs_free [of "\<lambda>c. c = CHR ''@''" name] by blast
  with ab show ?thesis by simp
next
  case False
  then show ?thesis using assms by (auto simp: name_version_def str_contains_single)
qed

lemma row_symbol_Inr:
  "row_symbol vis row n ver dflt sz = Inr s \<Longrightarrow>
     sym_name s = n \<and> sym_version s = ver \<and> sym_default s = dflt \<and>
     sym_visibility s = vis_get vis n \<and> sym_demangled s = None"
  by (auto simp: row_symbol_def split: option.splits cell.splits sum.splits)

lemma symtab_row_Inr:
  assumes "symtab_row vis st toc words = Inr st'"
  shows "st' = st \<or> (\<exists>name n ver dflt s row sz. name \<notin> set (sp_seen st) \<and>
           name_version name = Inr (n, ver, dflt) \<and> row_symbol vis row n ver dflt sz = Inr s \<and>
           st' = st\<lparr>sp_syms := sp_syms st @ [s], sp_seen := sp_seen st @ [name]\<rparr>)"
  using assms unfolding symtab_row_def
  by (auto split: sum.split_asm if_split_asm option.split_asm prod.split_asm; blast)

lemma symtab_row_ok:
  assumes "symtab_row vis st toc words = Inr st'" and "symtab_ok vis st"
  shows "symtab_ok vis st' \<and> sp_toc st' = sp_toc st"
  using symtab_row_Inr [OF assms(1)]
proof
  assume "st' = st"
  with assms(2) show ?thesis by simp
next
  assume "\<exists>name n ver dflt s row sz. name \<notin> set (sp_seen st) \<and>
           name_version name = Inr (n, ver, dflt) \<and> row_symbol vis row n ver dflt sz = Inr s \<and>
           st' = st\<lparr>sp_syms := sp_syms st @ [s], sp_seen := sp_seen st @ [name]\<rparr>"
  then obtain name n ver dflt s row sz where a: "name \<notin> set (sp_seen st)"
    "name_version name = Inr (n, ver, dflt)" "row_symbol vis row n ver dflt sz = Inr s"
    "st' = st\<lparr>sp_syms := sp_syms st @ [s], sp_seen := sp_seen st @ [name]\<rparr>" by blast
  from a(3) have "sym_name s = n \<and> sym_version s = ver \<and> sym_default s = dflt \<and>
             sym_visibility s = vis_get vis n \<and> sym_demangled s = None"
    by (rule row_symbol_Inr)
  with a assms(2) show ?thesis by (auto simp: symtab_ok_def intro!: list_all2_appendI)
qed

lemma symtab_line_ok:
  assumes "symtab_line vis st line = Inr st'" and "symtab_ok vis st"
  shows "symtab_ok vis st'"
  using assms symtab_row_ok
  by (auto simp: symtab_line_def Let_def symtab_ok_def split: if_splits option.splits)

lemma parse_readelf_syms_example:
  "parse_readelf_syms [(''foo'', ''DEFAULT'')] ''libx.so'' ex_symtab = Inr [ex_foo]"
  by (simp add: symtab_eval)

text \<open>
  C32. Every symbol the \<open>readelf\<close> parser returns is decoded from its own row: the raw
  names behind the list are distinct (a repeated name is dropped), each symbol's name,
  version and default flag are what splitting its raw name at the \<open>@\<close> gives, its
  visibility is \<open>nm\<close>'s; so no name keeps an \<open>@\<close>, and a symbol without version is a
  default one.
\<close>

theorem parse_readelf_syms_decoded:
  assumes "parse_readelf_syms vis f out = Inr syms"
  shows "(\<exists>raws. distinct raws \<and>
            list_all2 (\<lambda>raw s. name_version raw = Inr (sym_name s, sym_version s, sym_default s) \<and>
                                sym_visibility s = vis_get vis (sym_name s) \<and> sym_demangled s = None)
              raws syms) \<and>
         (\<forall>s \<in> set syms. CHR ''@'' \<notin> set (sym_name s) \<and> (sym_version s = None \<longrightarrow> sym_default s))"
proof -
  obtain st where st: "fold_result (symtab_line vis) (py_splitlines out) \<lparr>sp_toc = None, sp_syms = [], sp_seen = []\<rparr> = Inr st"
    and syms: "syms = sp_syms st"
    using assms by (auto simp: parse_readelf_syms_def split: sum.splits if_splits)
  have "symtab_ok vis st"
    by (rule fold_result_invariant [OF _ _ st]) (blast intro: symtab_line_ok, simp add: symtab_ok_def)
  then have ok: "distinct (sp_seen st) \<and>
     list_all2 (\<lambda>raw s. name_version raw = Inr (sym_name s, sym_version s, sym_default s) \<and>
                      sym_visibility s = vis_get vis (sym_name s) \<and> sym_demangled s = None)
       (sp_seen st) (sp_syms st)" by (simp add: symtab_ok_def)
  moreover have "\<forall>s \<in> set (sp_syms st). CHR ''@'' \<notin> set (sym_name s) \<and> (sym_version s = None \<longrightarrow> sym_default s)"
  proof
    fix s assume "s \<in> set (sp_syms st)"
    then obtain raw where "name_version raw = Inr (sym_name s, sym_version s, sym_default s)"
      using ok by (auto simp: list_all2_conv_all_nth in_set_conv_nth)
    then show "CHR ''@'' \<notin> set (sym_name s) \<and> (sym_version s = None \<longrightarrow> sym_default s)"
      by (auto dest: name_version_Inr)
  qed
  ultimately show ?thesis using syms by blast
qed

theorem parse_readelf_syms_decoded_witness:
  "parse_readelf_syms [(''foo'', ''DEFAULT'')] ''libx.so'' ex_symtab = Inr [ex_foo] \<and>
   (\<exists>raw. name_version raw = Inr (''foo'', Some ''V1'', True)) \<and>
   CHR ''@'' \<notin> set (sym_name ex_foo) \<and> sym_visibility ex_foo = ''DEFAULT''"
  using parse_readelf_syms_decoded [OF parse_readelf_syms_example] parse_readelf_syms_example
  by (auto simp: list_all2_Cons2)

text \<open>
  C33. A blank last line of the \<open>readelf\<close> output makes the parser fail, whatever tables
  it has read: the blank line forgets the header and the final check asks only whether a
  header is active, not whether one was seen.
\<close>

theorem parse_readelf_syms_trailing_blank:
  assumes "py_splitlines out = ls @ [l]" and "strip_localentry (py_strip l) = []"
  shows "\<exists>e. parse_readelf_syms vis f out = Inl e"
proof (cases "fold_result (symtab_line vis) ls \<lparr>sp_toc = None, sp_syms = [], sp_seen = []\<rparr>")
  case (Inl e)
  then show ?thesis using assms(1) by (simp add: parse_readelf_syms_def fold_result_append)
next
  case (Inr st)
  then show ?thesis
    using assms by (simp add: parse_readelf_syms_def fold_result_append symtab_line_def)
qed

theorem parse_readelf_syms_trailing_blank_witness:
  "\<exists>e. parse_readelf_syms [(''foo'', ''DEFAULT'')] ''libx.so'' (ex_symtab @ [nl]) = Inl e"
  using parse_readelf_syms_trailing_blank [where out = "ex_symtab @ [nl]" and l = "[]" and
      ls = "[''Num: Value Size Type Bind Vis Ndx Name'', ''1: 1139 11 FUNC GLOBAL DEFAULT 12 foo@@V1'',
             ''2: 1139 11 FUNC GLOBAL DEFAULT 12 foo@@V1'']" and vis = "[(''foo'', ''DEFAULT'')]" and f = "''libx.so''"]
  by (simp add: py_simps)

lemma map_of_fold_vis:
  "map_of (fold (\<lambda>line vis. let parts = py_split line in
                      if 3 \<le> length parts
                      then AList.update (parts ! 2) (if py_isupper (parts ! 1) then ''DEFAULT'' else ''HIDDEN'') vis
                      else vis) ls vis0) n =
   (case filter (\<lambda>p. 3 \<le> length p \<and> p ! 2 = n) (map py_split ls) of
      [] \<Rightarrow> map_of vis0 n
    | ps \<Rightarrow> Some (if py_isupper (last ps ! 1) then ''DEFAULT'' else ''HIDDEN''))"
proof (induction ls rule: rev_induct)
  case Nil
  then show ?case by simp
next
  case (snoc l ls)
  then show ?case
    by (auto simp: Let_def update_conv' split: list.splits)
qed

text \<open>
  C19. The visibility of a name is decided by the last \<open>nm\<close> line that names it: an
  upper-case type letter gives \<open>DEFAULT\<close>, any other \<open>HIDDEN\<close>; a name \<open>nm\<close> does not list
  is \<open>DEFAULT\<close>.
\<close>

theorem nm_visibility_last_line:
  "vis_get (nm_visibility out) n =
     (case filter (\<lambda>p. 3 \<le> length p \<and> p ! 2 = n) (map py_split (py_splitlines out)) of
        [] \<Rightarrow> ''DEFAULT''
      | ps \<Rightarrow> (if py_isupper (last ps ! 1) then ''DEFAULT'' else ''HIDDEN''))"
  by (simp add: vis_get_def nm_visibility_def map_of_fold_vis split: list.split)

end
