(* ===== verification/DefFile.thy ===== *)
theory DefFile
  imports Emitter ElfSyms
begin

text \<open>
  The readers of \<open>implib-gen.py\<close> that give the library its name and, for a def file, its
  symbols: \<open>collect_def_exports\<close> (lines 231-277), \<open>read_soname\<close> (523-546) and
  \<open>read_library_name\<close> (549-563). A text file is given by its decoded contents, \<open>None\<close>
  when \<open>open\<close> or the UTF-8 decoding fails (the \<open>IOError\<close> and \<open>UnicodeDecodeError\<close>
  the code catches). The nested loops of the def-file reader, with the line they push back,
  are shown equal to a one-pass state machine over the lines (\<open>def_spec\<close>).
\<close>

section \<open>Reading a text file\<close>

text \<open>
  \<open>f.readlines()\<close> in text mode: the newlines are translated first, then the text is cut
  after every \<open>\n\<close>, which each line keeps; a last line without newline is kept as it is.
\<close>

definition py_readlines :: "string \<Rightarrow> string list" where
  "py_readlines s =
     (let ps = split_on nl (universal_newlines s)
      in map (\<lambda>l. l @ [nl]) (butlast ps) @ (if last ps = [] then [] else [last ps]))"

text \<open>The first line for which a matcher succeeds: a \<open>for\<close> loop that \<open>return\<close>s.\<close>

fun first_match :: "('a \<Rightarrow> 'b option) \<Rightarrow> 'a list \<Rightarrow> 'b option" where
  "first_match f [] = None"
| "first_match f (x # xs) = (case f x of Some y \<Rightarrow> Some y | None \<Rightarrow> first_match f xs)"

section \<open>The def-file reader\<close>

text \<open>\<open>re.match(r"^\s*;", line)\<close>: a comment line.\<close>

definition def_comment :: "string \<Rightarrow> bool" where
  "def_comment l \<longleftrightarrow> (case dropWhile py_isspace l of c # _ \<Rightarrow> c = CHR '';'' | [] \<Rightarrow> False)"

text \<open>
  \<open>re.match(r"^\s+([A-Za-z0-9_]+)\s*$", line)\<close>: some white space, an identifier and
  white space up to the end. An identifier character is no white space, so the leading
  run and the identifier are the maximal runs; the trailing \<open>\s*\<close> takes the newline.
\<close>

definition def_ident :: "string \<Rightarrow> string option" where
  "def_ident l =
     (let r = dropWhile py_isspace l; n = takeWhile is_word_char r in
      if takeWhile py_isspace l \<noteq> [] \<and> n \<noteq> [] \<and> list_all py_isspace (dropWhile is_word_char r)
      then Some n else None)"

text \<open>
  The list \<open>lines\<close> is reversed and \<open>pop()\<close>ped, so the lines are consumed from the front
  of the file's list; \<open>lines.append(line)\<close> pushes the popped line back. The inner loop
  (lines 249-274) reads the block after an \<open>EXPORTS\<close> line: comments are skipped,
  identifiers collected, and the first other line is pushed back and ends the block.
\<close>

fun def_block :: "string list \<Rightarrow> string list \<Rightarrow> string list \<times> string list" where
  "def_block [] names = ([], names)"
| "def_block (l # ls) names =
     (if def_comment l then def_block ls names
      else (case def_ident l of
              None \<Rightarrow> (l # ls, names)
            | Some n \<Rightarrow> def_block ls (names @ [n])))"

text \<open>The outer loop (lines 244-274): skip to a line that is \<open>EXPORTS\<close> once stripped.\<close>

function def_scan :: "string list \<Rightarrow> string list \<Rightarrow> string list" where
  "def_scan [] names = names"
| "def_scan (l # ls) names =
     (if py_strip l \<noteq> ''EXPORTS'' then def_scan ls names
      else (case def_block ls names of (rest, names') \<Rightarrow> def_scan rest names'))"
  by pat_completeness auto
termination
proof (relation "measure (\<lambda>(ls, _). length ls)")
  fix l ls names rest names'
  assume blk: "(rest, names') = def_block ls names"
  have "\<And>r n'. def_block ls names = (r, n') \<Longrightarrow> length r \<le> length ls"
    by (induction ls names rule: def_block.induct) (auto split: if_splits option.splits intro: le_SucI)
  from this [OF blk [symmetric]] show "((rest, names'), l # ls, names) \<in> measure (\<lambda>(ls, _). length ls)"
    by simp
qed auto

text \<open>
  A symbol of a def file (lines 262-271). The dict has no \<open>Value\<close> key; the code reads it
  only for the classes of the vtable mode, which is refused for \<open>.def\<close> inputs, so it is
  \<open>0\<close> here.
\<close>

definition def_symbol :: "string \<Rightarrow> symbol" where
  "def_symbol n =
     \<lparr>sym_name = n, sym_value = 0, sym_size = 0, sym_type = ''FUNC'', sym_bind = ''GLOBAL'',
      sym_ndx = ''0'', sym_default = True, sym_version = None, sym_visibility = ''DEFAULT'',
      sym_demangled = None\<rparr>"

text \<open>
  \<open>collect_def_exports(filename)\<close>: a file that cannot be opened or decoded returns
  \<open>[]\<close> at once (line 241), without the warning; a readable file with no symbols warns
  (lines 274-275).
\<close>

definition collect_def_exports :: "string option \<Rightarrow> symbol list \<times> warning list" where
  "collect_def_exports content =
     (case content of
        None \<Rightarrow> ([], [])
      | Some txt \<Rightarrow>
          (let syms = map def_symbol (def_scan (py_readlines txt) [])
           in (syms, if syms = [] then [WNoDefSymbols] else [])))"

text \<open>
  What the def-file reader promises, as a state machine reading each line once: outside
  a block a line that strips to \<open>EXPORTS\<close> opens one; inside, comments are skipped,
  identifiers collected, and any other line closes the block and is read again outside,
  so that it may open the next block.
\<close>

fun def_spec :: "bool \<Rightarrow> string list \<Rightarrow> string list" where
  "def_spec _ [] = []"
| "def_spec False (l # ls) = (if py_strip l = ''EXPORTS'' then def_spec True ls else def_spec False ls)"
| "def_spec True (l # ls) =
     (if def_comment l then def_spec True ls
      else (case def_ident l of
              Some n \<Rightarrow> n # def_spec True ls
            | None \<Rightarrow> (if py_strip l = ''EXPORTS'' then def_spec True ls else def_spec False ls)))"

section \<open>The library name of a def file\<close>

text \<open>\<open>[A-Za-z0-9_.\-]\<close>.\<close>

definition is_libname_char :: "char \<Rightarrow> bool" where
  "is_libname_char c \<longleftrightarrow> is_word_char c \<or> c = CHR ''.'' \<or> c = CHR ''-''"

text \<open>
  \<open>re.match(r"^(?:LIBRARY|NAME)\s+([A-Za-z0-9_.\-]+)$", line)\<close> on a stripped line: the
  keyword, white space, and a name up to the end (a stripped line has no final newline).
\<close>

definition library_line :: "string \<Rightarrow> string option" where
  "library_line l =
     (let t = (if starts_with ''LIBRARY'' l then drop 7 l
               else if starts_with ''NAME'' l then drop 4 l else []);
          n = dropWhile py_isspace t in
      if takeWhile py_isspace t \<noteq> [] \<and> n \<noteq> [] \<and> list_all is_libname_char n then Some n else None)"

definition read_library_name :: "string option \<Rightarrow> string option" where
  "read_library_name content =
     (case content of
        None \<Rightarrow> None
      | Some txt \<Rightarrow> first_match (\<lambda>l. library_line (py_strip l)) (py_readlines txt))"

section \<open>The SONAME of a binary\<close>

text \<open>
  \<open>re.search(r"\(SONAME\).*\[(.+)\]", line)\<close>. The leftmost match starts at the first
  \<open>(SONAME)\<close>; the greedy \<open>.*\<close> then chooses the last \<open>[\<close> that has a \<open>]\<close> at least two
  places after it, and the greedy \<open>.+\<close> ends at the last \<open>]\<close>. The group is read on the
  reversed rest: after the last \<open>]\<close>, one character, then up to the next \<open>[\<close>.
\<close>

fun after_marker :: "string \<Rightarrow> string \<Rightarrow> string option" where
  "after_marker m [] = (if m = [] then Some [] else None)"
| "after_marker m (c # s) =
     (if starts_with m (c # s) then Some (drop (length m) (c # s)) else after_marker m s)"

definition bracket_group :: "string \<Rightarrow> string option" where
  "bracket_group t =
     (case dropWhile (\<lambda>c. c \<noteq> CHR '']'') (rev t) of
        _ # c # r \<Rightarrow>
          (if CHR ''['' \<in> set r then Some (rev (c # takeWhile (\<lambda>x. x \<noteq> CHR ''['') r)) else None)
      | _ \<Rightarrow> None)"

definition soname_line :: "string \<Rightarrow> string option" where
  "soname_line l = (case after_marker ''(SONAME)'' l of None \<Rightarrow> None | Some t \<Rightarrow> bracket_group t)"

text \<open>
  \<open>read_soname(f)\<close>: a file that \<open>file\<close> calls \<open>Mach-O\<close> is named by its basename (only
  \<open>OSError\<close> of that call is caught); else the first non-empty stripped line of
  \<open>readelf -d\<close> with a SONAME match gives the name.
\<close>

definition read_soname :: "tools \<Rightarrow> string \<Rightarrow> string option result" where
  "read_soname tools f =
     (case file_mentions tools f ''Mach-O'' of
        Inl e \<Rightarrow> Inl e
      | Inr True \<Rightarrow> Inr (Some (basename f))
      | Inr False \<Rightarrow>
          (case run tools [''readelf'', ''-d'', f] [] of
             Inl e \<Rightarrow> Inl e
           | Inr (out, _) \<Rightarrow>
               Inr (first_match (\<lambda>l. let l' = py_strip l in if l' = [] then None else soname_line l')
                      (py_splitlines out))))"

section \<open>Worked examples\<close>

text \<open>The def file of scenario 2 of the specification, and a \<open>readelf -d\<close> listing.\<close>

abbreviation ex_def_file :: string where
  "ex_def_file \<equiv> ''LIBRARY foo.so.1'' @ [nl] @ ''EXPORTS'' @ [nl] @ ''  alpha'' @ [nl] @ ''  beta'' @ [nl] @
                  ''  ; comment'' @ [nl]"

abbreviation ex_dynamic :: string where
  "ex_dynamic \<equiv> '' 0x01 (NEEDED) Shared library: [libc.so.6]'' @ [nl] @
                 '' 0x0e (SONAME) Library soname: [libx.so.1]'' @ [nl]"

abbreviation ex_elf_tools :: tools where
  "ex_elf_tools \<equiv> (\<lambda>args stdin.
     if args = [''file'', ''libx.so''] then Exec 0 ''libx.so: ELF 64-bit LSB shared object'' []
     else if args = [''readelf'', ''-d'', ''libx.so''] then Exec 0 ex_dynamic []
     else NotFound)"

section \<open>Properties\<close>

subsection \<open>Reading lines\<close>

lemma universal_newlines_id: "CHR 0x0D \<notin> set s \<Longrightarrow> universal_newlines s = s"
  by (induction s rule: universal_newlines.induct) auto

lemma split_on_lines:
  "\<forall>l \<in> set ls. d \<notin> set l \<Longrightarrow> split_on d (concat (map (\<lambda>l. l @ [d]) ls)) = ls @ [[]]"
  by (induction ls) (simp_all add: split_on_append_sep)

lemma py_readlines_lines:
  assumes "\<forall>l \<in> set ls. nl \<notin> set l \<and> CHR 0x0D \<notin> set l"
  shows "py_readlines (concat (map (\<lambda>l. l @ [nl]) ls)) = map (\<lambda>l. l @ [nl]) ls"
proof -
  have "universal_newlines (concat (map (\<lambda>l. l @ [nl]) ls)) = concat (map (\<lambda>l. l @ [nl]) ls)"
    using assms by (intro universal_newlines_id) auto
  moreover have "split_on nl (concat (map (\<lambda>l. l @ [nl]) ls)) = ls @ [[]]"
    using assms by (intro split_on_lines) auto
  ultimately show ?thesis by (simp add: py_readlines_def)
qed

lemma first_match_append:
  "first_match f (xs @ ys) = (case first_match f xs of None \<Rightarrow> first_match f ys | Some y \<Rightarrow> Some y)"
  by (induction xs) (auto split: option.splits)

lemma first_match_None: "first_match f xs = None \<longleftrightarrow> (\<forall>x \<in> set xs. f x = None)"
  by (induction xs) (auto split: option.splits)

subsection \<open>The def-file reader against its one-pass specification\<close>

lemma def_block_spec:
  "def_block ls names = (rest, names') \<Longrightarrow> names' @ def_spec False rest = names @ def_spec True ls"
  by (induction ls names rule: def_block.induct) (auto split: if_splits option.splits)

lemma def_scan_refines: "def_scan ls names = names @ def_spec False ls"
proof (induction ls names rule: def_scan.induct)
  case (2 l ls names)
  then show ?case
    by (auto split: prod.splits dest: def_block_spec)
qed simp

lemma def_ident_Some: "def_ident l = Some n \<Longrightarrow> n \<noteq> [] \<and> list_all is_word_char n"
  by (auto simp: def_ident_def Let_def list_all_iff dest: set_takeWhileD split: if_splits)

lemma def_spec_names: "n \<in> set (def_spec b ls) \<Longrightarrow> n \<noteq> [] \<and> list_all is_word_char n"
  by (induction b ls rule: def_spec.induct) (auto split: if_splits option.splits dest: def_ident_Some)

lemma def_spec_skip:
  "\<forall>l \<in> set pre. py_strip l \<noteq> ''EXPORTS'' \<Longrightarrow> def_spec False (pre @ ls) = def_spec False ls"
  by (induction pre) auto

lemma def_ident_line:
  assumes "ind \<noteq> []" "list_all py_isspace ind" "n \<noteq> []" "list_all is_word_char n"
  shows "def_ident (ind @ n @ [nl]) = Some n \<and> \<not> def_comment (ind @ n @ [nl])"
proof -
  obtain c n' where n: "n = c # n'" using assms(3) by (cases n) auto
  have c: "\<not> py_isspace c" "c \<noteq> CHR '';''"
    using assms(4) n by (auto dest: word_char_not_space word_char_not_semicolon)
  have ind: "dropWhile py_isspace (ind @ n @ [nl]) = n @ [nl]" "takeWhile py_isspace (ind @ n @ [nl]) = ind"
    using assms(2) n c by (simp_all add: list_all_iff dropWhile_append3 takeWhile_append2)
  have "takeWhile is_word_char (n @ [nl]) = n" "dropWhile is_word_char (n @ [nl]) = [nl]"
    using assms(4) by (simp_all add: list_all_iff takeWhile_append2 dropWhile_append2)
  then show ?thesis
    using ind assms(1) n c by (simp add: def_ident_def def_comment_def py_isspace_def)
qed

lemma def_spec_block:
  assumes "ind \<noteq> []" "list_all py_isspace ind" "\<forall>n \<in> set ns. n \<noteq> [] \<and> list_all is_word_char n"
  shows "def_spec True (map (\<lambda>n. ind @ n @ [nl]) ns) = ns"
  using assms(3) by (induction ns) (simp_all add: def_ident_line [OF assms(1,2)])

lemma exports_line: "py_strip (''EXPORTS'' @ [nl]) = ''EXPORTS''" "nl \<notin> set ''EXPORTS''" "CHR 0x0D \<notin> set ''EXPORTS''"
  by (simp_all add: py_strip_def py_isspace_def)

lemma def_file_example:
  "collect_def_exports (Some ex_def_file) = ([def_symbol ''alpha'', def_symbol ''beta''], [])"
  by (simp add: collect_def_exports_def def_scan_refines py_readlines_def def_comment_def def_ident_def
                py_simps)

lemma library_name_example: "read_library_name (Some ex_def_file) = Some ''foo.so.1''"
  by (simp add: read_library_name_def py_readlines_def library_line_def py_simps is_libname_char_def)

text \<open>
  C37. The def-file reader, two nested loops that push the line ending a block back onto
  the input, computes what the one-pass state machine \<open>def_spec\<close> reads from the file's
  lines: the line that closes a block is read again and may open the next one; the
  warning comes exactly when a readable file gives no symbols, and an unreadable file
  gives no symbols and no warning.
\<close>

theorem collect_def_exports_refines:
  "collect_def_exports content =
     (case content of
        None \<Rightarrow> ([], [])
      | Some str \<Rightarrow>
          (let names = def_spec False (py_readlines str)
           in (map def_symbol names, if names = [] then [WNoDefSymbols] else [])))"
  by (simp add: collect_def_exports_def def_scan_refines split: option.split)

text \<open>
  C38. A def file of arbitrary leading lines, an \<open>EXPORTS\<close> line and one indented
  identifier per line is read back as exactly those identifiers, in order, each as a
  global default-version function symbol; the warning is given only for an empty block.
\<close>

theorem collect_def_exports_roundtrip:
  assumes "\<forall>l \<in> set pre. nl \<notin> set l \<and> CHR 0x0D \<notin> set l \<and> py_strip l \<noteq> ''EXPORTS''"
    and "ind \<noteq> []" and "list_all py_isspace ind" and "nl \<notin> set ind" and "CHR 0x0D \<notin> set ind"
    and "\<forall>n \<in> set ns. n \<noteq> [] \<and> list_all is_word_char n"
  shows "collect_def_exports (Some (concat (map (\<lambda>l. l @ [nl]) pre) @ ''EXPORTS'' @ [nl] @
                                    concat (map (\<lambda>n. ind @ n @ [nl]) ns))) =
         (map def_symbol ns, if ns = [] then [WNoDefSymbols] else [])"
proof -
  let ?ls = "pre @ ''EXPORTS'' # map (\<lambda>n. ind @ n) ns"
  have nw: "\<forall>n \<in> set ns. nl \<notin> set n \<and> CHR 0x0D \<notin> set n"
    using assms(6) word_char_not_break by (fastforce simp: list_all_iff)
  have flat: "concat (map (\<lambda>l. l @ [nl]) pre) @ ''EXPORTS'' @ [nl] @ concat (map (\<lambda>n. ind @ n @ [nl]) ns) =
              concat (map (\<lambda>l. l @ [nl]) ?ls)"
    by (simp add: comp_def)
  have "\<forall>l \<in> set (?ls). nl \<notin> set l \<and> CHR 0x0D \<notin> set l"
    using assms(1,4,5) nw exports_line(2,3) by auto
  then have rl: "py_readlines (concat (map (\<lambda>l. l @ [nl]) ?ls)) = map (\<lambda>l. l @ [nl]) ?ls"
    by (rule py_readlines_lines)
  have nlsp: "py_isspace nl" by (simp add: py_isspace_def)
  have "\<forall>l \<in> set (map (\<lambda>l. l @ [nl]) pre). py_strip l \<noteq> ''EXPORTS''"
    using assms(1) by (auto simp: py_strip_snoc_space [OF nlsp])
  then have "def_spec False (map (\<lambda>l. l @ [nl]) ?ls) =
             def_spec False (map (\<lambda>l. l @ [nl]) (''EXPORTS'' # map (\<lambda>n. ind @ n) ns))"
    by (simp only: map_append def_spec_skip)
  also have "\<dots> = ns"
    using def_spec_block [OF assms(2,3,6)] exports_line(1) by (simp add: comp_def)
  finally have spec: "def_spec False (map (\<lambda>l. l @ [nl]) ?ls) = ns" .
  have "collect_def_exports (Some (concat (map (\<lambda>l. l @ [nl]) ?ls))) =
        (map def_symbol ns, if ns = [] then [WNoDefSymbols] else [])"
    by (simp only: collect_def_exports_def rl def_scan_refines spec option.case append_Nil Let_def
                   map_is_Nil_conv)
  then show ?thesis by (simp only: flat)
qed

theorem collect_def_exports_roundtrip_witness:
  "collect_def_exports (Some (''LIBRARY foo.so.1'' @ [nl] @ ''EXPORTS'' @ [nl] @ ''  alpha'' @ [nl] @ ''  beta'' @ [nl])) =
   ([def_symbol ''alpha'', def_symbol ''beta''], [])"
  using collect_def_exports_roundtrip [of "[''LIBRARY foo.so.1'']" "''  ''" "[''alpha'', ''beta'']"]
  by (simp add: py_simps)

text \<open>
  C39. Every symbol read from a def file is a global, default-version \<open>FUNC\<close> symbol of
  default visibility whose name is a non-empty identifier of \<open>[A-Za-z0-9_]\<close>; it passes
  the export filter exactly when it is not \<open>_init\<close> or \<open>_fini\<close>, whatever the options.
\<close>

theorem def_symbols_wellformed:
  assumes "s \<in> set (fst (collect_def_exports content))"
  shows "sym_name s \<noteq> [] \<and> list_all is_word_char (sym_name s) \<and>
         sym_type s = ''FUNC'' \<and> sym_bind s = ''GLOBAL'' \<and> sym_visibility s = ''DEFAULT'' \<and>
         sym_default s \<and> sym_version s = None \<and>
         (is_exported args s \<longleftrightarrow> sym_name s \<notin> {''_init'', ''_fini''})"
proof -
  obtain str n where s: "s = def_symbol n" and n: "n \<in> set (def_spec False (py_readlines str))"
    using assms by (auto simp: collect_def_exports_def def_scan_refines split: option.splits)
  have "n \<noteq> [] \<and> list_all is_word_char n" using n by (rule def_spec_names)
  then show ?thesis
    by (simp add: s def_symbol_def is_exported_def)
qed

theorem def_symbols_wellformed_witness:
  "def_symbol ''alpha'' \<in> set (fst (collect_def_exports (Some ex_def_file))) \<and>
   is_exported (default_options ''x86_64'') (def_symbol ''alpha'')"
proof -
  have mem: "def_symbol ''alpha'' \<in> set (fst (collect_def_exports (Some ex_def_file)))"
    unfolding def_file_example by simp
  show ?thesis
    using mem def_symbols_wellformed [OF mem, of "default_options ''x86_64''"] by (simp add: def_symbol_def)
qed

subsection \<open>The SONAME\<close>

lemma after_marker_found: "\<exists>v. after_marker m (p @ m @ s) = Some (v @ s)"
proof (induction p)
  case Nil
  show ?case
  proof (cases "m @ s")
    case Nil
    then show ?thesis by simp
  next
    case (Cons c r)
    then show ?thesis by (simp add: starts_with_def) (metis append_eq_conv_conj append.left_neutral)
  qed
next
  case (Cons a p)
  have "drop (length m) ((a # p @ m) @ s) = drop (length m) (a # p @ m) @ s"
    by (simp only: drop_append) simp
  then show ?case using Cons.IH by (auto simp: starts_with_def)
qed

lemma bracket_group_name:
  assumes "n \<noteq> []" "CHR ''['' \<notin> set n" "CHR '']'' \<notin> set n"
  shows "bracket_group (v @ ''['' @ n @ '']'') = Some n"
proof -
  obtain c r where n: "rev n = c # r" using assms(1) by (cases "rev n") auto
  then have nr: "n = rev (c # r)" by (metis rev_rev_ident)
  have rv: "rev (v @ ''['' @ n @ '']'') = CHR '']'' # c # (r @ CHR ''['' # rev v)"
    using n by simp
  have "CHR ''['' \<notin> set r" using assms(2) nr by auto
  then have tw: "takeWhile (\<lambda>x. x \<noteq> CHR ''['') (r @ CHR ''['' # rev v) = r"
    by (induction r) auto
  show ?thesis
    unfolding bracket_group_def rv using tw nr by simp
qed

lemma soname_line_name:
  assumes "n \<noteq> []" "CHR ''['' \<notin> set n" "CHR '']'' \<notin> set n"
  shows "soname_line (p @ ''(SONAME)'' @ q @ ''['' @ n @ '']'') = Some n"
proof -
  obtain v where "after_marker ''(SONAME)'' (p @ ''(SONAME)'' @ (q @ ''['' @ n @ '']'')) =
                  Some (v @ (q @ ''['' @ n @ '']''))"
    using after_marker_found by blast
  then show ?thesis
    using bracket_group_name [OF assms, of "v @ q"] by (simp add: soname_line_def)
qed

text \<open>
  C40. For a file that \<open>file\<close> does not call \<open>Mach-O\<close>, the SONAME is the bracketed
  name of the first line of \<open>readelf -d\<close> with a \<open>(SONAME)\<close> match, for any name
  without brackets, whatever precedes and separates the marker and the brackets.
\<close>

theorem read_soname_elf:
  assumes "file_mentions tools f ''Mach-O'' = Inr False"
    and "tools [''readelf'', ''-d'', f] [] = Exec 0 out []"
    and "py_splitlines out = ls @ l # rest"
    and "\<forall>x \<in> set ls. soname_line (py_strip x) = None"
    and "py_strip l = p @ ''(SONAME)'' @ q @ ''['' @ n @ '']''"
    and "n \<noteq> []" "CHR ''['' \<notin> set n" "CHR '']'' \<notin> set n"
  shows "read_soname tools f = Inr (Some n)"
proof -
  let ?m = "\<lambda>l. let l' = py_strip l in if l' = [] then None else soname_line l'"
  have "first_match ?m ls = None"
    using assms(4) by (auto simp: first_match_None Let_def)
  moreover have "?m l = Some n"
    using assms(5) soname_line_name [OF assms(6-8)] by (simp add: Let_def)
  ultimately have "first_match ?m (py_splitlines out) = Some n"
    using assms(3) by (simp add: first_match_append)
  then show ?thesis
    using assms(1,2) by (simp add: read_soname_def run_def)
qed

theorem read_soname_elf_witness: "read_soname ex_elf_tools ''libx.so'' = Inr (Some ''libx.so.1'')"
  using read_soname_elf [of ex_elf_tools "''libx.so''" ex_dynamic "['' 0x01 (NEEDED) Shared library: [libc.so.6]'']"
          "'' 0x0e (SONAME) Library soname: [libx.so.1]''" "[]" "''0x0e ''" "'' Library soname: ''" "''libx.so.1''"]
  by (simp add: file_mentions_def run_def py_simps soname_line_def)

end
