(* ===== verification/Frontend.thy ===== *)
theory Frontend
  imports DefFile
begin

text \<open>
  The front half of \<open>main()\<close> in \<open>implib-gen.py\<close> (lines 736-836): the input is
  classified (\<open>is_binary_file\<close>), its stem and load name are found (\<open>read_soname\<close> or
  \<open>read_library_name\<close>), its symbols are read (\<open>collect_syms\<close> or
  \<open>collect_def_exports\<close>), demangled through \<open>c++filt\<close> and filtered into the function
  list (\<open>collect_functions\<close>). Each step is the component's definition; an error of a step
  ends the run with that error. The architecture lookup of lines 752-763 sits between the
  load name and the symbols; it depends on no earlier step, so it is passed in as its
  result \<open>arch\<close> (\<open>arch_info\<close> below) and checked at its place. The symbol list of
  \<open>--symbol-list\<close> is its parsed contents \<open>user\<close>.
\<close>

record front_result =
  fe_binary :: bool
  fe_stem :: string
  fe_load_name :: string
  fe_syms :: "symbol list"
  fe_funs :: "string list"
  fe_warnings :: "warning list"
  fe_ptr_size :: int
  fe_reloc_types :: "string list"

text \<open>
  The architecture of lines 752-763. \<open>os.path.exists(root/arch/target)\<close> is membership in
  the list \<open>arch_dirs\<close> of the directories under \<open>arch/\<close>; \<open>config\<close> gives each such
  directory's \<open>config.ini\<close> as \<open>configparser\<close> reads it, sections with their options in
  file order, option names in \<open>configparser\<close>'s lower case (a missing file reads as no
  sections). \<open>int()\<close> of the pointer size may fail; \<open>set(re.split(r"\s*,\s*", ...))\<close> is
  kept as the list of its members.
\<close>

type_synonym ini = "(string \<times> (string \<times> string) list) list"

text \<open>
  \<open>re.split(r"\s*,\s*", s)\<close>: the fields between commas, losing the white space next to
  each comma (a match starts where the white space before a comma starts).
\<close>

definition split_comma_ws :: "string \<Rightarrow> string list" where
  "split_comma_ws s =
     (let fs = split_on CHR '','' s; n = length fs in
      map (\<lambda>(i, f). let f' = (if Suc i < n then rev (dropWhile py_isspace (rev f)) else f) in
                     if 0 < i then dropWhile py_isspace f' else f')
        (zip [0..<n] fs))"

definition arch_info :: "string list \<Rightarrow> (string \<Rightarrow> ini) \<Rightarrow> string \<Rightarrow> (int \<times> string list) result" where
  "arch_info arch_dirs config target =
     (if target \<notin> set arch_dirs then Inl (Fatal (''unknown architecture '' @ [CHR 0x27] @ target @ [CHR 0x27]))
      else (case map_of (config target) ''Arch'' of
              None \<Rightarrow> Inl KeyError
            | Some sec \<Rightarrow>
                (case map_of sec ''pointersize'' of
                   None \<Rightarrow> Inl KeyError
                 | Some ps \<Rightarrow>
                     (case py_int ps 10 of
                        None \<Rightarrow> Inl ValueError
                      | Some p \<Rightarrow>
                          (case map_of sec ''symbolreloc'' of
                             None \<Rightarrow> Inl KeyError
                           | Some sr \<Rightarrow> Inr (p, split_comma_ws sr))))))"

text \<open>
  Lines 741-750: an explicit \<open>--library-load-name\<close> wins; a binary asks \<open>read_soname\<close>
  (which runs programs and may fail), a def file \<open>read_library_name\<close>.
\<close>

definition resolve_load_name ::
  "tools \<Rightarrow> options \<Rightarrow> bool \<Rightarrow> string \<Rightarrow> string option \<Rightarrow> string \<Rightarrow> string result" where
  "resolve_load_name tools args binary f content stem =
     (if opt_library_load_name args = None \<and> binary then
        (case read_soname tools f of
           Inl e \<Rightarrow> Inl e
         | Inr so \<Rightarrow> Inr (choose_load_name args binary so None stem))
      else Inr (choose_load_name args binary None (read_library_name content) stem))"

text \<open>Lines 777-780: the symbols of a binary or of a def file, with the reader's warnings.\<close>

definition symbol_source ::
  "tools \<Rightarrow> bool \<Rightarrow> string \<Rightarrow> string option \<Rightarrow> (symbol list \<times> warning list) result" where
  "symbol_source tools binary f content =
     (if binary then (case collect_syms tools f of Inl e \<Rightarrow> Inl e | Inr syms \<Rightarrow> Inr (syms, []))
      else Inr (collect_def_exports content))"

text \<open>Lines 782-787: the names go through \<open>c++filt\<close> when there are any.\<close>

definition demangle :: "tools \<Rightarrow> symbol list \<Rightarrow> symbol list result" where
  "demangle tools syms =
     (if syms = [] then Inr syms
      else (case run tools [''c++filt''] (demangler_input syms) of
              Inl e \<Rightarrow> Inl e
            | Inr (out, _) \<Rightarrow> attach_demangled syms out))"

definition frontend ::
  "tools \<Rightarrow> options \<Rightarrow> string list option \<Rightarrow> string \<Rightarrow> string option \<Rightarrow> (int \<times> string list) result \<Rightarrow>
   front_result result" where
  "frontend tools args user f content arch =
     (case is_binary_file tools f of
        Inl e \<Rightarrow> Inl e
      | Inr binary \<Rightarrow>
          (let stem = input_stem binary f in
           case resolve_load_name tools args binary f content stem of
             Inl e \<Rightarrow> Inl e
           | Inr load_name \<Rightarrow>
               (case arch of
                  Inl e \<Rightarrow> Inl e
                | Inr (ptr_size, reloc_types) \<Rightarrow>
                    (case symbol_source tools binary f content of
                       Inl e \<Rightarrow> Inl e
                     | Inr (syms0, w0) \<Rightarrow>
                         (case demangle tools syms0 of
                            Inl e \<Rightarrow> Inl e
                          | Inr syms1 \<Rightarrow>
                              (case collect_functions args user syms1 of
                                 Inl e \<Rightarrow> Inl e
                               | Inr (syms, funs, ws) \<Rightarrow>
                                   Inr \<lparr>fe_binary = binary, fe_stem = stem, fe_load_name = load_name,
                                        fe_syms = syms, fe_funs = funs, fe_warnings = w0 @ ws,
                                        fe_ptr_size = ptr_size, fe_reloc_types = reloc_types\<rparr>))))))"

text \<open>
  Tools for a def file: \<open>readelf\<close> rejects it, \<open>file\<close> calls it text, and \<open>c++filt\<close>
  echoes names that are not mangled.
\<close>

abbreviation ex_text_tools :: tools where
  "ex_text_tools \<equiv> (\<lambda>args stdin.
     if args = [''readelf'', ''-d'', ''/tmp/foo.def''] then Exec 1 [] ''readelf: Error: Not an ELF file''
     else if args = [''file'', ''/tmp/foo.def''] then Exec 0 ''/tmp/foo.def: ASCII text'' []
     else if args = [''c++filt''] then Exec 0 stdin []
     else NotFound)"

section \<open>Properties\<close>

lemma def_names_ok:
  "\<forall>s \<in> set (map def_symbol (def_spec False ls)). sym_name s \<noteq> [] \<and> nl \<notin> set (sym_name s)"
  using def_spec_names word_char_not_break by (fastforce simp: def_symbol_def list_all_iff)

lemma demangle_echo:
  assumes "\<And>s. tools [''c++filt''] s = Exec 0 s []"
    and "\<forall>s \<in> set syms. sym_name s \<noteq> [] \<and> nl \<notin> set (sym_name s)"
  shows "demangle tools syms = Inr (map (\<lambda>s. s\<lparr>sym_demangled := Some (sym_name s)\<rparr>) syms)"
proof (cases "syms = []")
  case False
  then show ?thesis
    using split_demangler_input [OF False assms(2)] assms(1)
    by (simp add: demangle_def run_def attach_demangled_def zip_map2 map_zip_map case_prod_beta zip_same_conv_map)
qed (simp add: demangle_def)

lemma is_binary_file_text:
  assumes "tools [''readelf'', ''-d'', f] [] = Exec rc out err" "rc \<noteq> 0"
    and "tools [''file'', f] [] = Exec rc' fout err'"
    and "\<not> str_contains ''Mach-O'' fout" "\<not> str_contains ''shared library'' fout"
  shows "is_binary_file tools f = Inr False"
  using assms by (simp add: is_binary_file_def)

lemma def_symbol_demangled:
  "sym_name ((def_symbol n)\<lparr>sym_demangled := d\<rparr>) = n \<and>
   sym_type ((def_symbol n)\<lparr>sym_demangled := d\<rparr>) = ''FUNC'' \<and>
   sym_default ((def_symbol n)\<lparr>sym_demangled := d\<rparr>) \<and>
   (is_exported args ((def_symbol n)\<lparr>sym_demangled := d\<rparr>) \<longleftrightarrow> n \<notin> {'''', ''_init'', ''_fini''})"
  by (simp add: def_symbol_def is_exported_def)

lemma def_funs_set:
  "sym_name ` {s \<in> set (filter (\<lambda>s. sym_type s = ''FUNC'')
                  (filter (is_exported args) (map (\<lambda>s. s\<lparr>sym_demangled := Some (sym_name s)\<rparr>)
                     (map def_symbol (def_spec False ls))))). sym_default s} =
   set (def_spec False ls) - {''_init'', ''_fini''}"
  (is "?l = ?r")
proof -
  let ?D = "\<lambda>n. (def_symbol n)\<lparr>sym_demangled := Some n\<rparr>"
  have m: "map (\<lambda>s. s\<lparr>sym_demangled := Some (sym_name s)\<rparr>) (map def_symbol (def_spec False ls)) =
           map ?D (def_spec False ls)"
    by (simp add: def_symbol_def)
  have "?l = sym_name ` ?D ` {n \<in> set (def_spec False ls). n \<notin> {'''', ''_init'', ''_fini''}}"
    unfolding m by (auto simp: def_symbol_demangled)
  also have "\<dots> = {n \<in> set (def_spec False ls). n \<notin> {'''', ''_init'', ''_fini''}}"
    by (auto simp: def_symbol_demangled image_image)
  also have "\<dots> = ?r"
    using def_spec_names [of _ False ls] by auto
  finally show ?thesis .
qed


lemma def_spec_example: "def_spec False (py_readlines ex_def_file) = [''alpha'', ''beta'']"
  by (simp add: py_readlines_def def_comment_def def_ident_def py_simps)

text \<open>The front half returns on a def file that the tools classify as text.\<close>

lemma frontend_def_file_Inr:
  assumes "tools [''readelf'', ''-d'', f] [] = Exec rc out err" "rc \<noteq> 0"
    and "tools [''file'', f] [] = Exec rc' fout err'"
    and "\<not> str_contains ''Mach-O'' fout" "\<not> str_contains ''shared library'' fout"
    and "\<And>s. tools [''c++filt''] s = Exec 0 s []"
    and "opt_library_load_name args = None"
  shows "\<exists>r. frontend tools args None f (Some str) (Inr (p, rt)) = Inr r"
proof -
  let ?syms0 = "map def_symbol (def_spec False (py_readlines str))"
  let ?syms1 = "map (\<lambda>s. s\<lparr>sym_demangled := Some (sym_name s)\<rparr>) ?syms0"
  have bin: "is_binary_file tools f = Inr False" using assms(1-5) by (rule is_binary_file_text)
  have dm: "demangle tools ?syms0 = Inr ?syms1"
    using assms(6) def_names_ok by (rule demangle_echo)
  have "exported_data args (filter (is_exported args) ?syms1) = Inr []"
    by (subst exported_data_Inr) (auto simp: def_symbol_def is_data_symbol_def)
  then obtain r where "collect_functions args None ?syms1 = Inr r"
    by (simp add: collect_functions_Inr_iff)
  with bin dm assms(7) show ?thesis
    by (auto simp: frontend_def resolve_load_name_def symbol_source_def collect_def_exports_def
        def_scan_refines Let_def split: option.splits prod.splits)
qed

text \<open>
  C22. The front half of the pipeline on a def file: when \<open>readelf\<close> rejects the input,
  \<open>file\<close> does not call it \<open>Mach-O\<close> or a shared library, and \<open>c++filt\<close> echoes
  plain names, the run is not aborted, the input is treated as text, the load name is
  the \<open>LIBRARY\<close>/\<open>NAME\<close> of the file or else the stem, and the function list is
  sorted, duplicate-free and consists of exactly the names of the \<open>EXPORTS\<close> blocks
  other than \<open>_init\<close> and \<open>_fini\<close>.
\<close>

theorem frontend_def_file:
  assumes "tools [''readelf'', ''-d'', f] [] = Exec rc out err" "rc \<noteq> 0"
    and "tools [''file'', f] [] = Exec rc' fout err'"
    and "\<not> str_contains ''Mach-O'' fout" "\<not> str_contains ''shared library'' fout"
    and "\<And>s. tools [''c++filt''] s = Exec 0 s []"
    and "opt_library_load_name args = None"
  shows "\<exists>r. frontend tools args None f (Some str) (Inr (p, rt)) = Inr r \<and> \<not> fe_binary r \<and> fe_ptr_size r = p \<and>
             fe_load_name r = (case read_library_name (Some str) of Some n \<Rightarrow> n | None \<Rightarrow> input_stem False f) \<and>
             set (fe_funs r) = set (def_spec False (py_readlines str)) - {''_init'', ''_fini''} \<and>
             sorted (fe_funs r) \<and> distinct (fe_funs r)"
proof -
  let ?names = "def_spec False (py_readlines str)"
  let ?syms0 = "map def_symbol ?names"
  let ?syms1 = "map (\<lambda>s. s\<lparr>sym_demangled := Some (sym_name s)\<rparr>) ?syms0"
  let ?ex = "filter (\<lambda>s. sym_type s = ''FUNC'') (filter (is_exported args) ?syms1)"
  have bin: "is_binary_file tools f = Inr False" using assms(1-5) by (rule is_binary_file_text)
  have src: "symbol_source tools False f (Some str) =
               Inr (?syms0, if ?syms0 = [] then [WNoDefSymbols] else [])"
    by (simp add: symbol_source_def collect_def_exports_def def_scan_refines)
  have dm: "demangle tools ?syms0 = Inr ?syms1"
    using assms(6) def_names_ok by (rule demangle_echo)
  have data: "exported_data args (filter (is_exported args) ?syms1) = Inr []"
    by (subst exported_data_Inr) (auto simp: def_symbol_def is_data_symbol_def)
  let ?funs = "sort (fst (collect_all_funs ?ex [] False []))"
  obtain ws where cf: "collect_functions args None ?syms1 = Inr (filter (is_exported args) ?syms1, ?funs, ws)"
    using data by (simp add: collect_functions_Inr_iff select_funs_def Let_def)
  have funs: "set ?funs = set ?names - {''_init'', ''_fini''} \<and> sorted ?funs \<and> distinct ?funs"
    using def_funs_set [of args "py_readlines str"] by (simp add: collect_all_funs_set collect_all_funs_distinct)
  show ?thesis
    using bin src dm cf funs assms(7)
    by (simp add: frontend_def resolve_load_name_def choose_load_name_def Let_def split: option.splits)
qed

theorem frontend_def_file_witness:
  "\<exists>r. frontend ex_text_tools (default_options ''x86_64'') None ''/tmp/foo.def'' (Some ex_def_file)
         (Inr (8, [''R_X86_64_64''])) = Inr r \<and>
       \<not> fe_binary r \<and> fe_ptr_size r = 8 \<and> fe_load_name r = ''foo.so.1'' \<and> set (fe_funs r) = {''alpha'', ''beta''} \<and>
       sorted (fe_funs r) \<and> distinct (fe_funs r)"
  using frontend_def_file [of ex_text_tools "''/tmp/foo.def''" 1 "[]" "''readelf: Error: Not an ELF file''"
                             0 "''/tmp/foo.def: ASCII text''" "[]" "default_options ''x86_64''" ex_def_file
                             8 "[''R_X86_64_64'']"]
  unfolding library_name_example def_spec_example
  by (simp add: default_options_def py_simps)

end
