(* ===== verification/DefStep.thy ===== *)
theory DefStep
  imports DefFile "HOL-Library.Sublist"
begin

text \<open>
  The loop of \<open>collect_def_exports\<close> (lines 242-272) as a small-step transition system,
  one transition per \<open>pop()\<close> and test of the code. A state is the program point (the
  outer loop, the inner loop, or after both), the remaining lines (front first, as
  \<open>lines.reverse()\<close> and \<open>pop()\<close> consume them) and the names collected so far; the
  inner loop's \<open>lines.append(line); break\<close> is the transition that returns to the outer
  loop without consuming the line. \<open>def_next\<close> is the same transition as a function.
  The theory shows that the relation is deterministic, that from every state the final
  state is reached (the run ends), and that it ends with the names of \<open>def_scan\<close>.
\<close>

datatype def_pc = Outer | Inner | Finished

type_synonym def_state = "def_pc \<times> string list \<times> string list"

text \<open>The statements of the two loops: test, pop, collect, push back.\<close>

inductive def_step :: "def_state \<Rightarrow> def_state \<Rightarrow> bool" where
  outer_done: "def_step (Outer, [], ns) (Finished, [], ns)"
| outer_skip: "py_strip l \<noteq> ''EXPORTS'' \<Longrightarrow> def_step (Outer, l # ls, ns) (Outer, ls, ns)"
| outer_open: "py_strip l = ''EXPORTS'' \<Longrightarrow> def_step (Outer, l # ls, ns) (Inner, ls, ns)"
| inner_done: "def_step (Inner, [], ns) (Outer, [], ns)"
| inner_comment: "def_comment l \<Longrightarrow> def_step (Inner, l # ls, ns) (Inner, ls, ns)"
| inner_ident: "\<not> def_comment l \<Longrightarrow> def_ident l = Some n \<Longrightarrow> def_step (Inner, l # ls, ns) (Inner, ls, ns @ [n])"
| inner_push: "\<not> def_comment l \<Longrightarrow> def_ident l = None \<Longrightarrow> def_step (Inner, l # ls, ns) (Outer, l # ls, ns)"

code_pred def_step .

fun def_next :: "def_state \<Rightarrow> def_state option" where
  "def_next (Outer, [], ns) = Some (Finished, [], ns)"
| "def_next (Outer, l # ls, ns) =
     Some (if py_strip l = ''EXPORTS'' then (Inner, ls, ns) else (Outer, ls, ns))"
| "def_next (Inner, [], ns) = Some (Outer, [], ns)"
| "def_next (Inner, l # ls, ns) =
     Some (if def_comment l then (Inner, ls, ns)
           else (case def_ident l of Some n \<Rightarrow> (Inner, ls, ns @ [n]) | None \<Rightarrow> (Outer, l # ls, ns)))"
| "def_next (Finished, _, _) = None"

text \<open>
  A variant that every transition decreases (each line is read at most twice, once in
  each loop), and the result each state is bound to compute.
\<close>

fun def_measure :: "def_state \<Rightarrow> nat" where
  "def_measure (Outer, ls, _) = 2 * length ls + 1"
| "def_measure (Inner, ls, _) = 2 * length ls + 2"
| "def_measure (Finished, _, _) = 0"

fun def_result :: "def_state \<Rightarrow> string list" where
  "def_result (Outer, ls, ns) = ns @ def_spec False ls"
| "def_result (Inner, ls, ns) = ns @ def_spec True ls"
| "def_result (Finished, _, ns) = ns"

inductive_cases def_step_FinishedE [elim!]: "def_step (Finished, ls, ns) t"


lemma def_step_result: "def_step s t \<Longrightarrow> def_result t = def_result s"
  by (induction rule: def_step.induct) auto

lemma def_steps_result: "def_step\<^sup>*\<^sup>* s t \<Longrightarrow> def_result t = def_result s"
  by (induction rule: rtranclp_induct) (auto dest: def_step_result)

lemma def_step_iff: "def_step s t \<longleftrightarrow> def_next s = Some t"
proof
  show "def_step s t \<Longrightarrow> def_next s = Some t"
    by (induction rule: def_step.induct) auto
  show "def_next s = Some t \<Longrightarrow> def_step s t"
    by (induction s rule: def_next.induct) (auto intro: def_step.intros split: if_splits option.splits)
qed

lemma def_step_deterministic: "def_step s t \<Longrightarrow> def_step s u \<Longrightarrow> u = t"
  by (simp add: def_step_iff)

lemma def_step_progress:
  "fst s \<noteq> Finished \<Longrightarrow> \<exists>t. def_step s t \<and> def_measure t < def_measure s"
  unfolding def_step_iff
  by (induction s rule: def_next.induct) (auto split: option.splits)

lemma def_step_reaches_Finished: "\<exists>t. def_step\<^sup>*\<^sup>* s t \<and> fst t = Finished"
proof (induction "def_measure s" arbitrary: s rule: less_induct)
  case less
  show ?case
  proof (cases "fst s = Finished")
    case False
    then obtain t where "def_step s t" "def_measure t < def_measure s"
      using def_step_progress by blast
    with less obtain u where "def_step\<^sup>*\<^sup>* t u" "fst u = Finished" by blast
    then show ?thesis using \<open>def_step s t\<close> by (meson converse_rtranclp_into_rtranclp)
  qed blast
qed

lemma def_steps_final_unique:
  "def_step\<^sup>*\<^sup>* s t \<Longrightarrow> fst t = Finished \<Longrightarrow> def_step\<^sup>*\<^sup>* s u \<Longrightarrow> fst u = Finished \<Longrightarrow> u = t"
proof (induction arbitrary: u rule: converse_rtranclp_induct)
  case base
  then show ?case by (cases t; cases u) (auto elim: converse_rtranclpE)
next
  case (step s s')
  note IH = step.IH and first = step.hyps(1) and fin = step.prems(1) and ufin = step.prems(3)
  from step.prems(2) show ?case
  proof (cases rule: converse_rtranclpE)
    case base
    with first ufin show ?thesis by (cases s) auto
  next
    case (step s'')
    then have "s'' = s'" using def_step_deterministic [OF first] by blast
    with step show ?thesis using IH fin ufin by blast
  qed
qed

text \<open>
  An invariant of the run by rule induction: the lines left are a suffix of the lines at
  the start, and every name collected since is a non-empty \<open>[A-Za-z0-9_]\<close> identifier.
\<close>

lemma def_step_inv:
  "def_step s t \<Longrightarrow> suffix (fst (snd t)) (fst (snd s)) \<and>
     (\<exists>new. snd (snd t) = snd (snd s) @ new \<and> (\<forall>n \<in> set new. n \<noteq> [] \<and> list_all is_word_char n))"
  by (induction rule: def_step.induct) (auto dest: def_ident_Some simp: suffix_def)

lemma def_steps_inv:
  "def_step\<^sup>*\<^sup>* s t \<Longrightarrow> suffix (fst (snd t)) (fst (snd s)) \<and>
     (\<exists>new. snd (snd t) = snd (snd s) @ new \<and> (\<forall>n \<in> set new. n \<noteq> [] \<and> list_all is_word_char n))"
proof (induction rule: rtranclp_induct)
  case (step t u)
  obtain new1 where n1: "snd (snd t) = snd (snd s) @ new1"
      "\<forall>n \<in> set new1. n \<noteq> [] \<and> list_all is_word_char n" "suffix (fst (snd t)) (fst (snd s))"
    using step.IH by blast
  obtain new2 where n2: "snd (snd u) = snd (snd t) @ new2"
      "\<forall>n \<in> set new2. n \<noteq> [] \<and> list_all is_word_char n" "suffix (fst (snd u)) (fst (snd t))"
    using def_step_inv [OF step.hyps(2)] by blast
  have "suffix (fst (snd u)) (fst (snd s))" using n1(3) n2(3) by (auto simp: suffix_def)
  moreover have "snd (snd u) = snd (snd s) @ (new1 @ new2)" using n1(1) n2(1) by simp
  ultimately show ?case using n1(2) n2(2) by auto
qed simp

text \<open>
  C21. The def-file reader always terminates: from the start state on any file's lines,
  the transitions reach the final state, and the names it holds are those of the
  functional model \<open>def_scan\<close>. (As the relation is deterministic, this is the only
  final state.)
\<close>

theorem def_reader_terminates:
  "\<exists>t. def_step\<^sup>*\<^sup>* (Outer, ls, []) t \<and> fst t = Finished \<and> snd (snd t) = def_scan ls []"
proof -
  obtain t where t: "def_step\<^sup>*\<^sup>* (Outer, ls, []) t" "fst t = Finished"
    using def_step_reaches_Finished by blast
  obtain pc ls' ns where "t = (pc, ls', ns)" by (cases t)
  then show ?thesis
    using t def_steps_result [OF t(1)] by (auto simp: def_scan_refines)
qed

end
