(* ===== verification/Driver.thy ===== *)
theory Driver
  imports Frontend
begin

text \<open>
  The rest of \<open>main()\<close> in \<open>implib-gen.py\<close>: the vtable stage (lines 845-897), which
  picks the exported classes and reads their tables through the \<open>Vtables\<close> and
  \<open>ElfTables\<close> components, and the emission of both files (899-957) through the
  \<open>Emitter\<close> component, composed with the front half into one run, \<open>implib_main\<close>.
  The library's bytes are the parameter \<open>bytes\<close>; the templates of the target and the
  common init template are parameters; the written files are returned with their names.
\<close>

type_synonym cls_tables = "(string \<times> (string \<times> string) list) list"

text \<open>
  \<open>re.match(r"^(vtable|typeinfo|typeinfo name) for (.*)", name)\<close>: the alternatives are
  tried in order (\<open>typeinfo\<close> fails at \<open> for \<close> before \<open>typeinfo name\<close> is tried), and
  \<open>.*\<close> stops at a newline.
\<close>

definition vtable_kind :: "string \<Rightarrow> (string \<times> string) option" where
  "vtable_kind d =
     (let cls = (\<lambda>r. takeWhile (\<lambda>c. c \<noteq> nl) r) in
      if starts_with ''vtable for '' d then Some (''vtable'', cls (drop 11 d))
      else if starts_with ''typeinfo for '' d then Some (''typeinfo'', cls (drop 13 d))
      else if starts_with ''typeinfo name for '' d then Some (''typeinfo name'', cls (drop 18 d))
      else None)"

text \<open>
  One iteration of the loop of lines 852-860: the demangled name is read first
  (\<open>KeyError\<close> when \<open>c++filt\<close> gave none); an exported class symbol is filed under its
  class and kind (\<open>setdefault(cls, {})[typ] = name\<close>) and kept by name.
\<close>

definition class_step ::
  "options \<Rightarrow> cls_tables \<times> (string \<times> symbol) list \<Rightarrow> symbol \<Rightarrow>
   (cls_tables \<times> (string \<times> symbol) list) result" where
  "class_step args st s =
     (case sym_demangled s of
        None \<Rightarrow> Inl KeyError
      | Some d \<Rightarrow>
          (case vtable_kind d of
             None \<Rightarrow> Inr st
           | Some (typ, cls) \<Rightarrow>
               (if is_exported args s then
                  (let tables = fst st; t = (case map_of tables cls of Some t \<Rightarrow> t | None \<Rightarrow> [])
                   in Inr (AList.update cls (AList.update typ (sym_name s) t) tables,
                           AList.update (sym_name s) s (snd st)))
                else Inr st)))"

text \<open>Lines 845-897: the vtable stage, each call's error ending the run.\<close>

definition vtable_stage ::
  "tools \<Rightarrow> options \<Rightarrow> string \<Rightarrow> bool \<Rightarrow> byte list \<Rightarrow> int \<Rightarrow> string list \<Rightarrow> symbol list \<Rightarrow>
   (cls_tables \<times> (string \<times> symbol) list \<times> (string \<times> slot list) list) result" where
  "vtable_stage tools args f binary bytes ptr_size reloc_types syms =
     (if \<not> binary \<and> ends_with ''.def'' f then Inl (Fatal ''vtables not supported for .def files'')
      else (case fold_result (class_step args) syms ([], []) of
              Inl e \<Rightarrow> Inl e
            | Inr (tables, csyms) \<Rightarrow>
                (case collect_sections tools f of
                   Inl e \<Rightarrow> Inl e
                 | Inr secs \<Rightarrow>
                     (case read_unrelocated_data bytes csyms secs of
                        Inl e \<Rightarrow> Inl e
                      | Inr bites \<Rightarrow>
                          (case collect_relocs tools f of
                             Inl e \<Rightarrow> Inl e
                           | Inr rels \<Rightarrow>
                               (case collect_relocated_data csyms bites rels ptr_size reloc_types of
                                  Inl e \<Rightarrow> Inl e
                                | Inr data \<Rightarrow> Inr (tables, csyms, data)))))))"

text \<open>The two files a run writes, by name, and the warnings it printed.\<close>

record outputs =
  out_tramp_file :: string
  out_tramp :: string
  out_init_file :: string
  out_init :: string
  out_warnings :: "warning list"

text \<open>
  A whole run of \<open>main()\<close> after the argument parser: front half with the architecture
  of the normalised target, the vtable stage in vtable mode, then \<open><suffix>.tramp.S\<close> and
  \<open><suffix>.init.c\<close> (lines 899-957).
\<close>

definition implib_main ::
  "tools \<Rightarrow> options \<Rightarrow> string list option \<Rightarrow> string \<Rightarrow> string option \<Rightarrow> byte list \<Rightarrow>
   string list \<Rightarrow> (string \<Rightarrow> ini) \<Rightarrow> string \<Rightarrow> string \<Rightarrow> string \<Rightarrow> outputs result" where
  "implib_main tools args user f content bytes arch_dirs config table_tpl tramp_tpl init_tpl =
     (case frontend tools args user f content
             (arch_info arch_dirs config (normalize_target (opt_target args))) of
        Inl e \<Rightarrow> Inl e
      | Inr fe \<Rightarrow>
          (case (if opt_vtables args
                 then vtable_stage tools args f (fe_binary fe) bytes (fe_ptr_size fe) (fe_reloc_types fe) (fe_syms fe)
                 else Inr ([], [], [])) of
             Inl e \<Rightarrow> Inl e
           | Inr (tables, csyms, data) \<Rightarrow>
               (let suffix = output_suffix args (fe_binary fe) f; lib_suffix = sanitize suffix in
                case gen_tramp_file table_tpl tramp_tpl lib_suffix (opt_symbol_prefix args) (fe_ptr_size fe)
                       (fe_funs fe) of
                  Inl e \<Rightarrow> Inl e
                | Inr tramp \<Rightarrow>
                    (case gen_init_file init_tpl args lib_suffix (fe_load_name fe) (fe_funs fe) tables csyms data of
                       Inl e \<Rightarrow> Inl e
                     | Inr init \<Rightarrow>
                         Inr \<lparr>out_tramp_file = suffix @ ''.tramp.S'', out_tramp = tramp,
                              out_init_file = suffix @ ''.init.c'', out_init = init,
                              out_warnings = fe_warnings fe\<rparr>))))"

section \<open>Properties\<close>

lemma resolve_load_name_Inr:
  "binary \<and> opt_library_load_name args = None \<longrightarrow> (\<forall>e. read_soname tools f \<noteq> Inl e) \<Longrightarrow>
   \<exists>n. resolve_load_name tools args binary f content stem = Inr n"
  by (auto simp: resolve_load_name_def split: sum.splits)

lemma arch_info_unknown:
  "target \<notin> set arch_dirs \<Longrightarrow>
   arch_info arch_dirs config target = Inl (Fatal (''unknown architecture '' @ [CHR 0x27] @ target @ [CHR 0x27]))"
  by (simp add: arch_info_def)

lemma frontend_arch_error:
  "is_binary_file tools f = Inr binary \<Longrightarrow> resolve_load_name tools args binary f content (input_stem binary f) = Inr n \<Longrightarrow>
   frontend tools args user f content (Inl e) = Inl e"
  by (simp add: frontend_def)

text \<open>
  An invariant of the class loop, by \<open>fold_result_invariant\<close>: every class symbol is kept
  under its own name, is exported, and has a demangled name naming a vtable or typeinfo,
  and the table entries name kept class symbols.
\<close>

definition classes_ok :: "options \<Rightarrow> cls_tables \<times> (string \<times> symbol) list \<Rightarrow> bool" where
  "classes_ok args st \<longleftrightarrow>
     list_all (\<lambda>(n, s). sym_name s = n \<and> is_exported args s \<and>
                       (\<exists>d k. sym_demangled s = Some d \<and> vtable_kind d = Some k)) (snd st) \<and>
     list_all (\<lambda>(c, t). list_all (\<lambda>(k, n). n \<in> fst ` set (snd st)) t) (fst st)"

lemma set_update_fst: "fst ` set (AList.update k v al) = insert k (fst ` set al)"
  by (induction al) auto

lemma set_update_sub: "set (AList.update k v al) \<subseteq> insert (k, v) (set al)"
  by (induction al) auto

lemma class_step_ok: "classes_ok args st \<Longrightarrow> class_step args st s = Inr st' \<Longrightarrow> classes_ok args st'"
  by (auto simp: class_step_def classes_ok_def Let_def list_all_iff set_update_fst
           dest!: set_update_sub [THEN subsetD] map_of_SomeD split: option.splits if_splits prod.splits)

lemma vtable_stage_classes:
  assumes "vtable_stage tools args f binary bytes ptr_size reloc_types syms = Inr (tables, csyms, data)"
  shows "classes_ok args (tables, csyms)"
proof -
  from assms have fr: "fold_result (class_step args) syms ([], []) = Inr (tables, csyms)"
    by (auto simp: vtable_stage_def split: if_splits sum.splits prod.splits)
  show ?thesis
    by (rule fold_result_invariant [OF _ _ fr]) (blast intro: class_step_ok, simp add: classes_ok_def)
qed

end
