(* ===== verification/Cli.thy ===== *)
theory Cli
  imports Exports
begin

text \<open>
  The command line of \<open>implib-gen.py\<close>: the options declared in \<open>main()\<close> (lines
  579-688) and \<open>parser.parse_args()\<close> (line 690) as \<open>argparse\<close> of CPython 3.8-3.11
  parses them. The argument vector is first classified token by token
  (\<open>_parse_optional\<close>: an option string, an unambiguous abbreviation of a long option,
  \<open>--opt=value\<close>, a short option with its value or further flags attached, a
  positional, or an unknown option); then the tokens are consumed from the left, each
  option taking the next token as its value when it needs one, the first positional
  becoming \<open>LIB\<close>. Errors are values of \<open>cli_error\<close> (their printed wording is
  \<open>argparse\<close>'s); \<open>--help\<close> ends the parse with \<open>CliHelp\<close>.
\<close>

datatype cli_opt =
    OHelp | OVerbose | ODlopen | ONoDlopen | ODlopenCallback | ODlsymCallback | OLibraryLoadName
  | OLazyLoad | ONoLazyLoad | OThreadSafe | ONoThreadSafe | OVtables | ONoVtables | ONoWeakSymbols
  | OTarget | OSymbolList | OSymbolPrefix | OQuiet | OOutdir | OSuffix

text \<open>The option strings in the order the parser registers them (\<open>-h\<close> first).\<close>

definition option_strings :: "(string \<times> cli_opt) list" where
  "option_strings =
     [(''-h'', OHelp), (''--help'', OHelp), (''--verbose'', OVerbose), (''-v'', OVerbose),
      (''--dlopen'', ODlopen), (''--no-dlopen'', ONoDlopen), (''--dlopen-callback'', ODlopenCallback),
      (''--dlsym-callback'', ODlsymCallback), (''--library-load-name'', OLibraryLoadName),
      (''--lazy-load'', OLazyLoad), (''--no-lazy-load'', ONoLazyLoad), (''--thread-safe'', OThreadSafe),
      (''--no-thread-safe'', ONoThreadSafe), (''--vtables'', OVtables), (''--no-vtables'', ONoVtables),
      (''--no-weak-symbols'', ONoWeakSymbols), (''--target'', OTarget), (''--symbol-list'', OSymbolList),
      (''--symbol-prefix'', OSymbolPrefix), (''-q'', OQuiet), (''--quiet'', OQuiet),
      (''--outdir'', OOutdir), (''-o'', OOutdir), (''--suffix'', OSuffix)]"

text \<open>The options with \<open>nargs=None\<close> (one value); the others take none.\<close>

definition takes_value :: "cli_opt \<Rightarrow> bool" where
  "takes_value opt \<longleftrightarrow>
     opt \<in> {ODlopenCallback, ODlsymCallback, OLibraryLoadName, OTarget, OSymbolList, OSymbolPrefix,
          OOutdir, OSuffix}"

text \<open>
  The namespace being built: the options record, \<open>outdir\<close>, \<open>LIB\<close>, the extras, and the
  options whose value is currently the empty list (see \<open>take_action\<close>).
\<close>

record cli_ns =
  ns_opts :: options
  ns_outdir :: string
  ns_library :: "string option"
  ns_extras :: "string list"
  ns_stripped :: "cli_opt list"

text \<open>
  Each option's action on the namespace (\<open>count\<close>, \<open>store_true\<close>, \<open>store_false\<close>,
  \<open>store\<close>), with \<open>dest\<close> as declared: \<open>--dlopen\<close>/\<open>--no-dlopen\<close> share \<open>dlopen\<close>, and so
  on.
\<close>

fun apply_action :: "cli_opt \<times> string option \<Rightarrow> cli_ns \<Rightarrow> cli_ns" where
  "apply_action (OVerbose, _) ns = ns\<lparr>ns_opts := (ns_opts ns)\<lparr>opt_verbose := Suc (opt_verbose (ns_opts ns))\<rparr>\<rparr>"
| "apply_action (ODlopen, _) ns = ns\<lparr>ns_opts := (ns_opts ns)\<lparr>opt_dlopen := True\<rparr>\<rparr>"
| "apply_action (ONoDlopen, _) ns = ns\<lparr>ns_opts := (ns_opts ns)\<lparr>opt_dlopen := False\<rparr>\<rparr>"
| "apply_action (ODlopenCallback, Some v) ns = ns\<lparr>ns_opts := (ns_opts ns)\<lparr>opt_dlopen_callback := v\<rparr>\<rparr>"
| "apply_action (ODlsymCallback, Some v) ns = ns\<lparr>ns_opts := (ns_opts ns)\<lparr>opt_dlsym_callback := v\<rparr>\<rparr>"
| "apply_action (OLibraryLoadName, Some v) ns = ns\<lparr>ns_opts := (ns_opts ns)\<lparr>opt_library_load_name := Some v\<rparr>\<rparr>"
| "apply_action (OLazyLoad, _) ns = ns\<lparr>ns_opts := (ns_opts ns)\<lparr>opt_lazy_load := True\<rparr>\<rparr>"
| "apply_action (ONoLazyLoad, _) ns = ns\<lparr>ns_opts := (ns_opts ns)\<lparr>opt_lazy_load := False\<rparr>\<rparr>"
| "apply_action (OThreadSafe, _) ns = ns\<lparr>ns_opts := (ns_opts ns)\<lparr>opt_thread_safe := True\<rparr>\<rparr>"
| "apply_action (ONoThreadSafe, _) ns = ns\<lparr>ns_opts := (ns_opts ns)\<lparr>opt_thread_safe := False\<rparr>\<rparr>"
| "apply_action (OVtables, _) ns = ns\<lparr>ns_opts := (ns_opts ns)\<lparr>opt_vtables := True\<rparr>\<rparr>"
| "apply_action (ONoVtables, _) ns = ns\<lparr>ns_opts := (ns_opts ns)\<lparr>opt_vtables := False\<rparr>\<rparr>"
| "apply_action (ONoWeakSymbols, _) ns = ns\<lparr>ns_opts := (ns_opts ns)\<lparr>opt_no_weak_symbols := True\<rparr>\<rparr>"
| "apply_action (OTarget, Some v) ns = ns\<lparr>ns_opts := (ns_opts ns)\<lparr>opt_target := v\<rparr>\<rparr>"
| "apply_action (OSymbolList, Some v) ns = ns\<lparr>ns_opts := (ns_opts ns)\<lparr>opt_symbol_list := Some v\<rparr>\<rparr>"
| "apply_action (OSymbolPrefix, Some v) ns = ns\<lparr>ns_opts := (ns_opts ns)\<lparr>opt_symbol_prefix := v\<rparr>\<rparr>"
| "apply_action (OQuiet, _) ns = ns\<lparr>ns_opts := (ns_opts ns)\<lparr>opt_quiet := True\<rparr>\<rparr>"
| "apply_action (OOutdir, Some v) ns = ns\<lparr>ns_outdir := v\<rparr>"
| "apply_action (OSuffix, Some v) ns = ns\<lparr>ns_opts := (ns_opts ns)\<lparr>opt_suffix := Some v\<rparr>\<rparr>"
| "apply_action (_, _) ns = ns"

text \<open>
  \<open>take_action\<close>: \<open>_get_values\<close> of CPython 3.8-3.11 first removes one \<open>--\<close> from an
  option's argument strings, so an attached value \<open>--\<close> (\<open>--suffix=--\<close>, \<open>-o--\<close>)
  stores the empty list \<open>[]\<close> where a string is expected; a later occurrence of the
  option stores a string again.
\<close>

definition take_action :: "cli_opt \<times> string option \<Rightarrow> cli_ns \<Rightarrow> cli_ns" where
  "take_action a ns =
     (if snd a = Some ''--'' then ns\<lparr>ns_stripped := fst a # removeAll (fst a) (ns_stripped ns)\<rparr>
      else (apply_action a ns)\<lparr>ns_stripped := removeAll (fst a) (ns_stripped ns)\<rparr>)"

section \<open>Classifying the tokens\<close>

datatype cli_tok = TPos string | TSep | TOpt cli_opt string "string option" | TUnknown string

datatype cli_error =
    Ambiguous string "string list" | IgnoredExplicit cli_opt string | ExpectedOne cli_opt
  | Required | Unrecognized "string list" | ListValued "cli_opt list"

text \<open>\<open>_negative_number_matcher\<close>: \<open>^-\d+$|^-\d*\.\d+$\<close> (\<open>$\<close> also before a final newline).\<close>

definition negative_number_like :: "string \<Rightarrow> bool" where
  "negative_number_like s \<longleftrightarrow>
     (case s of
        c # r \<Rightarrow> c = CHR ''-'' \<and>
          (let r' = (if r \<noteq> [] \<and> last r = nl then butlast r else r);
               ds = dropWhile is_ascii_digit r' in
           (r' \<noteq> [] \<and> ds = []) \<or>
           (case ds of d # e \<Rightarrow> d = CHR ''.'' \<and> e \<noteq> [] \<and> list_all is_ascii_digit e | [] \<Rightarrow> False))
      | [] \<Rightarrow> False)"

text \<open>
  \<open>_get_option_tuples\<close>: for \<open>--prefix[=value]\<close> every option string the prefix starts;
  for \<open>-xrest\<close> the option \<open>-x\<close> with \<open>rest\<close> attached, and every option string that
  starts with the whole token.
\<close>

definition option_tuples :: "string \<Rightarrow> (cli_opt \<times> string \<times> string option) list" where
  "option_tuples s =
     (if starts_with ''--'' s then
        (let pre = takeWhile (\<lambda>c. c \<noteq> CHR ''='') s;
             ea = (if CHR ''='' \<in> set s then Some (tl (dropWhile (\<lambda>c. c \<noteq> CHR ''='') s)) else None)
         in map (\<lambda>(os, opt). (opt, os, ea)) (filter (\<lambda>(os, opt). starts_with pre os) option_strings))
      else
        map (\<lambda>(os, opt). (opt, os, if os = take 2 s then Some (drop 2 s) else None))
          (filter (\<lambda>(os, opt). os = take 2 s \<or> starts_with s os) option_strings))"

text \<open>\<open>_parse_optional\<close>, in its order of tests.\<close>

definition parse_optional :: "string \<Rightarrow> cli_error + cli_tok" where
  "parse_optional s =
     (if s = [] \<or> hd s \<noteq> CHR ''-'' then Inr (TPos s)
      else (case map_of option_strings s of
              Some opt \<Rightarrow> Inr (TOpt opt s None)
            | None \<Rightarrow>
                if length s = 1 then Inr (TPos s)
                else (case (if CHR ''='' \<in> set s then map_of option_strings (takeWhile (\<lambda>c. c \<noteq> CHR ''='') s)
                            else None) of
                        Some opt \<Rightarrow> Inr (TOpt opt (takeWhile (\<lambda>c. c \<noteq> CHR ''='') s)
                                          (Some (tl (dropWhile (\<lambda>c. c \<noteq> CHR ''='') s))))
                      | None \<Rightarrow>
                          (case option_tuples s of
                             [] \<Rightarrow> (if negative_number_like s \<or> CHR '' '' \<in> set s then Inr (TPos s)
                                   else Inr (TUnknown s))
                           | [(opt, os, ea)] \<Rightarrow> Inr (TOpt opt os ea)
                           | ts \<Rightarrow> Inl (Ambiguous s (map (\<lambda>(opt, os, ea). os) ts))))))"

text \<open>The classification of the whole vector: after \<open>--\<close> every token is positional.\<close>

fun classify_args :: "string list \<Rightarrow> cli_error + cli_tok list" where
  "classify_args [] = Inr []"
| "classify_args (a # as) =
     (if a = ''--'' then Inr (TSep # map TPos as)
      else (case parse_optional a of
              Inl e \<Rightarrow> Inl e
            | Inr t \<Rightarrow> (case classify_args as of Inl e \<Rightarrow> Inl e | Inr ts \<Rightarrow> Inr (t # ts))))"

section \<open>Consuming the tokens\<close>

text \<open>
  \<open>consume_optional\<close>: an attached value is the option's value if it takes one; a flag
  given as \<open>-x\<close> with characters attached reads them as further short flags
  (\<open>-vq\<close>), and anything else attached is an error. Without an attached value, an option
  that takes one takes the next token if it is positional.
\<close>

function opt_actions ::
  "cli_opt \<Rightarrow> string \<Rightarrow> string option \<Rightarrow> cli_tok list \<Rightarrow>
   cli_error + ((cli_opt \<times> string option) list \<times> cli_tok list)" where
  "opt_actions opt os (Some a) ts =
     (if takes_value opt then Inr ([(opt, Some a)], ts)
      else if \<not> starts_with ''--'' os \<and> a \<noteq> [] then
        (case map_of option_strings [CHR ''-'', hd a] of
           None \<Rightarrow> Inl (IgnoredExplicit opt a)
         | Some opt' \<Rightarrow>
             (case opt_actions opt' [CHR ''-'', hd a] (if tl a = [] then None else Some (tl a)) ts of
                Inl e \<Rightarrow> Inl e
              | Inr (acts, rest) \<Rightarrow> Inr ((opt, None) # acts, rest)))
      else Inl (IgnoredExplicit opt a))"
| "opt_actions opt os None ts =
     (if takes_value opt then
        (case ts of TPos v # rest \<Rightarrow> Inr ([(opt, Some v)], rest) | _ \<Rightarrow> Inl (ExpectedOne opt))
      else Inr ([(opt, None)], ts))"
  by pat_completeness auto
termination
  by (relation "measure (\<lambda>(opt, os, ea, ts). case ea of None \<Rightarrow> 0 | Some a \<Rightarrow> Suc (length a))") auto

text \<open>
  The main loop of \<open>_parse_known_args\<close>: the first positional is \<open>LIB\<close>, later ones and
  unknown options are extras; \<open>--help\<close> ends the parse when its action runs. \<open>LIB\<close>
  matches \<open>-*A-*\<close> in the pattern of its chunk, so a \<open>--\<close> right before or right after it
  is absorbed (and removed from its strings); any other \<open>--\<close> is an extra. At the end a
  missing \<open>LIB\<close> is an error, then (in \<open>parse_args\<close>) any extras. An option left holding
  \<open>[]\<close> is not an error of \<open>argparse\<close>: the program goes on with a list where it reads
  a string, which the model does not follow (\<open>ListValued\<close>).
\<close>

function consume_args :: "cli_tok list \<Rightarrow> cli_ns \<Rightarrow> cli_error + (string \<times> string \<times> options) option" where
  "consume_args [] ns =
     (case ns_library ns of
        None \<Rightarrow> Inl Required
      | Some lib \<Rightarrow> (if ns_extras ns \<noteq> [] then Inl (Unrecognized (ns_extras ns))
                    else if ns_stripped ns \<noteq> [] then Inl (ListValued (ns_stripped ns))
                    else Inr (Some (lib, ns_outdir ns, ns_opts ns))))"
| "consume_args (TSep # ts) ns =
     consume_args ts (if ns_library ns = None \<and> ts \<noteq> [] then ns else ns\<lparr>ns_extras := ns_extras ns @ [''--'']\<rparr>)"
| "consume_args (TPos a # ts) ns =
     (if ns_library ns = None
      then consume_args (if ts \<noteq> [] \<and> hd ts = TSep then tl ts else ts) (ns\<lparr>ns_library := Some a\<rparr>)
      else consume_args ts (ns\<lparr>ns_extras := ns_extras ns @ [a]\<rparr>))"
| "consume_args (TUnknown a # ts) ns = consume_args ts (ns\<lparr>ns_extras := ns_extras ns @ [a]\<rparr>)"
| "consume_args (TOpt opt os ea # ts) ns =
     (case opt_actions opt os ea ts of
        Inl e \<Rightarrow> Inl e
      | Inr (acts, rest) \<Rightarrow>
          (if list_ex (\<lambda>(opt, _). opt = OHelp) acts then Inr None
           else consume_args rest (fold take_action acts ns)))"
  by pat_completeness auto
termination
proof (relation "measure (\<lambda>(ts, ns). length ts)", goal_cases)
  have suffix: "opt_actions opt os ea ts = Inr (acts, rest) \<Longrightarrow> length rest \<le> length ts"
    for opt os ea ts acts rest
  proof (induction opt os ea ts arbitrary: acts rest rule: opt_actions.induct)
    case (1 opt os a ts)
    show ?case
    proof (cases "takes_value opt \<or> starts_with ''--'' os \<or> a = []")
      case True
      with "1.prems" show ?thesis by (auto split: if_splits)
    next
      case False
      with "1.prems" obtain opt' acts' where "map_of option_strings [CHR ''-'', hd a] = Some opt'"
        and "opt_actions opt' [CHR ''-'', hd a] (if tl a = [] then None else Some (tl a)) ts = Inr (acts', rest)"
        by (subst (asm) opt_actions.simps) (simp del: opt_actions.simps split: option.splits sum.splits prod.splits)
      with "1.IH" False show ?thesis by blast
    qed
  next
    case (2 opt os ts)
    then show ?case
      by (auto split: if_splits cli_tok.splits list.splits)
  qed
  case 6
  then show ?case by (auto dest: suffix)
qed auto

text \<open>
  \<open>parser.parse_args()\<close> with the defaults of the declarations (\<open>default_options\<close>,
  \<open>outdir = "./"\<close>): the parsed arguments, \<open>None\<close> for \<open>--help\<close>, or the error that
  makes \<open>argparse\<close> exit with status 2.
\<close>

definition parse_args :: "string \<Rightarrow> string list \<Rightarrow> cli_error + (string \<times> string \<times> options) option" where
  "parse_args machine argv =
     (case classify_args argv of
        Inl e \<Rightarrow> Inl e
      | Inr ts \<Rightarrow> consume_args ts \<lparr>ns_opts = default_options machine, ns_outdir = ''./'',
                                    ns_library = None, ns_extras = [], ns_stripped = []\<rparr>)"

section \<open>Rendering options as a command line\<close>

text \<open>
  The inverse direction, used to state what the parser recovers: every option by its long
  name, a value attached with \<open>=\<close> (so that a value starting with \<open>-\<close> stays a value),
  and \<open>LIB\<close> after \<open>--\<close>.
\<close>

fun long_name :: "cli_opt \<Rightarrow> string" where
  "long_name OHelp = ''--help''"
| "long_name OVerbose = ''--verbose''"
| "long_name ODlopen = ''--dlopen''"
| "long_name ONoDlopen = ''--no-dlopen''"
| "long_name ODlopenCallback = ''--dlopen-callback''"
| "long_name ODlsymCallback = ''--dlsym-callback''"
| "long_name OLibraryLoadName = ''--library-load-name''"
| "long_name OLazyLoad = ''--lazy-load''"
| "long_name ONoLazyLoad = ''--no-lazy-load''"
| "long_name OThreadSafe = ''--thread-safe''"
| "long_name ONoThreadSafe = ''--no-thread-safe''"
| "long_name OVtables = ''--vtables''"
| "long_name ONoVtables = ''--no-vtables''"
| "long_name ONoWeakSymbols = ''--no-weak-symbols''"
| "long_name OTarget = ''--target''"
| "long_name OSymbolList = ''--symbol-list''"
| "long_name OSymbolPrefix = ''--symbol-prefix''"
| "long_name OQuiet = ''--quiet''"
| "long_name OOutdir = ''--outdir''"
| "long_name OSuffix = ''--suffix''"

fun render_tok :: "cli_opt \<times> string option \<Rightarrow> string" where
  "render_tok (opt, None) = long_name opt"
| "render_tok (opt, Some v) = long_name opt @ CHR ''='' # v"

definition opt_arg :: "cli_opt \<Rightarrow> string option \<Rightarrow> (cli_opt \<times> string option) list" where
  "opt_arg opt v = (case v of None \<Rightarrow> [] | Some x \<Rightarrow> [(opt, Some x)])"

definition flag_arg :: "cli_opt \<Rightarrow> bool \<Rightarrow> (cli_opt \<times> string option) list" where
  "flag_arg opt b = (if b then [(opt, None)] else [])"

definition render_actions :: "string \<Rightarrow> options \<Rightarrow> (cli_opt \<times> string option) list" where
  "render_actions outdir opts =
     replicate (opt_verbose opts) (OVerbose, None)
     @ [(if opt_dlopen opts then ODlopen else ONoDlopen, None),
        (ODlopenCallback, Some (opt_dlopen_callback opts)),
        (ODlsymCallback, Some (opt_dlsym_callback opts))]
     @ opt_arg OLibraryLoadName (opt_library_load_name opts)
     @ [(if opt_lazy_load opts then OLazyLoad else ONoLazyLoad, None),
        (if opt_thread_safe opts then OThreadSafe else ONoThreadSafe, None),
        (if opt_vtables opts then OVtables else ONoVtables, None)]
     @ flag_arg ONoWeakSymbols (opt_no_weak_symbols opts)
     @ [(OTarget, Some (opt_target opts))]
     @ opt_arg OSymbolList (opt_symbol_list opts)
     @ [(OSymbolPrefix, Some (opt_symbol_prefix opts))]
     @ flag_arg OQuiet (opt_quiet opts)
     @ [(OOutdir, Some outdir)]
     @ opt_arg OSuffix (opt_suffix opts)"

definition render_args :: "string \<Rightarrow> string \<Rightarrow> options \<Rightarrow> string list" where
  "render_args lib outdir opts = map render_tok (render_actions outdir opts) @ [''--'', lib]"

definition render_values :: "string \<Rightarrow> options \<Rightarrow> string list" where
  "render_values outdir opts = List.map_filter snd (render_actions outdir opts)"

text \<open>An action list the parser can read back: values exactly on the options that take one.\<close>

definition well_formed_actions :: "(cli_opt \<times> string option) list \<Rightarrow> bool" where
  "well_formed_actions acts \<longleftrightarrow> list_all (\<lambda>(opt, v). (takes_value opt \<longleftrightarrow> v \<noteq> None) \<and> opt \<noteq> OHelp) acts"

text \<open>The long option strings a prefix abbreviates, in declaration order.\<close>

definition long_matches :: "string \<Rightarrow> string list" where
  "long_matches s = map fst (filter (\<lambda>(os, opt). starts_with s os) option_strings)"

text \<open>
  An option token with its spelling forgotten where no value is attached: the parse reads
  the spelling only to tell a short option's cluster from a long option's attached value.
\<close>

fun tok_key :: "cli_tok \<Rightarrow> cli_tok" where
  "tok_key (TOpt opt os None) = TOpt opt [] None"
| "tok_key t = t"

text \<open>The short option strings the parser declares beside a long one (lines 584-686).\<close>

definition short_aliases :: "(string \<times> string) list" where
  "short_aliases = [(''-h'', ''--help''), (''-v'', ''--verbose''), (''-q'', ''--quiet''), (''-o'', ''--outdir'')]"

section \<open>Properties\<close>

lemma long_name_lookup: "map_of option_strings (long_name opt) = Some opt"
  by (cases opt) (simp_all add: option_strings_def)

lemma long_name_shape: "take 2 (long_name opt) = ''--'' \<and> 2 < length (long_name opt) \<and> CHR ''='' \<notin> set (long_name opt)"
  by (cases opt) simp_all

lemma option_strings_no_eq: "map_of option_strings s = Some opt \<Longrightarrow> CHR ''='' \<notin> set s"
proof -
  have "list_all (\<lambda>(os, _). CHR ''='' \<notin> set os) option_strings"
    by (simp add: option_strings_def)
  moreover assume "map_of option_strings s = Some opt"
  then have "(s, opt) \<in> set option_strings" by (rule map_of_SomeD)
  ultimately show ?thesis by (auto simp: list_all_iff)
qed

lemma split_first_eq:
  "CHR ''='' \<notin> set xs \<Longrightarrow>
   takeWhile (\<lambda>c. c \<noteq> CHR ''='') (xs @ CHR ''='' # v) = xs \<and>
   dropWhile (\<lambda>c. c \<noteq> CHR ''='') (xs @ CHR ''='' # v) = CHR ''='' # v"
  by (induction xs) auto

lemma parse_optional_flag: "parse_optional (long_name opt) = Inr (TOpt opt (long_name opt) None)"
proof -
  from long_name_shape [of opt] have "long_name opt \<noteq> [] \<and> hd (long_name opt) = CHR ''-''"
    by (cases "long_name opt") auto
  then show ?thesis by (simp add: parse_optional_def long_name_lookup)
qed

lemma parse_optional_value:
  "parse_optional (long_name opt @ CHR ''='' # v) = Inr (TOpt opt (long_name opt) (Some v))"
proof -
  let ?s = "long_name opt @ CHR ''='' # v"
  from long_name_shape [of opt] have ne: "long_name opt \<noteq> [] \<and> hd (long_name opt) = CHR ''-''"
    by (cases "long_name opt") auto
  from long_name_shape [of opt] have noeq: "CHR ''='' \<notin> set (long_name opt)" by simp
  have tw: "takeWhile (\<lambda>c. c \<noteq> CHR ''='') ?s = long_name opt"
    using split_first_eq [OF noeq] by simp
  have dw: "dropWhile (\<lambda>c. c \<noteq> CHR ''='') ?s = CHR ''='' # v"
    using split_first_eq [OF noeq] by simp
  have "map_of option_strings ?s = None"
    using option_strings_no_eq [of ?s] by (cases "map_of option_strings ?s") auto
  moreover have "length ?s \<noteq> 1"
    using long_name_shape [of opt] by auto
  ultimately show ?thesis
    using ne tw dw by (simp add: parse_optional_def long_name_lookup)
qed

lemma render_tok_not_sep: "render_tok a \<noteq> ''--''"
  using long_name_shape [of "fst a"]
  by (cases a rule: render_tok.cases) (auto dest: arg_cong [where f = length])

lemma classify_args_render:
  "well_formed_actions acts \<Longrightarrow>
   classify_args (map render_tok acts @ ''--'' # rest) =
     Inr (map (\<lambda>(opt, v). TOpt opt (long_name opt) v) acts @ TSep # map TPos rest)"
proof (induction acts)
  case Nil
  then show ?case by simp
next
  case (Cons a acts)
  obtain opt v where a: "a = (opt, v)" by fastforce
  from Cons.prems have "well_formed_actions acts" by (simp add: well_formed_actions_def)
  with Cons.IH have IH: "classify_args (map render_tok acts @ ''--'' # rest) =
     Inr (map (\<lambda>(opt, v). TOpt opt (long_name opt) v) acts @ TSep # map TPos rest)" .
  have "parse_optional (render_tok (opt, v)) = Inr (TOpt opt (long_name opt) v)"
    by (cases v) (simp_all add: parse_optional_flag parse_optional_value)
  with IH render_tok_not_sep [of a] show ?case by (simp add: a)
qed

lemma consume_args_value:
  "takes_value opt \<Longrightarrow> consume_args (TOpt opt os (Some v) # ts) ns = consume_args ts (take_action (opt, Some v) ns)"
  by (cases opt) (simp_all add: takes_value_def)

lemma consume_args_flag:
  "\<not> takes_value opt \<Longrightarrow> opt \<noteq> OHelp \<Longrightarrow>
   consume_args (TOpt opt os None # ts) ns = consume_args ts (take_action (opt, None) ns)"
  by simp

lemma consume_args_render:
  "well_formed_actions acts \<Longrightarrow>
   consume_args (map (\<lambda>(opt, v). TOpt opt (long_name opt) v) acts @ ts) ns =
   consume_args ts (fold take_action acts ns)"
proof (induction acts arbitrary: ns)
  case Nil
  then show ?case by simp
next
  case (Cons a acts)
  obtain opt v where a: "a = (opt, v)" by fastforce
  from Cons.prems a have wf: "well_formed_actions acts" and tv: "takes_value opt \<longleftrightarrow> v \<noteq> None"
    and nh: "opt \<noteq> OHelp"
    by (simp_all add: well_formed_actions_def)
  show ?case
  proof (cases v)
    case None
    with tv nh Cons.IH [OF wf] show ?thesis by (simp add: a consume_args_flag)
  next
    case (Some x)
    with tv nh Cons.IH [OF wf] show ?thesis by (simp add: a consume_args_value)
  qed
qed

lemma render_actions_wf: "well_formed_actions (render_actions outdir opts)"
  by (auto simp: well_formed_actions_def render_actions_def opt_arg_def flag_arg_def takes_value_def
      list_all_iff split: option.split)

lemma apply_action_stripped: "ns_stripped (apply_action a ns) = ns_stripped ns"
  by (induction a ns rule: apply_action.induct) simp_all

lemma fold_take_action_plain:
  "Some ''--'' \<notin> snd ` set acts \<Longrightarrow> ns_stripped ns = [] \<Longrightarrow> fold take_action acts ns = fold apply_action acts ns"
proof (induction acts arbitrary: ns)
  case Nil
  then show ?case by simp
next
  case (Cons a acts)
  have st: "ns_stripped (apply_action a ns) = []"
    using Cons.prems(2) by (simp add: apply_action_stripped)
  have "(apply_action a ns)\<lparr>ns_stripped := ns_stripped (apply_action a ns)\<rparr> = apply_action a ns"
    by simp
  moreover have "snd a \<noteq> Some ''--''"
    using Cons.prems(1) by force
  ultimately have "take_action a ns = apply_action a ns"
    using st Cons.prems(2) by (simp add: take_action_def)
  with st Cons show ?case by simp
qed

lemma render_values_set: "Some v \<in> snd ` set (render_actions outdir opts) \<longleftrightarrow> v \<in> set (render_values outdir opts)"
  by (force simp: render_values_def map_filter_def)

lemma fold_verbose:
  "fold apply_action (replicate n (OVerbose, None)) ns =
   ns\<lparr>ns_opts := (ns_opts ns)\<lparr>opt_verbose := opt_verbose (ns_opts ns) + n\<rparr>\<rparr>"
  by (induction n arbitrary: ns) simp_all

lemma fold_render_actions:
  "fold apply_action (render_actions outdir opts)
     \<lparr>ns_opts = default_options m, ns_outdir = d, ns_library = None, ns_extras = [], ns_stripped = []\<rparr> =
   \<lparr>ns_opts = opts, ns_outdir = outdir, ns_library = None, ns_extras = [], ns_stripped = []\<rparr>"
  by (cases opts)
     (simp add: render_actions_def fold_verbose opt_arg_def flag_arg_def default_options_def
        del: fold_replicate split: option.split)

text \<open>
  C31. Round trip of the command line: rendering any options record, any output directory
  and any library name as long options (values attached with \<open>=\<close>, \<open>LIB\<close> after
  \<open>--\<close>) and parsing the result gives back exactly that library, output directory and
  options, provided no value is the string \<open>--\<close> (which \<open>argparse\<close> turns into
  \<open>[]\<close>). Every option and its \<open>dest\<close>, default and action (\<open>count\<close>,
  \<open>store_true\<close>, \<open>store_false\<close>, \<open>store\<close>) is thus checked against the record the
  rest of the program reads.
\<close>

theorem parse_args_render:
  assumes "''--'' \<notin> set (render_values outdir opts)"
  shows "parse_args m (render_args lib outdir opts) = Inr (Some (lib, outdir, opts))"
proof -
  have "Some ''--'' \<notin> snd ` set (render_actions outdir opts)"
    using assms render_values_set by blast
  then have "fold take_action (render_actions outdir opts)
               \<lparr>ns_opts = default_options m, ns_outdir = ''./'', ns_library = None, ns_extras = [], ns_stripped = []\<rparr> =
             \<lparr>ns_opts = opts, ns_outdir = outdir, ns_library = None, ns_extras = [], ns_stripped = []\<rparr>"
    by (simp add: fold_take_action_plain fold_render_actions)
  then show ?thesis
    by (simp add: parse_args_def render_args_def classify_args_render render_actions_wf consume_args_render)
qed

theorem parse_args_render_witness:
  "parse_args ''x86_64'' (render_args ''libfoo.so'' ''out'' ((default_options ''x86_64'')\<lparr>opt_verbose := 2\<rparr>)) =
   Inr (Some (''libfoo.so'', ''out'', (default_options ''x86_64'')\<lparr>opt_verbose := 2\<rparr>))"
  using parse_args_render [of "''out''" "(default_options ''x86_64'')\<lparr>opt_verbose := 2\<rparr>" "''x86_64''" "''libfoo.so''"]
  by (simp add: render_values_def render_actions_def default_options_def opt_arg_def flag_arg_def
      map_filter_simps numeral_2_eq_2)

text \<open>
  A token that starts with \<open>--\<close>, has no \<open>=\<close>, is not an option string itself and
  is a prefix of two or more long options (such as \<open>--no\<close>) is rejected as ambiguous,
  naming the candidates in declaration order, before anything after it (even
  \<open>--help\<close>) is looked at; the bare \<open>--\<close>, a prefix of every long option, is the
  separator instead.
\<close>

theorem parse_args_ambiguous:
  assumes "starts_with ''--'' s" and "s \<noteq> ''--''" and "CHR ''='' \<notin> set s"
    and "map_of option_strings s = None" and "2 \<le> length (long_matches s)"
  shows "parse_args m (s # rest) = Inl (Ambiguous s (long_matches s))"
proof -
  from assms(1) have shape: "s \<noteq> [] \<and> hd s = CHR ''-'' \<and> length s \<noteq> 1"
    by (cases s rule: remdups_adj.cases) (auto simp: starts_with_def)
  have tw: "takeWhile (\<lambda>c. c \<noteq> CHR ''='') s = s"
    using assms(3) by (auto simp: takeWhile_eq_all_conv)
  have tuples: "option_tuples s = map (\<lambda>(os, opt). (opt, os, None)) (filter (\<lambda>(os, opt). starts_with s os) option_strings)"
    using assms(1,3) by (simp add: option_tuples_def tw)
  have names: "map (\<lambda>(opt, os, ea). os) (option_tuples s) = long_matches s"
    unfolding tuples long_matches_def by (induction option_strings) auto
  obtain a b t where abt: "option_tuples s = a # b # t"
    using assms(5) unfolding names [symmetric] by (cases "option_tuples s" rule: remdups_adj.cases) auto
  have "parse_optional s = Inl (Ambiguous s (long_matches s))"
    using shape assms(3,4) abt names [symmetric] by (simp add: parse_optional_def split: prod.split)
  with assms(2) show ?thesis
    by (simp add: parse_args_def)
qed

theorem parse_args_ambiguous_witness:
  "parse_args ''x86_64'' [''--no'', ''-h'', ''libfoo.so''] =
     Inl (Ambiguous ''--no'' [''--no-dlopen'', ''--no-lazy-load'', ''--no-thread-safe'',
                             ''--no-vtables'', ''--no-weak-symbols''])"
  using parse_args_ambiguous [of "''--no''" "''x86_64''" "[''-h'', ''libfoo.so'']"]
  by (simp add: starts_with_def option_strings_def long_matches_def)

text \<open>
  An attached value \<open>--\<close> leaves \<open>[]\<close> in the namespace; with only \<open>LIB\<close> on the
  command line every option has its declared default.
\<close>

lemma parse_args_suffix_dashdash:
  "parse_args m [''--suffix=--'', ''libfoo.so''] = Inl (ListValued [OSuffix])"
  by (simp add: parse_args_def parse_optional_def option_strings_def takes_value_def take_action_def)


lemma parse_args_default: "parse_args m [''libfoo.so''] = Inr (Some (''libfoo.so'', ''./'', default_options m))"
  by (simp add: parse_args_def parse_optional_def)

lemma tok_key_TPos: "tok_key t = TPos v \<longleftrightarrow> t = TPos v"
  by (cases t rule: tok_key.cases) auto

lemma tok_key_TSep: "tok_key t = TSep \<longleftrightarrow> t = TSep"
  by (cases t rule: tok_key.cases) auto

lemma opt_actions_os_None: "opt_actions opt os None ts = opt_actions opt os' None ts"
  by simp

lemma opt_actions_key:
  "opt_actions opt os ea (map tok_key ts) =
     (case opt_actions opt os ea ts of Inl e \<Rightarrow> Inl e | Inr (acts, rest) \<Rightarrow> Inr (acts, map tok_key rest))"
proof (induction opt os ea ts rule: opt_actions.induct)
  case (1 opt os a ts)
  show ?case
  proof (cases "takes_value opt \<or> starts_with ''--'' os \<or> a = []")
    case True
    then show ?thesis by (auto simp del: opt_actions.simps simp: opt_actions.simps(1) [of opt os a])
  next
    case False
    show ?thesis
    proof (cases "map_of option_strings [CHR ''-'', hd a]")
      case None
      with False show ?thesis
        by (simp del: opt_actions.simps add: opt_actions.simps(1) [of opt os a])
    next
      case (Some opt')
      let ?ea = "if tl a = [] then None else Some (tl a)"
      have IH: "opt_actions opt' [CHR ''-'', hd a] ?ea (map tok_key ts) =
                  (case opt_actions opt' [CHR ''-'', hd a] ?ea ts of
                     Inl e \<Rightarrow> Inl e | Inr (acts, rest) \<Rightarrow> Inr (acts, map tok_key rest))"
        using False Some by (intro "1.IH") auto
      show ?thesis
        using False Some IH
        by (simp del: opt_actions.simps add: opt_actions.simps(1) [of opt os a] split: sum.split prod.split)
    qed
  qed
next
  case (2 opt os ts)
  then show ?case
    by (cases ts) (auto simp: tok_key_TPos split: cli_tok.splits)
qed

lemma consume_args_key: "consume_args (map tok_key ts) ns = consume_args ts ns"
proof (induction ts ns rule: consume_args.induct)
  case (3 a ts ns)
  have c: "(map tok_key ts \<noteq> [] \<and> hd (map tok_key ts) = TSep) \<longleftrightarrow> (ts \<noteq> [] \<and> hd ts = TSep)"
    by (cases ts) (auto simp: tok_key_TSep)
  have "(if map tok_key ts \<noteq> [] \<and> hd (map tok_key ts) = TSep then tl (map tok_key ts) else map tok_key ts) =
        map tok_key (if ts \<noteq> [] \<and> hd ts = TSep then tl ts else ts)"
    unfolding c by (simp add: map_tl)
  with 3 show ?case by simp
next
  case (5 opt os ea ts ns)
  have "consume_args (map tok_key (TOpt opt os ea # ts)) ns = consume_args (TOpt opt os ea # map tok_key ts) ns"
    by (cases ea) simp_all
  with 5 show ?case
    by (simp add: opt_actions_key split: sum.split prod.split)
qed simp_all

lemma short_alias_tokens:
  "(short, long) \<in> set short_aliases \<Longrightarrow>
   \<exists>opt. parse_optional short = Inr (TOpt opt short None) \<and> parse_optional long = Inr (TOpt opt long None)"
proof -
  have "list_all (\<lambda>(short, long). \<exists>opt. parse_optional short = Inr (TOpt opt short None) \<and>
                                       parse_optional long = Inr (TOpt opt long None)) short_aliases"
    by (simp add: short_aliases_def parse_optional_def option_strings_def)
  moreover assume "(short, long) \<in> set short_aliases"
  ultimately show ?thesis by (auto simp: list_all_iff)
qed

lemma classify_args_append:
  "''--'' \<notin> set xs \<Longrightarrow>
   classify_args (xs @ zs) =
     (case classify_args xs of Inl e \<Rightarrow> Inl e
      | Inr ts \<Rightarrow> (case classify_args zs of Inl e \<Rightarrow> Inl e | Inr us \<Rightarrow> Inr (ts @ us)))"
  by (induction xs) (auto split: sum.split)

text \<open>
  C34. The short options \<open>-h\<close>, \<open>-v\<close>, \<open>-q\<close> and \<open>-o\<close> are aliases of
  \<open>--help\<close>, \<open>--verbose\<close>, \<open>--quiet\<close> and \<open>--outdir\<close>: replacing one by the other
  anywhere before a \<open>--\<close> never changes the result of the parse, errors included (each
  pair is declared by one \<open>add_argument\<close> and so shares its action and \<open>dest\<close>).
\<close>

theorem parse_args_short_alias:
  assumes "(short, long) \<in> set short_aliases" and "''--'' \<notin> set xs"
  shows "parse_args m (xs @ short # ys) = parse_args m (xs @ long # ys)"
proof -
  obtain opt where s: "parse_optional short = Inr (TOpt opt short None)"
    and l: "parse_optional long = Inr (TOpt opt long None)"
    using short_alias_tokens [OF assms(1)] by blast
  have ne: "short \<noteq> ''--'' \<and> long \<noteq> ''--''"
    using assms(1) by (auto simp: short_aliases_def)
  have key: "consume_args (ts @ TOpt opt short None # us) ns = consume_args (ts @ TOpt opt long None # us) ns"
    for ts us ns
  proof -
    have "consume_args (ts @ TOpt opt short None # us) ns =
          consume_args (map tok_key ts @ TOpt opt [] None # map tok_key us) ns"
      using consume_args_key [of "ts @ TOpt opt short None # us" ns] by simp
    also have "\<dots> = consume_args (ts @ TOpt opt long None # us) ns"
      using consume_args_key [of "ts @ TOpt opt long None # us" ns] by simp
    finally show ?thesis .
  qed
  have cs: "classify_args (short # ys) = (case classify_args ys of Inl e \<Rightarrow> Inl e | Inr us \<Rightarrow> Inr (TOpt opt short None # us))"
    using ne s by simp
  have cl: "classify_args (long # ys) = (case classify_args ys of Inl e \<Rightarrow> Inl e | Inr us \<Rightarrow> Inr (TOpt opt long None # us))"
    using ne l by simp
  show ?thesis
    unfolding parse_args_def classify_args_append [OF assms(2)] cs cl
    using key by (simp split: sum.split)
qed

theorem parse_args_short_alias_witness:
  "parse_args ''x86_64'' ([''-v''] @ ''-o'' # [''build'', ''libfoo.so'']) =
   parse_args ''x86_64'' ([''-v''] @ ''--outdir'' # [''build'', ''libfoo.so''])"
  by (rule parse_args_short_alias) (simp_all add: short_aliases_def)

end
