(* ===== verification/Program.thy ===== *)
theory Program
  imports Driver Cli
begin

text \<open>
  The whole of \<open>main()\<close> (lines 565-957) from the argument vector to the files it writes:
  \<open>parse_args\<close> (\<open>Cli\<close>), the \<open>--symbol-list\<close> file (lines 725-734), \<open>implib_main\<close>
  (\<open>Driver\<close>) on \<open>LIB\<close>, and the two output paths \<open>os.path.join(outdir, ...)\<close> (lines
  910 and 934). The file system is the function \<open>files\<close> (the decoded text of a path,
  \<open>None\<close> when it cannot be opened) and \<open>bytes\<close> (its raw contents).
\<close>

text \<open>\<open>os.path.join(a, b)\<close> of \<open>posixpath\<close> for two components.\<close>

definition py_path_join :: "string \<Rightarrow> string \<Rightarrow> string" where
  "py_path_join a b =
     (if b \<noteq> [] \<and> hd b = CHR ''/'' then b
      else if a = [] \<or> last a = CHR ''/'' then a @ b
      else a @ CHR ''/'' # b)"

text \<open>
  Lines 725-734: no list without \<open>--symbol-list\<close>; otherwise the file's entries, and the
  uncaught \<open>OSError\<close> of \<open>open\<close> when it cannot be read.
\<close>

definition read_symbol_list :: "(string \<Rightarrow> string option) \<Rightarrow> string option \<Rightarrow> string list option result" where
  "read_symbol_list files p =
     (case p of
        None \<Rightarrow> Inr None
      | Some path \<Rightarrow> (case files path of None \<Rightarrow> Inl OSError | Some t \<Rightarrow> Inr (Some (parse_symbol_list t))))"

text \<open>
  How a run ends: \<open>--help\<close> (status 0), a usage error (status 2), an error or uncaught
  exception (status 1), or the files written (path and contents, in order) with the
  warnings printed. \<open>GenListValued\<close> is a run the model does not follow: the options
  named hold \<open>[]\<close> where the program reads a string (\<open>take_action\<close>).
\<close>

datatype gen_result =
    GenHelp
  | GenUsage cli_error
  | GenListValued "cli_opt list"
  | GenFail py_error
  | GenDone "(string \<times> string) list" "warning list"

definition implib_gen ::
  "tools \<Rightarrow> string \<Rightarrow> (string \<Rightarrow> string option) \<Rightarrow> (string \<Rightarrow> byte list) \<Rightarrow> string list \<Rightarrow>
   (string \<Rightarrow> ini) \<Rightarrow> string \<Rightarrow> string \<Rightarrow> string \<Rightarrow> string list \<Rightarrow> gen_result" where
  "implib_gen tools machine files bytes arch_dirs config table_tpl tramp_tpl init_tpl argv =
     (case parse_args machine argv of
        Inl (ListValued os) \<Rightarrow> GenListValued os
      | Inl e \<Rightarrow> GenUsage e
      | Inr None \<Rightarrow> GenHelp
      | Inr (Some (lib, outdir, opts)) \<Rightarrow>
          (case read_symbol_list files (opt_symbol_list opts) of
             Inl e \<Rightarrow> GenFail e
           | Inr user \<Rightarrow>
               (case implib_main tools opts user lib (files lib) (bytes lib) arch_dirs config
                       table_tpl tramp_tpl init_tpl of
                  Inl e \<Rightarrow> GenFail e
                | Inr out \<Rightarrow>
                    GenDone [(py_path_join outdir (out_tramp_file out), out_tramp out),
                             (py_path_join outdir (out_init_file out), out_init out)]
                      (out_warnings out))))"

section \<open>Properties\<close>

lemma py_path_join_same_kind:
  assumes "py_path_join d a = py_path_join d b"
    and "a \<noteq> [] \<and> hd a = CHR ''/'' \<longleftrightarrow> b \<noteq> [] \<and> hd b = CHR ''/''"
  shows "a = b"
  using assms by (auto simp: py_path_join_def split: if_splits)

lemma implib_main_files:
  "implib_main tools args user f content bytes arch_dirs config table_tpl tramp_tpl init_tpl = Inr out \<Longrightarrow>
   \<exists>suffix. out_tramp_file out = suffix @ ''.tramp.S'' \<and> out_init_file out = suffix @ ''.init.c''"
  by (auto simp: implib_main_def Let_def split: sum.splits prod.splits if_splits)

text \<open>With empty templates both files are empty, for any function list.\<close>

lemma tramp_texts_empty: "tramp_texts [] lib_suffix prefix ptr_size i funs = Inr []"
  by (induction funs arbitrary: i) simp_all

text \<open>
  C24. The two files a run writes have different paths, whatever \<open>--outdir\<close> and
  \<open>--suffix\<close> are: the initialisation file never overwrites the trampoline file.
\<close>

theorem implib_gen_paths_distinct:
  assumes "implib_gen tools machine files bytes arch_dirs config table_tpl tramp_tpl init_tpl argv = GenDone fs ws"
  shows "distinct (map fst fs)"
proof -
  from assms obtain outdir out opts lib user where
      out: "implib_main tools opts user lib (files lib) (bytes lib) arch_dirs config table_tpl tramp_tpl init_tpl = Inr out"
    and fs: "fs = [(py_path_join outdir (out_tramp_file out), out_tramp out),
                   (py_path_join outdir (out_init_file out), out_init out)]"
    by (auto simp: implib_gen_def split: sum.splits option.splits prod.splits cli_error.splits)
  obtain suffix where "out_tramp_file out = suffix @ ''.tramp.S''" and "out_init_file out = suffix @ ''.init.c''"
    using implib_main_files [OF out] by blast
  moreover have "suffix @ ''.tramp.S'' \<noteq> suffix @ ''.init.c''" by simp
  moreover have "(suffix @ ''.tramp.S'' \<noteq> [] \<and> hd (suffix @ ''.tramp.S'') = CHR ''/'') \<longleftrightarrow>
                 (suffix @ ''.init.c'' \<noteq> [] \<and> hd (suffix @ ''.init.c'') = CHR ''/'')"
    by (cases suffix) simp_all
  ultimately show ?thesis
    using fs py_path_join_same_kind by auto
qed

theorem implib_gen_paths_distinct_witness:
  "\<exists>fs ws. implib_gen ex_text_tools ''x86_64'' (\<lambda>p. if p = ''/tmp/foo.def'' then Some ex_def_file else None)
     (\<lambda>_. []) [''x86_64''] (\<lambda>_. [(''Arch'', [(''pointersize'', ''8''), (''symbolreloc'', ''R_X86_64_64'')])])
     [] [] [] [''/tmp/foo.def''] = GenDone fs ws \<and> distinct (map fst fs)"
proof -
  obtain r where fe: "frontend ex_text_tools (default_options ''x86_64'') None ''/tmp/foo.def'' (Some ex_def_file)
                        (Inr (8, [''R_X86_64_64''])) = Inr r"
    using frontend_def_file_Inr [of ex_text_tools "''/tmp/foo.def''" 1 "[]" "''readelf: Error: Not an ELF file''"
                                   0 "''/tmp/foo.def: ASCII text''" "[]" "default_options ''x86_64''" ex_def_file
                                   8 "[''R_X86_64_64'']"]
    by (auto simp: default_options_def py_simps)
  have arch: "arch_info [''x86_64''] (\<lambda>_. [(''Arch'', [(''pointersize'', ''8''), (''symbolreloc'', ''R_X86_64_64'')])])
                (normalize_target (opt_target (default_options ''x86_64''))) = Inr (8, [''R_X86_64_64''])"
    by (simp add: arch_info_def default_options_def normalize_target_def is_i86_def split_comma_ws_def py_simps)
  have parse: "parse_args ''x86_64'' [''/tmp/foo.def''] = Inr (Some (''/tmp/foo.def'', ''./'', default_options ''x86_64''))"
    by (simp add: parse_args_def parse_optional_def)
  obtain out where "implib_main ex_text_tools (default_options ''x86_64'') None ''/tmp/foo.def'' (Some ex_def_file) []
                      [''x86_64''] (\<lambda>_. [(''Arch'', [(''pointersize'', ''8''), (''symbolreloc'', ''R_X86_64_64'')])])
                      [] [] [] = Inr out"
    using fe arch by (simp add: implib_main_def gen_tramp_file_def gen_init_file_def tramp_texts_empty
                        default_options_def Let_def)
  with parse have run: "implib_gen ex_text_tools ''x86_64'' (\<lambda>p. if p = ''/tmp/foo.def'' then Some ex_def_file else None)
     (\<lambda>_. []) [''x86_64''] (\<lambda>_. [(''Arch'', [(''pointersize'', ''8''), (''symbolreloc'', ''R_X86_64_64'')])])
     [] [] [] [''/tmp/foo.def''] =
       GenDone [(py_path_join ''./'' (out_tramp_file out), out_tramp out),
                (py_path_join ''./'' (out_init_file out), out_init out)] (out_warnings out)"
    by (simp add: implib_gen_def read_symbol_list_def default_options_def)
  show ?thesis
    using run implib_gen_paths_distinct [OF run] by blast
qed

text \<open>
  C6. Scenario 6 of the specification, from the command line: whatever the argument
  vector, if it parses to a target whose normalised name is not a directory under
  \<open>arch/\<close>, the run ends with \<open>unknown architecture '<name>'\<close> and writes nothing, as
  soon as the symbol list has been read, the input classified and, for a binary without
  \<open>--library-load-name\<close>, its SONAME read.
\<close>

theorem implib_gen_unknown_architecture:
  assumes "parse_args machine argv = Inr (Some (lib, outdir, opts))"
    and "read_symbol_list files (opt_symbol_list opts) = Inr user"
    and "is_binary_file tools lib = Inr binary"
    and "binary \<and> opt_library_load_name opts = None \<longrightarrow> (\<forall>e. read_soname tools lib \<noteq> Inl e)"
    and "normalize_target (opt_target opts) \<notin> set arch_dirs"
  shows "implib_gen tools machine files bytes arch_dirs config table_tpl tramp_tpl init_tpl argv =
         GenFail (Fatal (''unknown architecture '' @ [CHR 0x27] @ normalize_target (opt_target opts) @ [CHR 0x27]))"
proof -
  obtain n where "resolve_load_name tools opts binary lib (files lib) (input_stem binary lib) = Inr n"
    using resolve_load_name_Inr [OF assms(4)] by blast
  then have "implib_main tools opts user lib (files lib) (bytes lib) arch_dirs config table_tpl tramp_tpl init_tpl =
             Inl (Fatal (''unknown architecture '' @ [CHR 0x27] @ normalize_target (opt_target opts) @ [CHR 0x27]))"
    using frontend_arch_error [OF assms(3)] arch_info_unknown [OF assms(5)]
    by (simp add: implib_main_def)
  with assms(1,2) show ?thesis
    by (simp add: implib_gen_def)
qed

theorem implib_gen_unknown_architecture_witness:
  "implib_gen ex_text_tools ''x86_64'' (\<lambda>p. if p = ''/tmp/foo.def'' then Some ex_def_file else None)
     (\<lambda>_. []) [''x86_64'', ''aarch64''] (\<lambda>_. []) [] [] []
     [''--target'', ''sparc64-unknown-linux-gnu'', ''/tmp/foo.def''] =
   GenFail (Fatal (''unknown architecture '' @ [CHR 0x27] @ ''sparc64'' @ [CHR 0x27]))"
proof -
  have "parse_args ''x86_64'' [''--target'', ''sparc64-unknown-linux-gnu'', ''/tmp/foo.def''] =
        Inr (Some (''/tmp/foo.def'', ''./'', (default_options ''x86_64'')\<lparr>opt_target := ''sparc64-unknown-linux-gnu''\<rparr>))"
    by (simp add: parse_args_def parse_optional_def option_strings_def takes_value_def take_action_def)
  moreover have "normalize_target ''sparc64-unknown-linux-gnu'' = ''sparc64''"
    by (simp add: normalize_target_def is_i86_def py_simps)
  ultimately show ?thesis
    using implib_gen_unknown_architecture [of "''x86_64''" "[''--target'', ''sparc64-unknown-linux-gnu'', ''/tmp/foo.def'']"
            "''/tmp/foo.def''" "''./''" "(default_options ''x86_64'')\<lparr>opt_target := ''sparc64-unknown-linux-gnu''\<rparr>"
            "\<lambda>p. if p = ''/tmp/foo.def'' then Some ex_def_file else None" None ex_text_tools False]
    by (simp add: read_symbol_list_def is_binary_file_def default_options_def py_simps)
qed

end
