(* ===== verification/Spec2Isabelle.thy ===== *)
theory Spec2Isabelle
  imports Exports VtableEmit Emitter ElfSyms DefFile Frontend DefStep Driver Cli Program
begin

text \<open>
  \<^bold>\<open>A verification development for \<open>implib-gen.py\<close> of Implib.so.\<close>

  \<open>src/implib-gen.py\<close> reads the symbol table of a shared library (or the \<open>EXPORTS\<close> of a
  def file) through \<open>readelf\<close>/\<open>nm\<close>/\<open>file\<close>/\<open>c++filt\<close>, chooses the functions to
  intercept, and writes two files: \<open><suffix>.tramp.S\<close>, a jump table with one trampoline
  per function, and \<open><suffix>.init.c\<close>, the loader that fills the table; in vtable mode it
  also rebuilds the vtables and typeinfos of exported classes from the library's bytes and
  relocations and appends them as C data. The pipeline is \<open>main()\<close>: options \<open>\<rightarrow>\<close>
  classification and load name \<open>\<rightarrow>\<close> symbols \<open>\<rightarrow>\<close> demangled names \<open>\<rightarrow>\<close> export filter
  and function list \<open>\<rightarrow>\<close> (vtable mode: sections, raw bytes, relocations, slots, C unit)
  \<open>\<rightarrow>\<close> emitted files.

  \<^bold>\<open>Theories and the code they model.\<close>
  \<^item> \<open>Prelude\<close>: Python's errors as the datatype \<open>py_error\<close> and results as
    \<open>py_error + 'a\<close> (\<open>Inl\<close> the exception); strings as ASCII \<open>char list\<close>s with
    \<open>str.strip\<close>, \<open>str.split\<close>, \<open>re.split\<close> on runs, \<open>str.join\<close>, \<open>splitlines\<close>;
    \<open>int(s, base)\<close> (\<open>py_int\<close>, \<open>None\<close> for \<open>ValueError\<close>), \<open>str(int)\<close>, \<open>hex\<close>,
    \<open>range\<close>, slices, list item assignment, \<open>int.from_bytes\<close>; bytes are \<open>8 word\<close>s,
    Python ints are \<open>int\<close>. \<open>fold_result\<close> is a line loop whose body may raise.
    Shared lemmas, among them \<open>int(str(x)) = x\<close> and \<open>int(hex(x), 16) = x\<close>.
  \<^item> \<open>Tools\<close>: the external programs as a parameter \<open>tools\<close> (command line and standard
    input to exit status and outputs, or not found); \<open>run()\<close> (lines 38-59) and its
    error policy; the child's environment \<open>run_env\<close> (\<open>LC_ALL=c\<close>, no \<open>LANG\<close>) and
    \<open>run_in\<close>, whose result does not depend on the caller's locale variables; \<open>is_binary_file\<close> (62-92); the table rows of \<open>make_toc\<close>/\<open>parse_row\<close>.
  \<^item> \<open>Symbols\<close>: the symbol dict as the record \<open>symbol\<close>; the hand-off to \<open>c++filt\<close>.
  \<^item> \<open>ElfSyms\<close>: \<open>collect_syms\<close> (114-228): the \<open>nm -g\<close> visibility map, the
    \<open>readelf -sW\<close> parser as a state machine over lines (record \<open>symtab_parser\<close>), the
    \<open>nm -D\<close> parser for Mach-O.
  \<^item> \<open>ElfTables\<close>: \<open>collect_sections\<close> (345-379) and \<open>collect_relocs\<close> (280-342) with
    their rows as records and the relocation loop state as a datatype.
  \<^item> \<open>Exports\<close>: the option namespace, target normalisation, the \<open>--symbol-list\<close>
    parser, \<open>is_exported\<close>, the data-symbol warning, the versioned-symbol loop and the
    function list (\<open>collect_functions\<close>, lines 765-836).
  \<^item> \<open>Vtables\<close>: \<open>read_unrelocated_data\<close> (the file is its byte list) and
    \<open>collect_relocated_data\<close> (\<open>symbol_slots\<close>, \<open>overlay_relocs\<close>, the assertion).
  \<^item> \<open>VtableEmit\<close>: \<open>generate_vtables\<close>: externs, \<open>code_info\<close>, declarations, definitions.
  \<^item> \<open>Emitter\<close>: suffix, \<open>lib_suffix\<close>, load-name choice, template arguments and the text
    of both files; \<open>string.Template.substitute\<close> is \<open>tpl_substitute\<close>.
  \<^item> \<open>DefFile\<close>: \<open>collect_def_exports\<close> (231-277) with its two loops and pushed-back
    line, its one-pass specification \<open>def_spec\<close>, \<open>read_library_name\<close> (549-563) and
    \<open>read_soname\<close> (523-546) with the greedy \<open>(SONAME)\<close> expression. A text file is its
    decoded contents, \<open>None\<close> when it cannot be opened or decoded.
  \<^item> \<open>DefStep\<close>: the def-file reader's loop as an inductive transition relation
    \<open>def_step\<close> over (program point, lines left, names), one transition per
    statement, with the equivalent function \<open>def_next\<close> (\<open>code_pred\<close> keeps it
    executable).
  \<^item> \<open>Frontend\<close>: \<open>main()\<close> from the classification to the function list (736-836),
    composed of the definitions above, with the architecture lookup (\<open>arch_info\<close>,
    752-763: the directories under \<open>arch/\<close> and the parsed \<open>config.ini\<close> files are
    parameters).
  \<^item> \<open>Driver\<close>: the vtable stage of \<open>main()\<close> (class selection \<open>class_step\<close>, then
    sections, bytes, relocations and slots, 845-897), the emission of both files
    (899-957), and \<open>implib_main\<close>, a whole run after the argument parser.
  \<^item> \<open>Cli\<close>: the command line (567-692): the options as \<open>add_argument\<close> declares
    them (\<open>option_strings\<close>, the actions \<open>apply_action\<close> on the namespace record
    \<open>cli_ns\<close>) and \<open>parser.parse_args()\<close> as \<open>argparse\<close> of CPython 3.8-3.11 runs it:
    \<open>parse_optional\<close> classifies each token (exact option, \<open>--opt=value\<close>, unique
    abbreviation of a long option, short option with a value or more flags attached,
    negative number, positional, unknown), \<open>consume_args\<close> takes the tokens from the
    left (a \<open>--\<close> next to \<open>LIB\<close> is absorbed, any other is an extra; an attached value
    \<open>--\<close> becomes \<open>[]\<close>, \<open>take_action\<close>), and \<open>parse_args\<close> returns \<open>LIB\<close>,
    \<open>--outdir\<close> and the record \<open>options\<close> the other theories read, \<open>None\<close> for
    \<open>--help\<close>, or the usage error.
  \<^item> \<open>Program\<close>: \<open>implib_gen\<close>, the whole \<open>main()\<close> from the argument vector to
    the files written: \<open>parse_args\<close>, the \<open>--symbol-list\<close> file (725-734),
    \<open>implib_main\<close> on \<open>LIB\<close>, and \<open>os.path.join(outdir, ...)\<close> for both outputs; the
    file system is a parameter (decoded text and raw bytes of a path). The two output
    paths are always distinct.

  Dicts are association lists in insertion order; \<open>sorted(d.items())\<close> is
  \<open>sort_key fst\<close>. Every \<open>error()\<close>, \<open>assert\<close>, failed lookup, failed conversion and
  failed unpacking of the code is an \<open>Inl\<close> branch of the model. All loops are structural
  recursion or \<open>function\<close>s with a measure (the def-file outer loop: the number of lines
  left, which the inner loop never increases), so every definition is total and
  executable; no fuel is needed. Where the loop is a transition relation
  (\<open>def_step\<close>), that it ends is proved as such: the variant \<open>def_measure\<close> (twice the
  lines left, plus one in a loop) falls at every transition and every state but the
  last has one.

  \<^bold>\<open>What is proved\<close> (claims C1-C40, in the order of the manifest).
  \<^item> Export policy (C1-C5, C7): every trampoline is for an exported, default-version
    function and, without a user list, every such function gets one, whatever its
    binding but \<open>LOCAL\<close> (\<open>UNIQUE\<close> included); the list is sorted and duplicate-free,
    or the user's list in the user's order; the versioned-symbol warning appears at most
    once; symbol-list entries are clean.
  \<^item> Whole run (C6, C24): from any argument vector, an unknown architecture ends
    \<open>main()\<close> with \<open>unknown architecture '<name>'\<close> and no file written (scenario 6
    of the specification); the two files written always have different paths.
  \<^item> Demangling (C8): the join/split round trip gives every symbol its own line.
  \<^item> Programs (C11): the child's environment makes every run independent of the
    caller's \<open>LANG\<close> and \<open>LC_ALL\<close>.
  \<^item> Vtable data (C9, C10, C12-C18): slot counts, the word offsets the code really
    reads, commutation of the relocation overlay, totality of the loop and of the
    assertion, and what the byte reader reads or why it fails.
  \<^item> Vtable unit (C20, C23): the externs are exactly the stripped targets minus the
    class symbols, repetitions included; the shape of the unit.
  \<^item> Liveness (C21): the def-file reader's transitions always reach the final state,
    which holds the names of the functional model.
  \<^item> Pipeline (C22): on a def file the front half of \<open>main()\<close> returns the sorted
    \<open>EXPORTS\<close> names and the \<open>LIBRARY\<close> load name.
  \<^item> Emission (C25-C30): both files for any template over the documented keys (the init
    file with every substitution of the specification spelled out), slot offsets against
    the table size, the \<open>KeyError\<close> of a foreign key, the \<open>sym_names\<close> lines,
    \<open>lib_suffix\<close> as an identifier.
  \<^item> Command line (C31, C34): rendering any options record as long options and parsing
    it gives the same library, output directory and options back (every option's
    \<open>dest\<close>, default and action) when no value is \<open>--\<close>; the declared short options
    are exact aliases of their long ones.
  \<^item> Tool parsers (C19, C32, C33, C35, C36): the last \<open>nm -g\<close> line decides a name's
    visibility; the \<open>readelf -sW\<close> parser decodes every symbol from its own row (an
    invariant of the line loop) and fails on a trailing blank line; sections are
    allocatable; relocation targets read back.
  \<^item> Def files and SONAME (C37-C40): the def-file reader refines \<open>def_spec\<close> (no
    warning for an unreadable file, which returns at once); the \<open>EXPORTS\<close> round trip;
    every def symbol is a well-formed exported function symbol; \<open>read_soname\<close> returns
    the first \<open>(SONAME)\<close> name.

  Findings of the modelling: \<open>read_unrelocated_data\<close> seeks to the section offset and
  not to the symbol's (line 402); the vtable word loop multiplies the index by the
  pointer size twice (line 419); the \<open>printed\<close> set of \<open>generate_vtables\<close> is never
  filled, so externs repeat (line 456); \<open>is_exported\<close> lets \<open>UNIQUE\<close> bindings through
  (line 767); a blank last line of \<open>readelf -sW\<close> output aborts \<open>collect_syms\<close>
  (line 225); a missing \<open>readelf\<close> aborts \<open>is_binary_file\<close> (line 64); the output of
  \<open>file\<close>, which starts with the path, is searched for \<open>Mach-O\<close> (line 529);
  \<open>parser.parse_args()\<close> accepts abbreviations and clustered short options, and rejects
  ambiguous prefixes, which the specification does not mention (line 690); an attached
  value \<open>--\<close> becomes \<open>[]\<close> and the run dies with a \<open>TypeError\<close> (line 907).

  \<^bold>\<open>Not modelled.\<close> Process creation, what the programs print in the C locale, and
  the UTF-8 decoding of their outputs (a \<open>UnicodeDecodeError\<close> is not a branch): a tool is
  the function \<open>tools\<close>, its outputs already decoded. Of \<open>argparse\<close>, the wording of its
  messages and of the usage and help texts (an error is a \<open>cli_error\<close> value), and the
  changes later CPython versions made to the classification; a run in which an option
  holds \<open>[]\<close> (an attached value \<open>--\<close>) is stopped at \<open>GenListValued\<close>. The parsing done by
  \<open>configparser\<close> (its result is a parameter), the
  file system (creating the output directory, which directories exist, writing the
  files, which are returned instead) and verbose printing; the templates and
  \<open>config.ini\<close> files, which are not part of \<open>src/\<close>, are parameters. Of the parsers' rows, the
  columns \<open>Type\<close>, \<open>Bind\<close> and \<open>Ndx\<close> are required at the first row although the code
  would raise the \<open>KeyError\<close> only later (\<open>readelf\<close> always prints them), and a
  relocation's \<open>Info\<close>, never read, is kept as \<open>0\<close> when it is not a number. A file
  that is written before a later step fails is not modelled: the result is the error.
\<close>

end
